theory Spec2Isabelle
  imports Complex_Main "HOL-Library.AList" "HOL-Library.Sublist"
begin

section \<open>Values shared by the three scripts\<close>

subsection \<open>Parsed JSON documents\<close>

text \<open>
  What \<^verbatim>\<open>JSON.parse\<close> returns. An object is the list of its own properties in
  insertion order. Only the truthiness of a number is ever inspected by the scripts.
\<close>

datatype json =
    JNull
  | JBool bool
  | JNum real
  | JStr string
  | JArr "json list"
  | JObj "(string \<times> json) list"

datatype exn =
    SystemError string
  | SyntaxError
  | TypeError
  | Error string

text \<open>JavaScript truthiness of a parsed value (\<^verbatim>\<open>if (packageJson.scripts)\<close>).\<close>

fun truthy :: "json \<Rightarrow> bool" where
  "truthy JNull = False"
| "truthy (JBool b) = b"
| "truthy (JNum r) = (r \<noteq> 0)"
| "truthy (JStr s) = (s \<noteq> [])"
| "truthy (JArr xs) = True"
| "truthy (JObj kvs) = True"

text \<open>
  \<^verbatim>\<open>v.k\<close> for a key that is neither an array index nor \<^verbatim>\<open>length\<close>: \<open>None\<close> is
  \<^verbatim>\<open>undefined\<close>; reading a property of \<^verbatim>\<open>null\<close> throws.
\<close>

fun get_prop :: "string \<Rightarrow> json \<Rightarrow> exn + json option" where
  "get_prop k JNull = Inl TypeError"
| "get_prop k (JObj kvs) = Inr (map_of kvs k)"
| "get_prop k v = Inr None"

text \<open>
  \<^verbatim>\<open>delete v.k\<close> for such a key: removes an own property of an object, does nothing
  on an array or a primitive, throws on \<^verbatim>\<open>null\<close>.
\<close>

fun delete_prop :: "string \<Rightarrow> json \<Rightarrow> exn + json" where
  "delete_prop k JNull = Inl TypeError"
| "delete_prop k (JObj kvs) = Inr (JObj (AList.delete k kvs))"
| "delete_prop k v = Inr v"

text \<open>
  \<^verbatim>\<open>v.k = x\<close> in module (strict) code: an object keeps the position of an existing
  key and appends a new one; an array takes the property, but \<^verbatim>\<open>JSON.stringify\<close>
  never prints it, so the document is unchanged; \<^verbatim>\<open>null\<close> and primitives throw.
\<close>

fun set_prop :: "string \<Rightarrow> json \<Rightarrow> json \<Rightarrow> exn + json" where
  "set_prop k x (JObj kvs) = Inr (JObj (AList.update k x kvs))"
| "set_prop k x (JArr xs) = Inr (JArr xs)"
| "set_prop k x v = Inl TypeError"

text \<open>Whether a document is an object with the key \<open>k\<close>.\<close>

fun has_key :: "string \<Rightarrow> json \<Rightarrow> bool" where
  "has_key k (JObj kvs) = (k \<in> set (map fst kvs))"
| "has_key k v = False"

fun delete_props :: "string list \<Rightarrow> json \<Rightarrow> exn + json" where
  "delete_props [] v = Inr v"
| "delete_props (k # ks) v =
     (case delete_prop k v of Inl e \<Rightarrow> Inl e | Inr v' \<Rightarrow> delete_props ks v')"

definition and_then :: "exn + 'a \<Rightarrow> ('a \<Rightarrow> exn + 'b) \<Rightarrow> exn + 'b" where
  "and_then r f = (case r of Inl e \<Rightarrow> Inl e | Inr x \<Rightarrow> f x)"

text \<open>
  \<^verbatim>\<open>if (v.k) { delete v.k.k1; delete v.k.k2; ... }\<close>: the nested value is edited in
  place, so the outer object shows the edit at the position of \<^verbatim>\<open>k\<close>.
\<close>

definition delete_nested :: "string \<Rightarrow> string list \<Rightarrow> json \<Rightarrow> exn + json" where
  "delete_nested k ks v =
     and_then (get_prop k v) (\<lambda>d.
       case d of
         None \<Rightarrow> Inr v
       | Some d \<Rightarrow>
           if truthy d then and_then (delete_props ks d) (\<lambda>d'. set_prop k d' v)
           else Inr v)"

subsection \<open>The filesystem\<close>

text \<open>
  A path is the list of its components below the filesystem root. An entry is a regular
  file with its bytes or a directory with its entries in listing order; symbolic links
  and special files are not modelled.
\<close>

type_synonym path = "string list"

datatype node = File string | Dir "(string \<times> node) list"

fun lookup :: "node \<Rightarrow> path \<Rightarrow> node option" where
  "lookup n [] = Some n"
| "lookup (File c) (x # xs) = None"
| "lookup (Dir kids) (x # xs) =
     (case map_of kids x of None \<Rightarrow> None | Some k \<Rightarrow> lookup k xs)"

text \<open>
  \<open>write_at p v t\<close> puts the entry \<open>v\<close> at \<open>p\<close>, replacing what is there; the parent
  of \<open>p\<close> must be an existing directory (\<open>None\<close> otherwise).
\<close>

fun write_at :: "path \<Rightarrow> node \<Rightarrow> node \<Rightarrow> node option" where
  "write_at [] v t = Some v"
| "write_at (x # xs) v (File c) = None"
| "write_at (x # xs) v (Dir kids) =
     (case map_of kids x of
        None \<Rightarrow> if xs = [] then Some (Dir (kids @ [(x, v)])) else None
      | Some k \<Rightarrow>
          (case write_at xs v k of
             None \<Rightarrow> None
           | Some k' \<Rightarrow> Some (Dir (AList.update x k' kids))))"

text \<open>
  \<open>remove_at p t\<close> removes the entry at \<open>p\<close> with all below it, if there is one; the
  root itself stays, emptied.
\<close>

fun remove_at :: "path \<Rightarrow> node \<Rightarrow> node" where
  "remove_at [] t = Dir []"
| "remove_at (x # xs) (File c) = File c"
| "remove_at (x # xs) (Dir kids) =
     (if xs = [] then Dir (AList.delete x kids)
      else (case map_of kids x of
              None \<Rightarrow> Dir kids
            | Some k \<Rightarrow> Dir (AList.update x (remove_at xs k) kids)))"

text \<open>
  \<open>mkdirp p t\<close> creates the directory \<open>p\<close> and its missing ancestors and leaves an
  existing directory alone; \<open>None\<close> when a regular file is in the way.
\<close>

fun mkdirp :: "path \<Rightarrow> node \<Rightarrow> node option" where
  "mkdirp p (File c) = None"
| "mkdirp [] (Dir kids) = Some (Dir kids)"
| "mkdirp (x # xs) (Dir kids) =
     (case map_of kids x of
        None \<Rightarrow>
          (case mkdirp xs (Dir []) of
             None \<Rightarrow> None
           | Some k' \<Rightarrow> Some (Dir (kids @ [(x, k')])))
      | Some k \<Rightarrow>
          (case mkdirp xs k of
             None \<Rightarrow> None
           | Some k' \<Rightarrow> Some (Dir (AList.update x k' kids))))"

text \<open>The height of a tree, which bounds how deep a walk through it can go.\<close>

fun height :: "node \<Rightarrow> nat" where
  "height (File c) = 0"
| "height (Dir kids) = Suc (fold max (map (\<lambda>(n, k). height k) kids) 0)"

text \<open>
  Laying a copied entry over an existing one, as the recursive copy of fs-extra does
  with its default options: files are overwritten, directories are merged, and an entry
  of one kind never replaces an entry of the other kind.
\<close>

fun merge :: "node \<Rightarrow> node \<Rightarrow> node option"
  and merge_kids ::
    "(string \<times> node) list \<Rightarrow> (string \<times> node) list \<Rightarrow> (string \<times> node) list option" where
  "merge (File c) (File d) = Some (File c)"
| "merge (File c) (Dir dk) = None"
| "merge (Dir sk) (File d) = None"
| "merge (Dir sk) (Dir dk) = map_option Dir (merge_kids sk dk)"
| "merge_kids [] dk = Some dk"
| "merge_kids ((n, c) # sk) dk =
     (case map_of dk n of
        None \<Rightarrow> merge_kids sk (dk @ [(n, c)])
      | Some d \<Rightarrow>
          (case merge c d of
             None \<Rightarrow> None
           | Some m \<Rightarrow> merge_kids sk (AList.update n m dk)))"

subsection \<open>The process: filesystem, working directory, terminal\<close>

datatype event =
    Log string
  | ErrorLog string exn
  | SpinStart string
  | SpinSucceed string
  | SpinFail string
  | SpinWarn string
  | Uncaught exn

record world =
  fs :: node
  cwd :: path
  console :: "event list"

definition emit :: "event \<Rightarrow> world \<Rightarrow> world" where
  "emit e w = w\<lparr>console := console w @ [e]\<rparr>"

definition console_log :: "string \<Rightarrow> world \<Rightarrow> world" where
  "console_log s w = emit (Log s) w"

text \<open>The calls of Node's \<^verbatim>\<open>fs\<close> module and of fs-extra that the scripts make.\<close>

definition existsSync :: "world \<Rightarrow> path \<Rightarrow> bool" where
  "existsSync w p = (lookup (fs w) p \<noteq> None)"

definition mkdirSync :: "path \<Rightarrow> world \<Rightarrow> exn + world" where
  "mkdirSync p w =
     (case mkdirp p (fs w) of
        None \<Rightarrow> Inl (SystemError ''ENOTDIR'')
      | Some t \<Rightarrow> Inr (w\<lparr>fs := t\<rparr>))"

definition readdirSync :: "world \<Rightarrow> path \<Rightarrow> exn + string list" where
  "readdirSync w p =
     (case lookup (fs w) p of
        None \<Rightarrow> Inl (SystemError ''ENOENT'')
      | Some (File c) \<Rightarrow> Inl (SystemError ''ENOTDIR'')
      | Some (Dir kids) \<Rightarrow> Inr (map fst kids))"

text \<open>\<^verbatim>\<open>fs.statSync(p).isDirectory()\<close>.\<close>

definition statSync_isDirectory :: "world \<Rightarrow> path \<Rightarrow> exn + bool" where
  "statSync_isDirectory w p =
     (case lookup (fs w) p of
        None \<Rightarrow> Inl (SystemError ''ENOENT'')
      | Some (File c) \<Rightarrow> Inr False
      | Some (Dir kids) \<Rightarrow> Inr True)"

definition readFileSync :: "world \<Rightarrow> path \<Rightarrow> exn + string" where
  "readFileSync w p =
     (case lookup (fs w) p of
        None \<Rightarrow> Inl (SystemError ''ENOENT'')
      | Some (File c) \<Rightarrow> Inr c
      | Some (Dir kids) \<Rightarrow> Inl (SystemError ''EISDIR''))"

definition writeFileSync :: "path \<Rightarrow> string \<Rightarrow> world \<Rightarrow> exn + world" where
  "writeFileSync p c w =
     (case lookup (fs w) p of
        Some (Dir kids) \<Rightarrow> Inl (SystemError ''EISDIR'')
      | _ \<Rightarrow>
          (case write_at p (File c) (fs w) of
             None \<Rightarrow> Inl (SystemError ''ENOENT'')
           | Some t \<Rightarrow> Inr (w\<lparr>fs := t\<rparr>)))"

definition copyFileSync :: "path \<Rightarrow> path \<Rightarrow> world \<Rightarrow> exn + world" where
  "copyFileSync src dest w =
     (case readFileSync w src of
        Inl e \<Rightarrow> Inl e
      | Inr c \<Rightarrow> writeFileSync dest c w)"

definition removeSync :: "path \<Rightarrow> world \<Rightarrow> world" where
  "removeSync p w = w\<lparr>fs := remove_at p (fs w)\<rparr>"

text \<open>
  \<^verbatim>\<open>fs.copySync(src, dest)\<close> of fs-extra: the source must exist, the destination must
  be neither the source nor, for a directory, inside it; the parent of the destination
  is created when missing.
\<close>

definition copySync :: "path \<Rightarrow> path \<Rightarrow> world \<Rightarrow> exn + world" where
  "copySync src dest w =
     (case lookup (fs w) src of
        None \<Rightarrow> Inl (SystemError ''ENOENT'')
      | Some s \<Rightarrow>
          if src = dest then Inl (Error ''Source and destination must not be the same.'')
          else if (case s of Dir kids \<Rightarrow> prefix src dest | File c \<Rightarrow> False)
          then Inl (Error ''Cannot copy to a subdirectory of itself'')
          else
            (case mkdirp (butlast dest) (fs w) of
               None \<Rightarrow> Inl (SystemError ''ENOTDIR'')
             | Some t \<Rightarrow>
                 (case (case lookup t dest of None \<Rightarrow> Some s | Some d \<Rightarrow> merge s d) of
                    None \<Rightarrow> Inl (Error ''Cannot overwrite'')
                  | Some m \<Rightarrow>
                      (case write_at dest m t of
                         None \<Rightarrow> Inl (SystemError ''ENOENT'')
                       | Some t' \<Rightarrow> Inr (w\<lparr>fs := t'\<rparr>)))))"

definition chdir :: "path \<Rightarrow> world \<Rightarrow> exn + world" where
  "chdir p w =
     (case lookup (fs w) p of
        None \<Rightarrow> Inl (SystemError ''ENOENT'')
      | Some (File c) \<Rightarrow> Inl (SystemError ''ENOTDIR'')
      | Some (Dir kids) \<Rightarrow> Inr (w\<lparr>cwd := p\<rparr>))"

subsection \<open>Paths as strings\<close>

fun join_with :: "string \<Rightarrow> string list \<Rightarrow> string" where
  "join_with sep [] = []"
| "join_with sep [x] = x"
| "join_with sep (x # y # ys) = x @ sep @ join_with sep (y # ys)"

text \<open>\<^verbatim>\<open>path.relative(from, to)\<close> on POSIX.\<close>

fun path_relative :: "path \<Rightarrow> path \<Rightarrow> path" where
  "path_relative (a # as) (b # bs) =
     (if a = b then path_relative as bs else replicate (length (a # as)) ''..'' @ (b # bs))"
| "path_relative as bs = replicate (length as) ''..'' @ bs"

definition path_basename :: "path \<Rightarrow> string" where
  "path_basename p = (if p = [] then [] else last p)"

definition template_lines :: "string list \<Rightarrow> string" where
  "template_lines ls = concat (map (\<lambda>l. l @ [CHR 0x0A]) ls)"


section \<open>The template builder (scripts/build-template.js)\<close>

text \<open>
  \<open>rootDir\<close> is the directory above the script's own; it is a parameter of the model.
\<close>

definition templateDir :: "path \<Rightarrow> path" where
  "templateDir rootDir = rootDir @ [''template'']"

definition excludePatterns :: "string list" where
  "excludePatterns =
     [''node_modules'', ''dist'', ''build'', ''.git'', ''.env'', ''.env.local'',
      ''.env.development.local'', ''.env.test.local'', ''.env.production.local'',
      ''yarn.lock'', ''package-lock.json'', ''pnpm-lock.yaml'', ''.DS_Store'',
      ''Thumbs.db'', ''npm-debug.log'', ''yarn-debug.log'', ''yarn-error.log'',
      ''lerna-debug.log'', ''coverage'', ''.nyc_output'', ''playwright-report'',
      ''test-results'', ''storybook-static'', ''.storybook/manager-head.html'',
      ''bin'', ''scripts'', ''template'']"

definition filesToProcess :: "string list" where
  "filesToProcess = [''package.json'', ''README.md'', ''.gitignore'']"

text \<open>\<^verbatim>\<open>pattern.replace(/\*/g, '.*')\<close>.\<close>

definition replace_stars :: "string \<Rightarrow> string" where
  "replace_stars pattern = concat (map (\<lambda>c. if c = CHR ''*'' then ''.*'' else [c]) pattern)"

text \<open>
  One exclusion pattern against an entry. \<open>re source s\<close> stands for
  \<^verbatim>\<open>new RegExp(source).test(s)\<close>, the regular-expression engine of the runtime.
\<close>

definition pattern_matches ::
    "(string \<Rightarrow> string \<Rightarrow> bool) \<Rightarrow> string \<Rightarrow> path \<Rightarrow> string \<Rightarrow> bool" where
  "pattern_matches re relativePath filePath pattern =
     (if CHR ''*'' \<in> set pattern then re (replace_stars pattern) relativePath
      else relativePath = pattern
         \<or> prefix (pattern @ ''/'') relativePath
         \<or> path_basename filePath = pattern)"

definition shouldExclude :: "(string \<Rightarrow> string \<Rightarrow> bool) \<Rightarrow> path \<Rightarrow> path \<Rightarrow> bool" where
  "shouldExclude re filePath basePath =
     (let relativePath = join_with ''/'' (path_relative basePath filePath)
      in list_ex (pattern_matches re relativePath filePath) excludePatterns)"

text \<open>
  A \<^verbatim>\<open>for (const item of items)\<close> loop whose body may throw, or may not return:
  \<open>None\<close> is a run that never ends, \<open>Inl\<close> an exception that leaves the loop.
\<close>

fun for_each ::
    "('a \<Rightarrow> world \<Rightarrow> ((exn + unit) \<times> world) option) \<Rightarrow> 'a list \<Rightarrow> world
      \<Rightarrow> ((exn + unit) \<times> world) option" where
  "for_each body [] w = Some (Inr (), w)"
| "for_each body (x # xs) w =
     (case body x w of
        None \<Rightarrow> None
      | Some (Inl e, w') \<Rightarrow> Some (Inl e, w')
      | Some (Inr u, w') \<Rightarrow> for_each body xs w')"

text \<open>
  \<open>copyDirectory\<close> reads the directory it copies from the filesystem it writes to, and
  can run forever (a destination inside its source that no pattern excludes). The first
  argument bounds the depth of the recursion; \<open>None\<close> is a run that needs more.
\<close>

fun copyDirectory ::
    "nat \<Rightarrow> (string \<Rightarrow> string \<Rightarrow> bool) \<Rightarrow> path \<Rightarrow> path \<Rightarrow> path \<Rightarrow> world
      \<Rightarrow> ((exn + unit) \<times> world) option" where
  "copyDirectory 0 re rootDir src dest w = None"
| "copyDirectory (Suc n) re rootDir src dest w =
     (case (if \<not> existsSync w dest then mkdirSync dest w else Inr w) of
        Inl e \<Rightarrow> Some (Inl e, w)
      | Inr w1 \<Rightarrow>
          (case readdirSync w1 src of
             Inl e \<Rightarrow> Some (Inl e, w1)
           | Inr items \<Rightarrow>
               for_each
                 (\<lambda>item w2.
                    let srcPath = src @ [item]; destPath = dest @ [item] in
                    if shouldExclude re srcPath rootDir then
                      Some (Inr (),
                        console_log (''Excluding: '' @ join_with ''/'' (path_relative rootDir srcPath)) w2)
                    else
                      (case statSync_isDirectory w2 srcPath of
                         Inl e \<Rightarrow> Some (Inl e, w2)
                       | Inr isDir \<Rightarrow>
                           if isDir then copyDirectory n re rootDir srcPath destPath w2
                           else
                             (case copyFileSync srcPath destPath w2 of
                                Inl e \<Rightarrow> Some (Inl e, w2)
                              | Inr w3 \<Rightarrow>
                                  Some (Inr (),
                                    console_log
                                      (''Copied: '' @ join_with ''/'' (path_relative rootDir srcPath)) w3))))
                 items w1))"

text \<open>The edits of the parsed manifest, lines 99 to 122 of the script.\<close>

definition rewritePackageJson :: "json \<Rightarrow> exn + json" where
  "rewritePackageJson packageJson =
     and_then (delete_prop ''bin'' packageJson) (\<lambda>j.
     and_then (delete_prop ''files'' j) (\<lambda>j.
     and_then (set_prop ''name'' (JStr ''my-react-app'') j) (\<lambda>j.
     and_then (set_prop ''version'' (JStr ''0.1.0'') j) (\<lambda>j.
     and_then (set_prop ''private'' (JBool True) j) (\<lambda>j.
     and_then (delete_nested ''devDependencies''
                 [''chalk'', ''commander'', ''fs-extra'', ''inquirer'', ''ora''] j) (\<lambda>j.
     delete_nested ''scripts'' [''prepublishOnly'', ''build-template'', ''test-cli''] j))))))"

definition gitignoreContent :: string where
  "gitignoreContent = template_lines
     [''# Dependencies'',
      ''node_modules/'',
      ''.pnp'',
      ''.pnp.js'',
      '''',
      ''# Testing'',
      ''coverage/'',
      ''.nyc_output/'',
      ''playwright-report/'',
      ''test-results/'',
      '''',
      ''# Production'',
      ''build/'',
      ''dist/'',
      '''',
      ''# Environment variables'',
      ''.env'',
      ''.env.local'',
      ''.env.development.local'',
      ''.env.test.local'',
      ''.env.production.local'',
      '''',
      ''# Logs'',
      ''npm-debug.log*'',
      ''yarn-debug.log*'',
      ''yarn-error.log*'',
      ''lerna-debug.log*'',
      '''',
      ''# Runtime data'',
      ''pids'',
      ''*.pid'',
      ''*.seed'',
      ''*.pid.lock'',
      '''',
      ''# IDE'',
      ''.vscode/'',
      ''.idea/'',
      ''*.swp'',
      ''*.swo'',
      '''',
      ''# OS'',
      ''.DS_Store'',
      ''.DS_Store?'',
      ''._*'',
      ''.Spotlight-V100'',
      ''.Trashes'',
      ''ehthumbs.db'',
      ''Thumbs.db'',
      '''',
      ''# Storybook'',
      ''storybook-static/'',
      '''',
      ''# MSW'',
      ''public/mockServiceWorker.js'',
      '''',
      ''# Husky'',
      ''.husky/_/'']"

definition readmeContent :: string where
  "readmeContent = template_lines
     [''# {{PROJECT_NAME}}'',
      '''',
      ''A modern, production-ready React application built with the React Vite Boilerplate.'',
      '''',
      ''## '' @ [CHR 0xF0, CHR 0x9F, CHR 0x9A, CHR 0x80] @ '' Getting Started'',
      '''',
      ''### Prerequisites'',
      '''',
      ''- **Node.js** 20+'',
      ''- **npm/yarn/pnpm** (latest version)'',
      '''',
      ''### Installation'',
      '''',
      ''1. **Install dependencies**'',
      ''   '' @ [CHR 0x60, CHR 0x60, CHR 0x60] @ ''bash'',
      ''   npm install'',
      ''   # or'',
      ''   yarn install'',
      ''   # or'',
      ''   pnpm install'',
      ''   '' @ [CHR 0x60, CHR 0x60, CHR 0x60],
      '''',
      ''2. **Set up environment variables**'',
      ''   '' @ [CHR 0x60, CHR 0x60, CHR 0x60] @ ''bash'',
      ''   cp .env.example .env'',
      ''   '' @ [CHR 0x60, CHR 0x60, CHR 0x60],
      '''',
      ''3. **Start development server**'',
      ''   '' @ [CHR 0x60, CHR 0x60, CHR 0x60] @ ''bash'',
      ''   npm run dev'',
      ''   # or'',
      ''   yarn dev'',
      ''   # or'',
      ''   pnpm dev'',
      ''   '' @ [CHR 0x60, CHR 0x60, CHR 0x60],
      '''',
      ''4. **Open your browser**'',
      ''   Navigate to [http://localhost:3000](http://localhost:3000)'',
      '''',
      ''## '' @ [CHR 0xF0, CHR 0x9F, CHR 0x93, CHR 0x9C] @ '' Available Scripts'',
      '''',
      ''### Development'',
      ''- '' @ [CHR 0x60] @ ''npm run dev'' @ [CHR 0x60] @ '' - Start development server'',
      ''- '' @ [CHR 0x60] @ ''npm run build'' @ [CHR 0x60] @ '' - Build for production'',
      ''- '' @ [CHR 0x60] @ ''npm run preview'' @ [CHR 0x60] @ '' - Preview production build'',
      ''- '' @ [CHR 0x60] @ ''npm run generate'' @ [CHR 0x60] @ '' - Generate new components'',
      '''',
      ''### Testing'',
      ''- '' @ [CHR 0x60] @ ''npm run test'' @ [CHR 0x60] @ '' - Run unit tests'',
      ''- '' @ [CHR 0x60] @ ''npm run test-e2e'' @ [CHR 0x60] @ '' - Run E2E tests'',
      ''- '' @ [CHR 0x60] @ ''npm run storybook'' @ [CHR 0x60] @ '' - Start Storybook'',
      '''',
      ''### Code Quality'',
      ''- '' @ [CHR 0x60] @ ''npm run lint'' @ [CHR 0x60] @ '' - Run ESLint'',
      ''- '' @ [CHR 0x60] @ ''npm run check-types'' @ [CHR 0x60] @ '' - Type checking'',
      '''',
      ''## '' @ [CHR 0xF0, CHR 0x9F, CHR 0x93, CHR 0x9A] @ '' Documentation'',
      '''',
      ''- **[Architecture Documentation](./docs/README.md)** - Comprehensive architecture guide'',
      ''- **[Security Guide](./docs/SECURITY.md)** - Security implementation details'',
      ''- **[Development Guide](./docs/DEVELOPMENT.md)** - Development workflow and tools'',
      ''- **[Deployment Guide](./docs/DEPLOYMENT.md)** - Build and deployment strategies'',
      '''',
      ''## '' @ [CHR 0xE2, CHR 0x9C, CHR 0xA8] @ '' Features'',
      '''',
      ''- '' @ [CHR 0xF0, CHR 0x9F, CHR 0x9A, CHR 0x80] @ '' **React 18** with TypeScript and Vite'',
      ''- '' @ [CHR 0xF0, CHR 0x9F, CHR 0x94, CHR 0x90] @ '' **Authentication** with JWT and role-based access control'',
      ''- '' @ [CHR 0xF0, CHR 0x9F, CHR 0x8E, CHR 0xA8] @ '' **TailwindCSS** with Radix UI components'',
      ''- '' @ [CHR 0xF0, CHR 0x9F, CHR 0x93, CHR 0x8A] @ '' **TanStack Query** for server state management'',
      ''- '' @ [CHR 0xF0, CHR 0x9F, CHR 0xA7, CHR 0xAA] @ '' **Comprehensive Testing** with Vitest and Playwright'',
      ''- '' @ [CHR 0xF0, CHR 0x9F, CHR 0x93, CHR 0x9A] @ '' **Storybook** for component development'',
      ''- '' @ [CHR 0xF0, CHR 0x9F, CHR 0x94, CHR 0xA7] @ '' **Developer Tools** with ESLint, Prettier, and Husky'',
      '''',
      ''## '' @ [CHR 0xF0, CHR 0x9F, CHR 0x8F, CHR 0x97, CHR 0xEF, CHR 0xB8, CHR 0x8F] @ '' Project Structure'',
      '''',
      [CHR 0x60, CHR 0x60, CHR 0x60],
      ''src/'',
      [CHR 0xE2, CHR 0x94, CHR 0x9C, CHR 0xE2, CHR 0x94, CHR 0x80, CHR 0xE2, CHR 0x94, CHR 0x80] @ '' app/                    # App configuration and routing'',
      [CHR 0xE2, CHR 0x94, CHR 0x9C, CHR 0xE2, CHR 0x94, CHR 0x80, CHR 0xE2, CHR 0x94, CHR 0x80] @ '' components/             # Reusable UI components'',
      [CHR 0xE2, CHR 0x94, CHR 0x9C, CHR 0xE2, CHR 0x94, CHR 0x80, CHR 0xE2, CHR 0x94, CHR 0x80] @ '' features/              # Feature-based modules'',
      [CHR 0xE2, CHR 0x94, CHR 0x9C, CHR 0xE2, CHR 0x94, CHR 0x80, CHR 0xE2, CHR 0x94, CHR 0x80] @ '' hooks/                 # Custom React hooks'',
      [CHR 0xE2, CHR 0x94, CHR 0x9C, CHR 0xE2, CHR 0x94, CHR 0x80, CHR 0xE2, CHR 0x94, CHR 0x80] @ '' lib/                   # Utility libraries'',
      [CHR 0xE2, CHR 0x94, CHR 0x9C, CHR 0xE2, CHR 0x94, CHR 0x80, CHR 0xE2, CHR 0x94, CHR 0x80] @ '' testing/               # Testing utilities'',
      [CHR 0xE2, CHR 0x94, CHR 0x9C, CHR 0xE2, CHR 0x94, CHR 0x80, CHR 0xE2, CHR 0x94, CHR 0x80] @ '' types/                 # TypeScript type definitions'',
      [CHR 0xE2, CHR 0x94, CHR 0x94, CHR 0xE2, CHR 0x94, CHR 0x80, CHR 0xE2, CHR 0x94, CHR 0x80] @ '' utils/                 # Utility functions'',
      [CHR 0x60, CHR 0x60, CHR 0x60],
      '''',
      ''## '' @ [CHR 0xF0, CHR 0x9F, CHR 0xA4, CHR 0x9D] @ '' Contributing'',
      '''',
      ''1. Fork the repository'',
      ''2. Create your feature branch ('' @ [CHR 0x60] @ ''git checkout -b feature/amazing-feature'' @ [CHR 0x60] @ '')'',
      ''3. Commit your changes ('' @ [CHR 0x60] @ ''git commit -m '' @ [CHR 0x27] @ ''Add amazing feature'' @ [CHR 0x27, CHR 0x60] @ '')'',
      ''4. Push to the branch ('' @ [CHR 0x60] @ ''git push origin feature/amazing-feature'' @ [CHR 0x60] @ '')'',
      ''5. Open a Pull Request'',
      '''',
      ''## '' @ [CHR 0xF0, CHR 0x9F, CHR 0x93, CHR 0x84] @ '' License'',
      '''',
      ''This project is licensed under the MIT License.'']"


text \<open>
  \<open>parse\<close> and \<open>stringify\<close> stand for \<^verbatim>\<open>JSON.parse\<close> (\<open>None\<close>: a SyntaxError) and
  \<^verbatim>\<open>JSON.stringify(v, null, 2)\<close>. The result pairs what the call did (returned or
  threw) with the world it left behind.
\<close>

definition processPackageJson ::
    "(string \<Rightarrow> json option) \<Rightarrow> (json \<Rightarrow> string) \<Rightarrow> path \<Rightarrow> world \<Rightarrow> exn + world" where
  "processPackageJson parse stringify rootDir w =
     (let packageJsonPath = templateDir rootDir @ [''package.json''] in
      if existsSync w packageJsonPath then
        and_then (readFileSync w packageJsonPath) (\<lambda>text.
          case parse text of
            None \<Rightarrow> Inl SyntaxError
          | Some packageJson \<Rightarrow>
              and_then (rewritePackageJson packageJson) (\<lambda>packageJson'.
              and_then (writeFileSync packageJsonPath (stringify packageJson') w) (\<lambda>w'.
              Inr (console_log ''Processed: package.json'' w'))))
      else Inr w)"

definition processTemplateFiles ::
    "(string \<Rightarrow> json option) \<Rightarrow> (json \<Rightarrow> string) \<Rightarrow> path \<Rightarrow> world
      \<Rightarrow> (exn + unit) \<times> world" where
  "processTemplateFiles parse stringify rootDir w =
     (case processPackageJson parse stringify rootDir w of
        Inl e \<Rightarrow> (Inl e, w)
      | Inr w1 \<Rightarrow>
          (case writeFileSync (templateDir rootDir @ [''.gitignore'']) gitignoreContent w1 of
             Inl e \<Rightarrow> (Inl e, w1)
           | Inr w2 \<Rightarrow>
               (let w3 = console_log ''Created: .gitignore'' w2 in
                case writeFileSync (templateDir rootDir @ [''README.md'']) readmeContent w3 of
                  Inl e \<Rightarrow> (Inl e, w3)
                | Inr w4 \<Rightarrow> (Inr (), console_log ''Created: README.md'' w4))))"

definition building_message :: string where
  "building_message =
     [CHR 0xF0, CHR 0x9F, CHR 0x8F, CHR 0x97, CHR 0xEF, CHR 0xB8, CHR 0x8F] @ ''  Building template...'' @ [CHR 0x0A]"

definition copying_message :: string where
  "copying_message =
     [CHR 0x0A, CHR 0xF0, CHR 0x9F, CHR 0x93, CHR 0x81] @ '' Copying files...''"

definition processing_message :: string where
  "processing_message =
     [CHR 0x0A, CHR 0xE2, CHR 0x9A, CHR 0x99, CHR 0xEF, CHR 0xB8, CHR 0x8F] @ ''  Processing template files...''"

definition built_message :: string where
  "built_message =
     [CHR 0x0A, CHR 0xE2, CHR 0x9C, CHR 0x85] @ '' Template built successfully!''"

definition location_message :: string where
  "location_message =
     [CHR 0xF0, CHR 0x9F, CHR 0x93, CHR 0xA6] @ '' Template location: ''"

text \<open>Lines 299 to 308: the world in which the copy starts.\<close>

definition start_build :: "path \<Rightarrow> world \<Rightarrow> world" where
  "start_build rootDir w =
     (let w0 = console_log building_message w;
          w1 = (if existsSync w0 (templateDir rootDir)
                then console_log ''Removed existing template directory''
                       (removeSync (templateDir rootDir) w0)
                else w0)
      in console_log copying_message w1)"

text \<open>Lines 315 to 318: the closing messages.\<close>

definition finish_build :: "path \<Rightarrow> world \<Rightarrow> world" where
  "finish_build rootDir w =
     console_log
       (location_message @ join_with ''/'' (path_relative (cwd w) (templateDir rootDir)))
       (console_log built_message w)"

definition buildTemplate ::
    "nat \<Rightarrow> (string \<Rightarrow> string \<Rightarrow> bool) \<Rightarrow> (string \<Rightarrow> json option) \<Rightarrow> (json \<Rightarrow> string)
      \<Rightarrow> path \<Rightarrow> world \<Rightarrow> ((exn + unit) \<times> world) option" where
  "buildTemplate n re parse stringify rootDir w =
     (case copyDirectory n re rootDir rootDir (templateDir rootDir) (start_build rootDir w) of
        None \<Rightarrow> None
      | Some (Inl e, w3) \<Rightarrow> Some (Inl e, w3)
      | Some (Inr u, w3) \<Rightarrow>
          (case processTemplateFiles parse stringify rootDir
                  (console_log processing_message w3) of
             (Inl e, w4) \<Rightarrow> Some (Inl e, w4)
           | (Inr u', w4) \<Rightarrow> Some (Inr (), finish_build rootDir w4)))"

text \<open>
  The script itself: \<^verbatim>\<open>buildTemplate().catch(...)\<close>. The result is the exit code of
  the process with the world it leaves.
\<close>

definition build_template_script ::
    "nat \<Rightarrow> (string \<Rightarrow> string \<Rightarrow> bool) \<Rightarrow> (string \<Rightarrow> json option) \<Rightarrow> (json \<Rightarrow> string)
      \<Rightarrow> path \<Rightarrow> world \<Rightarrow> (nat \<times> world) option" where
  "build_template_script n re parse stringify rootDir w =
     (case buildTemplate n re parse stringify rootDir w of
        None \<Rightarrow> None
      | Some (Inl e, w') \<Rightarrow> Some (1, emit (ErrorLog ([CHR 0xE2, CHR 0x9D, CHR 0x8C] @ '' Error building template:'') e) w')
      | Some (Inr u, w') \<Rightarrow> Some (0, w'))"

text \<open>
  Two notions for the statements about the builder. A relative path is \<open>allowed\<close> below
  \<open>src\<close> when no entry on the way from \<open>src\<close> to it is excluded; two runs \<open>end_alike\<close>
  when both never end, or both end the same way and leave the same filesystem.
\<close>

definition allowed :: "(string \<Rightarrow> string \<Rightarrow> bool) \<Rightarrow> path \<Rightarrow> path \<Rightarrow> path \<Rightarrow> bool" where
  "allowed re rootDir src r =
     list_all (\<lambda>s. s = [] \<or> \<not> shouldExclude re (src @ s) rootDir) (prefixes r)"

definition end_alike ::
    "((exn + unit) \<times> world) option \<Rightarrow> ((exn + unit) \<times> world) option \<Rightarrow> bool" where
  "end_alike a b =
     (case (a, b) of
        (None, None) \<Rightarrow> True
      | (Some (r, v), Some (r', w)) \<Rightarrow> r = r' \<and> fs v = fs w
      | _ \<Rightarrow> False)"

section \<open>The project generator (bin/cli.js)\<close>

record options =
  opt_template :: string
  opt_packageManager :: string
  opt_skipInstall :: bool
  opt_skipGit :: bool

text \<open>
  The person at the terminal: the lines typed at the name prompt, one per attempt, and
  the answers that would be given to the other questions.
\<close>

record user =
  typed_names :: "string list"
  chosen_packageManager :: string
  confirm_install :: bool
  confirm_git :: bool
  confirm_env :: bool
  confirm_overwrite :: bool

text \<open>The answers object of the second prompt: a question that is not asked leaves no key.\<close>

record answers =
  ans_packageManager :: "string option"
  ans_installDependencies :: "bool option"
  ans_initializeGit :: "bool option"
  ans_setupEnvironment :: "bool option"

record config =
  projectName :: string
  packageManager :: string
  installDependencies :: bool
  initializeGit :: bool
  setupEnvironment :: bool
  template :: string

datatype validation = Valid | Invalid string

text \<open>
  \<^verbatim>\<open>input.trim()\<close> on bytes: the white space of ASCII. Which of the two messages a
  rejected name gets is all that depends on it.
\<close>

definition is_space :: "char \<Rightarrow> bool" where
  "is_space c = (c \<in> set [CHR 0x20, CHR 0x09, CHR 0x0A, CHR 0x0B, CHR 0x0C, CHR 0x0D])"

definition trim :: "string \<Rightarrow> string" where
  "trim s = rev (dropWhile is_space (rev (dropWhile is_space s)))"

text \<open>The character class \<^verbatim>\<open>[a-zA-Z0-9-_]\<close>.\<close>

definition name_char :: "char \<Rightarrow> bool" where
  "name_char c =
     (c \<in> set (''abcdefghijklmnopqrstuvwxyz'' @ ''ABCDEFGHIJKLMNOPQRSTUVWXYZ''
               @ ''0123456789'' @ ''-_''))"

text \<open>\<^verbatim>\<open>/^[a-zA-Z0-9-_]+$/.test(input)\<close>.\<close>

definition name_pattern :: "string \<Rightarrow> bool" where
  "name_pattern input = (input \<noteq> [] \<and> list_all name_char input)"

definition validate :: "string \<Rightarrow> validation" where
  "validate input =
     (if trim input = [] then Invalid ''Project name is required''
      else if \<not> name_pattern input then
        Invalid ''Project name can only contain letters, numbers, hyphens, and underscores''
      else Valid)"

text \<open>
  The name prompt of inquirer: an empty line stands for the default, the answer is
  validated, and a rejected answer asks again. \<open>None\<close>: no typed line is ever accepted,
  and the prompt waits.
\<close>

fun prompt_projectName :: "string list \<Rightarrow> string option" where
  "prompt_projectName [] = None"
| "prompt_projectName (l # ls) =
     (let input = (if l = [] then ''my-react-app'' else l)
      in if validate input = Valid then Some input else prompt_projectName ls)"

definition prompt_answers :: "options \<Rightarrow> user \<Rightarrow> answers" where
  "prompt_answers opts u =
     \<lparr> ans_packageManager =
         (if opt_packageManager opts = [] then Some (chosen_packageManager u) else None),
       ans_installDependencies =
         (if \<not> opt_skipInstall opts then Some (confirm_install u) else None),
       ans_initializeGit = (if \<not> opt_skipGit opts then Some (confirm_git u) else None),
       ans_setupEnvironment = Some (confirm_env u) \<rparr>"

definition resolve_config :: "string \<Rightarrow> options \<Rightarrow> answers \<Rightarrow> config" where
  "resolve_config name opts a =
     \<lparr> projectName = name,
       packageManager =
         (if opt_packageManager opts \<noteq> [] then opt_packageManager opts
          else (case ans_packageManager a of
                  Some pm \<Rightarrow> if pm \<noteq> [] then pm else ''npm''
                | None \<Rightarrow> ''npm'')),
       installDependencies = (\<not> opt_skipInstall opts \<and> ans_installDependencies a \<noteq> Some False),
       initializeGit = (\<not> opt_skipGit opts \<and> ans_initializeGit a \<noteq> Some False),
       setupEnvironment = (ans_setupEnvironment a \<noteq> Some False),
       template = opt_template opts \<rparr>"

fun split_on :: "char \<Rightarrow> string \<Rightarrow> string list" where
  "split_on c [] = [[]]"
| "split_on c (x # xs) =
     (if x = c then [] # split_on c xs
      else (case split_on c xs of
              [] \<Rightarrow> [[x]]
            | s # ss \<Rightarrow> (x # s) # ss))"

definition resolve_segment :: "string \<Rightarrow> path \<Rightarrow> path" where
  "resolve_segment seg p =
     (if seg = [] \<or> seg = ''.'' then p
      else if seg = ''..'' then butlast p
      else p @ [seg])"

text \<open>\<^verbatim>\<open>path.resolve(dir, name)\<close> on POSIX, for an absolute, normalised \<open>dir\<close>.\<close>

definition path_resolve :: "path \<Rightarrow> string \<Rightarrow> path" where
  "path_resolve dir name =
     fold resolve_segment (split_on CHR ''/'' name)
       (if name \<noteq> [] \<and> hd name = CHR ''/'' then [] else dir)"

text \<open>A name that is one path segment: not empty, without a slash, and not a dot name.\<close>

definition simple_segment :: "string \<Rightarrow> bool" where
  "simple_segment name =
     (name \<noteq> [] \<and> CHR ''/'' \<notin> set name \<and> name \<noteq> ''.'' \<and> name \<noteq> ''..'')"

text \<open>
  \<open>exec command dir w\<close> stands for \<^verbatim>\<open>execSync(command)\<close> run in directory \<open>dir\<close>: the
  child process may change the filesystem, and a non-zero exit throws.
\<close>

type_synonym exec = "string \<Rightarrow> path \<Rightarrow> world \<Rightarrow> (exn + unit) \<times> world"

text \<open>The three commands of the git step, stopping at the first that throws.\<close>

fun exec_all :: "exec \<Rightarrow> string list \<Rightarrow> world \<Rightarrow> (exn + unit) \<times> world" where
  "exec_all exec [] w = (Inr (), w)"
| "exec_all exec (c # cs) w =
     (case exec c (cwd w) w of
        (Inl e, w') \<Rightarrow> (Inl e, w')
      | (Inr u, w') \<Rightarrow> exec_all exec cs w')"

text \<open>The object literal that maps a package manager to its install command.\<close>

definition installCommand :: "string \<Rightarrow> string option" where
  "installCommand pm =
     (if pm = ''npm'' then Some ''npm install''
      else if pm = ''yarn'' then Some ''yarn install''
      else if pm = ''pnpm'' then Some ''pnpm install''
      else None)"

text \<open>Lines 125 to 134: the copy of the template, which rethrows.\<close>

definition copy_template :: "path \<Rightarrow> path \<Rightarrow> world \<Rightarrow> (exn + unit) \<times> world" where
  "copy_template rootDir projectPath w =
     (let w1 = emit (SpinStart ''Copying template files...'') w in
      case copySync (rootDir @ [''template'']) projectPath w1 of
        Inl e \<Rightarrow> (Inl e, emit (SpinFail ''Failed to copy template files'') w1)
      | Inr w2 \<Rightarrow> (Inr (), emit (SpinSucceed ''Template files copied'') w2))"

text \<open>Lines 136 to 142: the manifest takes the project's name.\<close>

definition update_package_json ::
    "(string \<Rightarrow> json option) \<Rightarrow> (json \<Rightarrow> string) \<Rightarrow> path \<Rightarrow> string \<Rightarrow> world
      \<Rightarrow> (exn + unit) \<times> world" where
  "update_package_json parse stringify projectPath name w =
     (let projectPackageJsonPath = projectPath @ [''package.json''] in
      if existsSync w projectPackageJsonPath then
        (case and_then (readFileSync w projectPackageJsonPath) (\<lambda>text.
                case parse text of
                  None \<Rightarrow> Inl SyntaxError
                | Some projectPackageJson \<Rightarrow>
                    and_then (set_prop ''name'' (JStr name) projectPackageJson) (\<lambda>j.
                    writeFileSync projectPackageJsonPath (stringify j) w)) of
           Inl e \<Rightarrow> (Inl e, w)
         | Inr w' \<Rightarrow> (Inr (), w'))
      else (Inr (), w))"

text \<open>Lines 144 to 158: the environment file; its own catch turns a throw into a warning.\<close>

definition setup_environment :: "path \<Rightarrow> world \<Rightarrow> world" where
  "setup_environment projectPath w =
     (let w1 = emit (SpinStart ''Setting up environment variables...'') w;
          envExamplePath = projectPath @ [''.env.example''];
          envPath = projectPath @ [''.env'']
      in case (if existsSync w1 envExamplePath then copySync envExamplePath envPath w1
               else Inr w1) of
           Inl e \<Rightarrow> emit (SpinWarn ''Could not set up environment variables'') w1
         | Inr w2 \<Rightarrow> emit (SpinSucceed ''Environment variables set up'') w2)"

text \<open>Lines 160 to 172: the git repository.\<close>

definition initialize_git :: "exec \<Rightarrow> path \<Rightarrow> world \<Rightarrow> world" where
  "initialize_git exec projectPath w =
     (let w1 = emit (SpinStart ''Initializing git repository...'') w in
      case chdir projectPath w1 of
        Inl e \<Rightarrow> emit (SpinWarn ''Could not initialize git repository'') w1
      | Inr w2 \<Rightarrow>
          (case exec_all exec
                  [''git init'', ''git add .'',
                   ''git commit -m '' @ [CHR 0x22] @ ''Initial commit from React Vite Boilerplate''
                     @ [CHR 0x22]] w2 of
             (Inl e, w3) \<Rightarrow> emit (SpinWarn ''Could not initialize git repository'') w3
           | (Inr u, w3) \<Rightarrow> emit (SpinSucceed ''Git repository initialized'') w3))"

text \<open>
  Lines 174 to 193: the installation. A package manager outside the table leaves the
  command undefined, and \<^verbatim>\<open>execSync(undefined)\<close> throws a TypeError.
\<close>

definition install_failed :: "config \<Rightarrow> world \<Rightarrow> world" where
  "install_failed cfg w =
     console_log (''cd '' @ projectName cfg @ '' && '' @ packageManager cfg @ '' install'')
       (console_log ([CHR 0x0A] @ ''You can install dependencies manually by running:'')
          (emit (SpinFail ''Failed to install dependencies'') w))"

definition install_dependencies :: "exec \<Rightarrow> path \<Rightarrow> config \<Rightarrow> world \<Rightarrow> world" where
  "install_dependencies exec projectPath cfg w =
     (let w1 = emit (SpinStart (''Installing dependencies with '' @ packageManager cfg @ ''...'')) w in
      case chdir projectPath w1 of
        Inl e \<Rightarrow> install_failed cfg w1
      | Inr w2 \<Rightarrow>
          (case installCommand (packageManager cfg) of
             None \<Rightarrow> install_failed cfg w2
           | Some command \<Rightarrow>
               (case exec command (cwd w2) w2 of
                  (Inl e, w3) \<Rightarrow> install_failed cfg w3
                | (Inr u, w3) \<Rightarrow> emit (SpinSucceed ''Dependencies installed'') w3)))"

text \<open>Lines 195 to 230: the closing messages.\<close>

definition success_message :: "config \<Rightarrow> string list" where
  "success_message cfg =
     [([CHR 0x0A, CHR 0xE2, CHR 0x9C, CHR 0x85] @ '' Project created successfully!'' @ [CHR 0x0A]),
      ''Next steps:'',
      ''  cd '' @ projectName cfg]
     @ (if \<not> installDependencies cfg then [''  '' @ packageManager cfg @ '' install''] else [])
     @ [''  '' @ packageManager cfg @ '' dev'',
        ([CHR 0x0A] @ ''Available scripts:''),
        ''  '' @ packageManager cfg @ ('' dev          # Start development server''),
        ''  '' @ packageManager cfg @ ('' build        # Build for production''),
        ''  '' @ packageManager cfg @ ('' test         # Run unit tests''),
        ''  '' @ packageManager cfg @ ('' test-e2e     # Run E2E tests''),
        ''  '' @ packageManager cfg @ ('' storybook    # Start Storybook''),
        ''  '' @ packageManager cfg @ ('' generate     # Generate components''),
        ([CHR 0x0A] @ ''Documentation:''),
        (''  '' @ [CHR 0xF0, CHR 0x9F, CHR 0x93, CHR 0x9A] @ '' Architecture docs: docs/README.md''),
        (''  '' @ [CHR 0xF0, CHR 0x9F, CHR 0x94, CHR 0x90] @ '' Security guide: docs/SECURITY.md''),
        (''  '' @ [CHR 0xF0, CHR 0x9F, CHR 0x9A, CHR 0x80] @ '' Deployment guide: docs/DEPLOYMENT.md''),
        ([CHR 0x0A] @ ''Features included:''),
        (''  '' @ [CHR 0xE2, CHR 0x9C, CHR 0x93] @ '' React 18 + TypeScript + Vite''),
        (''  '' @ [CHR 0xE2, CHR 0x9C, CHR 0x93] @ '' Authentication & Authorization''),
        (''  '' @ [CHR 0xE2, CHR 0x9C, CHR 0x93] @ '' TailwindCSS + Radix UI''),
        (''  '' @ [CHR 0xE2, CHR 0x9C, CHR 0x93] @ '' TanStack Query + Zustand''),
        (''  '' @ [CHR 0xE2, CHR 0x9C, CHR 0x93] @ '' Testing (Vitest + Playwright)''),
        (''  '' @ [CHR 0xE2, CHR 0x9C, CHR 0x93] @ '' Storybook + Component Generation''),
        (''  '' @ [CHR 0xE2, CHR 0x9C, CHR 0x93] @ '' ESLint + Prettier + Husky''),
        (''  '' @ [CHR 0xE2, CHR 0x9C, CHR 0x93] @ '' Comprehensive Documentation''),
        ([CHR 0x0A, CHR 0xF0, CHR 0x9F, CHR 0x8E, CHR 0x89] @ '' Happy coding!'' @ [CHR 0x0A])]"

definition print_success :: "config \<Rightarrow> world \<Rightarrow> world" where
  "print_success cfg w = fold console_log (success_message cfg) w"

definition creating_message :: string where
  "creating_message =
     [CHR 0x0A, CHR 0xF0, CHR 0x9F, CHR 0x9A, CHR 0x80] @ '' Creating your React Vite Boilerplate project...'' @ [CHR 0x0A]"

text \<open>
  \<open>createProject\<close>. \<open>rootDir\<close> is the directory above the script's own, where the
  template lies. \<open>None\<close>: the name prompt never gets an answer it accepts.
\<close>

definition resolve_name :: "string option \<Rightarrow> user \<Rightarrow> string option" where
  "resolve_name arg u =
     (case arg of
        Some name \<Rightarrow> if name \<noteq> [] then Some name else prompt_projectName (typed_names u)
      | None \<Rightarrow> prompt_projectName (typed_names u))"

definition generate ::
    "exec \<Rightarrow> (string \<Rightarrow> json option) \<Rightarrow> (json \<Rightarrow> string) \<Rightarrow> path \<Rightarrow> config \<Rightarrow> path
      \<Rightarrow> world \<Rightarrow> (exn + unit) \<times> world" where
  "generate exec parse stringify rootDir cfg projectPath w =
     (case copy_template rootDir projectPath w of
        (Inl e, w1) \<Rightarrow> (Inl e, w1)
      | (Inr u, w1) \<Rightarrow>
          (case update_package_json parse stringify projectPath (projectName cfg) w1 of
             (Inl e, w2) \<Rightarrow> (Inl e, w2)
           | (Inr u', w2) \<Rightarrow>
               (let w3 = (if setupEnvironment cfg then setup_environment projectPath w2 else w2);
                    w4 = (if initializeGit cfg then initialize_git exec projectPath w3 else w3);
                    w5 = (if installDependencies cfg
                          then install_dependencies exec projectPath cfg w4 else w4)
                in (Inr (), print_success cfg w5))))"

definition createProject ::
    "exec \<Rightarrow> (string \<Rightarrow> json option) \<Rightarrow> (json \<Rightarrow> string) \<Rightarrow> path \<Rightarrow> user
      \<Rightarrow> string option \<Rightarrow> options \<Rightarrow> world \<Rightarrow> ((exn + unit) \<times> world) option" where
  "createProject exec parse stringify rootDir u arg opts w =
     (case resolve_name arg u of
        None \<Rightarrow> None
      | Some name \<Rightarrow>
          (let cfg = resolve_config name opts (prompt_answers opts u);
               w0 = console_log creating_message w;
               projectPath = path_resolve (cwd w0) name
           in if existsSync w0 projectPath then
                (if \<not> confirm_overwrite u then
                   Some (Inr (), console_log ''Project creation cancelled.'' w0)
                 else
                   Some (generate exec parse stringify rootDir cfg projectPath
                           (removeSync projectPath w0)))
              else Some (generate exec parse stringify rootDir cfg projectPath w0)))"

text \<open>
  The script itself: the manifest of the tool is read when the module loads (an
  exception there is caught by nobody) and its \<^verbatim>\<open>version\<close> is handed to
  \<^verbatim>\<open>program.version\<close>. Called with \<^verbatim>\<open>undefined\<close>, that method of commander is
  the getter: it returns the version stored so far, which is \<^verbatim>\<open>undefined\<close>, and not
  the command, so the chained call \<^verbatim>\<open>.argument(...)\<close> of lines 20 to 24 throws a
  \<^verbatim>\<open>TypeError\<close> while the module loads. With any other version the action runs
  \<open>createProject\<close> and turns an exception into exit code 1.
\<close>

definition load_package_json ::
    "(string \<Rightarrow> json option) \<Rightarrow> path \<Rightarrow> world \<Rightarrow> exn + json option" where
  "load_package_json parse rootDir w =
     and_then (readFileSync w (rootDir @ [''package.json''])) (\<lambda>text.
       case parse text of
         None \<Rightarrow> Inl SyntaxError
       | Some packageJson \<Rightarrow> get_prop ''version'' packageJson)"

definition cli_script ::
    "exec \<Rightarrow> (string \<Rightarrow> json option) \<Rightarrow> (json \<Rightarrow> string) \<Rightarrow> path \<Rightarrow> user
      \<Rightarrow> string option \<Rightarrow> options \<Rightarrow> world \<Rightarrow> (nat \<times> world) option" where
  "cli_script exec parse stringify rootDir u arg opts w =
     (case load_package_json parse rootDir w of
        Inl e \<Rightarrow> Some (1, emit (Uncaught e) w)
      | Inr None \<Rightarrow> Some (1, emit (Uncaught TypeError) w)
      | Inr (Some version) \<Rightarrow>
          (case createProject exec parse stringify rootDir u arg opts w of
             None \<Rightarrow> None
           | Some (Inl e, w') \<Rightarrow> Some (1, emit (ErrorLog ''Error creating project:'' e) w')
           | Some (Inr u', w') \<Rightarrow> Some (0, w')))"

section \<open>The test of the generator (scripts/test-cli.js)\<close>

definition testProjectName :: string where
  "testProjectName = ''test-cli-project''"

definition testProjectPath :: "path \<Rightarrow> path" where
  "testProjectPath rootDir = rootDir @ [testProjectName]"

definition essentialFiles :: "string list" where
  "essentialFiles =
     [''package.json'', ''src/main.tsx'', ''src/app/app.tsx'', ''index.html'',
      ''vite.config.ts'', ''tailwind.config.cjs'', ''.env.example'', ''docs/README.md'']"

text \<open>The loop over the essential files, which throws at the first that is missing.\<close>

fun verify_files :: "path \<Rightarrow> string list \<Rightarrow> world \<Rightarrow> (exn + unit) \<times> world" where
  "verify_files dir [] w = (Inr (), w)"
| "verify_files dir (file # files) w =
     (if \<not> existsSync w (dir @ split_on CHR ''/'' file)
      then (Inl (Error (''Essential file missing: '' @ file)), w)
      else verify_files dir files (console_log ((''  '' @ [CHR 0xE2, CHR 0x9C, CHR 0x93] @ '' '') @ file) w))"

text \<open>
  Lines 90 to 103: the manifest of the generated project. The message of the first
  error is cut after its first sentence; the script goes on to print the name it
  expected and the name it found.
\<close>

definition verify_package_json ::
    "(string \<Rightarrow> json option) \<Rightarrow> path \<Rightarrow> world \<Rightarrow> (exn + unit) \<times> world" where
  "verify_package_json parse rootDir w =
     (case and_then (readFileSync w (testProjectPath rootDir @ [''package.json''])) (\<lambda>text.
             case parse text of
               None \<Rightarrow> Inl SyntaxError
             | Some packageJson \<Rightarrow>
                 and_then (get_prop ''name'' packageJson) (\<lambda>name.
                   if name \<noteq> Some (JStr testProjectName)
                   then Inl (Error ''Package name not updated'')
                   else Inr packageJson)) of
        Inl e \<Rightarrow> (Inl e, w)
      | Inr packageJson \<Rightarrow>
          (let w1 = console_log ((''  '' @ [CHR 0xE2, CHR 0x9C, CHR 0x93] @ '' package.json name updated to: '') @ testProjectName) w in
           case and_then (get_prop ''bin'' packageJson) (\<lambda>b.
                and_then (get_prop ''files'' packageJson) (\<lambda>f.
                  Inr ((case b of None \<Rightarrow> False | Some v \<Rightarrow> truthy v)
                     \<or> (case f of None \<Rightarrow> False | Some v \<Rightarrow> truthy v)))) of
             Inl e \<Rightarrow> (Inl e, w1)
           | Inr leftover \<Rightarrow>
               if leftover
               then (Inl (Error ''CLI-specific fields not removed from package.json''), w1)
               else (Inr (), console_log (''  '' @ [CHR 0xE2, CHR 0x9C, CHR 0x93] @ '' CLI-specific fields removed'') w1)))"

text \<open>Lines 105 to 121, run only when \<^verbatim>\<open>TEST_INSTALL\<close> is \<^verbatim>\<open>'true'\<close>.\<close>

definition test_install :: "exec \<Rightarrow> path \<Rightarrow> world \<Rightarrow> (exn + unit) \<times> world" where
  "test_install exec rootDir w =
     (case exec ''npm install'' (testProjectPath rootDir)
             (console_log ([CHR 0xF0, CHR 0x9F, CHR 0x93, CHR 0xA6] @ '' Testing dependency installation...'') w) of
        (Inl e, w1) \<Rightarrow> (Inl e, w1)
      | (Inr u, w1) \<Rightarrow>
          (case exec ''npm run build'' (testProjectPath rootDir)
                  (console_log ([CHR 0xF0, CHR 0x9F, CHR 0x8F, CHR 0x97, CHR 0xEF, CHR 0xB8, CHR 0x8F] @ ''  Testing build...'')
                     (console_log ([CHR 0xE2, CHR 0x9C, CHR 0x85] @ '' Dependencies installed successfully'') w1)) of
             (Inl e, w2) \<Rightarrow> (Inl e, w2)
           | (Inr u', w2) \<Rightarrow> (Inr (), console_log ([CHR 0xE2, CHR 0x9C, CHR 0x85] @ '' Build completed successfully'') w2)))"

text \<open>The body of the \<^verbatim>\<open>try\<close> block of \<open>testCLI\<close>.\<close>

definition testCLI_try ::
    "exec \<Rightarrow> (string \<Rightarrow> json option) \<Rightarrow> path \<Rightarrow> bool \<Rightarrow> world \<Rightarrow> (exn + unit) \<times> world" where
  "testCLI_try exec parse rootDir test_install_env w =
     (let w1 = (if existsSync w (testProjectPath rootDir)
                then removeSync (testProjectPath rootDir)
                       (console_log ([CHR 0xF0, CHR 0x9F, CHR 0xA7, CHR 0xB9] @ '' Cleaning up existing test project...'') w)
                else w)
      in case exec ''npm run build-template'' rootDir
                (console_log ([CHR 0xF0, CHR 0x9F, CHR 0x8F, CHR 0x97, CHR 0xEF, CHR 0xB8, CHR 0x8F] @ ''  Building template...'') w1) of
           (Inl e, w2) \<Rightarrow> (Inl e, w2)
         | (Inr u, w2) \<Rightarrow>
             (case exec (''node bin/cli.js '' @ testProjectName @ '' --skip-install --skip-git'')
                     rootDir (console_log ([CHR 0xF0, CHR 0x9F, CHR 0x9A, CHR 0x80] @ '' Testing CLI with minimal options...'') w2) of
                (Inl e, w3) \<Rightarrow> (Inl e, w3)
              | (Inr u', w3) \<Rightarrow>
                  if \<not> existsSync w3 (testProjectPath rootDir)
                  then (Inl (Error ''Test project was not created''), w3)
                  else
                    (case verify_files (testProjectPath rootDir) essentialFiles
                            (console_log ([CHR 0xF0, CHR 0x9F, CHR 0x94, CHR 0x8D] @ '' Verifying essential files...'')
                               (console_log ([CHR 0xE2, CHR 0x9C, CHR 0x85] @ '' Project created successfully'') w3)) of
                       (Inl e, w4) \<Rightarrow> (Inl e, w4)
                     | (Inr u'', w4) \<Rightarrow>
                         (case verify_package_json parse rootDir w4 of
                            (Inl e, w5) \<Rightarrow> (Inl e, w5)
                          | (Inr u3, w5) \<Rightarrow>
                              (case (if test_install_env then test_install exec rootDir w5
                                     else (Inr (), w5)) of
                                 (Inl e, w6) \<Rightarrow> (Inl e, w6)
                               | (Inr u4, w6) \<Rightarrow>
                                   (Inr (),
                                    fold console_log
                                      [([CHR 0x0A, CHR 0xF0, CHR 0x9F, CHR 0x8E, CHR 0x89] @ '' CLI test completed successfully!''),
                                       ([CHR 0xF0, CHR 0x9F, CHR 0x93, CHR 0x81] @ '' Test project created at: '')
                                         @ [CHR ''/''] @ join_with ''/'' (testProjectPath rootDir),
                                       ([CHR 0x0A, CHR 0xF0, CHR 0x9F, CHR 0x92, CHR 0xA1] @ '' To test manually:''),
                                       ''   cd '' @ testProjectName,
                                       ''   npm install'',
                                       ''   npm run dev''] w6))))))"

text \<open>
  How a call ends: it returns, it throws, or it ends the process with an exit code.
\<close>

datatype ending = Returned | Threw exn | Exited nat

definition testCLI ::
    "exec \<Rightarrow> (string \<Rightarrow> json option) \<Rightarrow> path \<Rightarrow> bool \<Rightarrow> world \<Rightarrow> ending \<times> world" where
  "testCLI exec parse rootDir test_install_env w =
     (case testCLI_try exec parse rootDir test_install_env
             (console_log ([CHR 0xF0, CHR 0x9F, CHR 0xA7, CHR 0xAA] @ '' Testing CLI...'' @ [CHR 0x0A]) w) of
        (Inl e, w') \<Rightarrow> (Exited 1, emit (ErrorLog ([CHR 0x0A, CHR 0xE2, CHR 0x9D, CHR 0x8C] @ '' CLI test failed:'') e) w')
      | (Inr u, w') \<Rightarrow> (Returned, w'))"

definition cleanup :: "path \<Rightarrow> world \<Rightarrow> world" where
  "cleanup rootDir w =
     (if existsSync w (testProjectPath rootDir)
      then console_log ([CHR 0xE2, CHR 0x9C, CHR 0x85] @ '' Cleanup completed'')
             (removeSync (testProjectPath rootDir)
                (console_log ([CHR 0x0A, CHR 0xF0, CHR 0x9F, CHR 0xA7, CHR 0xB9] @ '' Cleaning up test project...'') w))
      else w)"

text \<open>
  The script itself: \<^verbatim>\<open>testCLI().catch(...)\<close>. The result is the exit code of the
  process with the world it leaves. The handlers of SIGINT and SIGTERM are not part of
  a run that no signal interrupts.
\<close>

definition test_cli_script ::
    "exec \<Rightarrow> (string \<Rightarrow> json option) \<Rightarrow> path \<Rightarrow> bool \<Rightarrow> world \<Rightarrow> nat \<times> world" where
  "test_cli_script exec parse rootDir test_install_env w =
     (case testCLI exec parse rootDir test_install_env w of
        (Exited code, w') \<Rightarrow> (code, w')
      | (Threw e, w') \<Rightarrow> (1, cleanup rootDir (emit (ErrorLog ([CHR 0xE2, CHR 0x9D, CHR 0x8C] @ '' Test failed:'') e) w'))
      | (Returned, w') \<Rightarrow> (0, w'))"

section \<open>A small installation, used in the examples\<close>

definition example_manifest :: json where
  "example_manifest =
     JObj [(''name'', JStr ''create-react-vite-boilerplate''),
           (''version'', JStr ''1.0.0''),
           (''type'', JStr ''module''),
           (''bin'', JObj [(''create-react-vite-boilerplate'', JStr ''./bin/cli.js'')]),
           (''files'', JArr [JStr ''template'', JStr ''bin'', JStr ''README.md'']),
           (''scripts'', JObj [(''dev'', JStr ''vite''),
                               (''build-template'', JStr ''node scripts/build-template.js''),
                               (''test-cli'', JStr ''node scripts/test-cli.js'')]),
           (''devDependencies'', JObj [(''chalk'', JStr ''5''), (''vite'', JStr ''4'')])]"

text \<open>What the manifest rewrite of the template builder makes of it.\<close>

definition example_template_manifest :: json where
  "example_template_manifest =
     JObj [(''name'', JStr ''my-react-app''),
           (''version'', JStr ''0.1.0''),
           (''type'', JStr ''module''),
           (''scripts'', JObj [(''dev'', JStr ''vite'')]),
           (''devDependencies'', JObj [(''vite'', JStr ''4'')]),
           (''private'', JBool True)]"

definition example_parse :: "string \<Rightarrow> json option" where
  "example_parse s =
     (if s = ''TOOL'' then Some example_manifest
      else if s = ''TEMPLATE'' then Some example_template_manifest
      else None)"

definition example_stringify :: "json \<Rightarrow> string" where
  "example_stringify j =
     (if j = example_manifest then ''TOOL''
      else if j = example_template_manifest then ''TEMPLATE''
      else (case j of JObj kvs \<Rightarrow> concat (map fst kvs) | _ \<Rightarrow> ''?''))"

definition example_world :: world where
  "example_world = \<lparr> fs = Dir [(''proj'', Dir [(''package.json'', File ''TOOL''), (''node_modules'', Dir [(''x'', File ''y'')]),
        (''src'', Dir [(''main.tsx'', File ''m''), (''dist'', File ''d'')]), (''bin'', Dir [(''cli.js'', File ''c'')])])],
      cwd = [''proj''], console = [] \<rparr>"

text \<open>The same tree with what an earlier build might have left in the template directory.\<close>

definition example_stale :: world where
  "example_stale = \<lparr> fs = Dir [(''proj'', Dir [(''package.json'', File ''TOOL''), (''node_modules'', Dir [(''x'', File ''y'')]),
        (''src'', Dir [(''main.tsx'', File ''m''), (''dist'', File ''d'')]), (''bin'', Dir [(''cli.js'', File ''c'')]),
        (''template'', Dir [(''stale.txt'', File ''old'')])])],
      cwd = [''proj''], console = [] \<rparr>"

text \<open>
  The tool installed in \<^verbatim>\<open>/pkg\<close> with a built template, and a working directory
  \<^verbatim>\<open>/home\<close> that already holds a directory \<^verbatim>\<open>old-app\<close>.
\<close>

definition example_home :: world where
  "example_home =
     \<lparr> fs = Dir [(''pkg'', Dir [(''package.json'', File ''TOOL''),
                   (''bin'', Dir [(''cli.js'', File ''#!/usr/bin/env node'')]),
                   (''template'', Dir [(''package.json'', File ''TEMPLATE''),
                                       (''index.html'', File ''<html>'')])]),
                 (''home'', Dir [(''old-app'', Dir [(''notes.txt'', File ''keep me'')])])],
       cwd = [''home''], console = [] \<rparr>"

text \<open>The same, with a template that has no manifest.\<close>

definition example_bare :: world where
  "example_bare =
     \<lparr> fs = Dir [(''pkg'', Dir [(''package.json'', File ''TOOL''),
                   (''bin'', Dir [(''cli.js'', File ''#!/usr/bin/env node'')]),
                   (''template'', Dir [(''index.html'', File ''<html>'')])]),
                 (''home'', Dir [(''old-app'', Dir [(''notes.txt'', File ''keep me'')])])],
       cwd = [''home''], console = [] \<rparr>"

text \<open>The flags of the test script, and a user who accepts every default.\<close>

definition example_options :: options where
  "example_options =
     \<lparr> opt_template = ''full'', opt_packageManager = ''npm'',
       opt_skipInstall = True, opt_skipGit = True \<rparr>"

definition example_user :: user where
  "example_user =
     \<lparr> typed_names = [], chosen_packageManager = ''npm'', confirm_install = True,
       confirm_git = True, confirm_env = True, confirm_overwrite = False \<rparr>"

text \<open>A machine where every command succeeds and changes nothing, and one where every command fails.\<close>

definition example_exec :: exec where
  "example_exec command dir w = (Inr (), w)"

definition failing_exec :: exec where
  "failing_exec command dir w = (Inl (Error ''Command failed''), w)"

text \<open>
  A checkout of the tool in \<^verbatim>\<open>/pkg\<close> that has none of the application sources, and a
  machine on which the two commands of the test script run the two scripts modelled
  above (with a regular-expression engine that is never asked).
\<close>

definition example_checkout :: world where
  "example_checkout =
     \<lparr> fs = Dir [(''pkg'', Dir [(''package.json'', File ''TOOL''),
                   (''index.html'', File ''<html>''),
                   (''bin'', Dir [(''cli.js'', File ''#!/usr/bin/env node'')]),
                   (''scripts'', Dir [(''build-template.js'', File ''#!/usr/bin/env node''),
                                      (''test-cli.js'', File ''#!/usr/bin/env node'')]),
                   (''node_modules'', Dir [(''commander'', Dir [(''package.json'', File ''{}'')]),
                                           (''fs-extra'', Dir [(''package.json'', File ''{}'')])])])],
       cwd = [''pkg''], console = [] \<rparr>"

definition example_child :: "(nat \<times> world) option \<Rightarrow> world \<Rightarrow> (exn + unit) \<times> world" where
  "example_child r w =
     (case r of
        None \<Rightarrow> (Inl (Error ''Command failed''), w)
      | Some (code, w') \<Rightarrow>
          (if code = 0 then Inr () else Inl (Error ''Command failed''), w'\<lparr>cwd := cwd w\<rparr>))"

definition scripted_exec :: exec where
  "scripted_exec command dir w =
     (if command = ''npm run build-template'' then
        example_child
          (build_template_script (Suc (Suc 0)) (\<lambda>s t. False) example_parse example_stringify
             dir (w\<lparr>cwd := dir\<rparr>)) w
      else if command = ''node bin/cli.js test-cli-project --skip-install --skip-git'' then
        example_child
          (cli_script example_exec example_parse example_stringify dir example_user
             (Some ''test-cli-project'') example_options (w\<lparr>cwd := dir\<rparr>)) w
      else (Inr (), w))"

text \<open>Two source trees for the builder: one without a manifest, one whose manifest is not JSON.\<close>

definition example_no_manifest :: world where
  "example_no_manifest =
     \<lparr> fs = Dir [(''proj'', Dir [(''index.html'', File ''<html>'')])],
       cwd = [''proj''], console = [] \<rparr>"

definition example_broken :: world where
  "example_broken =
     \<lparr> fs = Dir [(''proj'', Dir [(''package.json'', File ''{ not json''),
                    (''index.html'', File ''<html>'')])],
       cwd = [''proj''], console = [] \<rparr>"

text \<open>
  The tree without a manifest as the copy leaves it: the template directory holds what
  was copied, and the readme of the source.
\<close>

definition example_unprocessed :: world where
  "example_unprocessed =
     \<lparr> fs = Dir [(''proj'', Dir [(''index.html'', File ''<html>''), (''README.md'', File ''# Tool''),
                    (''template'', Dir [(''index.html'', File ''<html>''),
                                        (''README.md'', File ''# Tool'')])])],
       cwd = [''proj''], console = [] \<rparr>"

section \<open>Facts about the filesystem\<close>

lemma lookup_write_at_below:
  "write_at p v t = Some t' \<Longrightarrow> lookup t' (p @ r) = lookup v r"
proof (induction p v t arbitrary: t' rule: write_at.induct)
  case (1 v t)
  then show ?case by simp
next
  case (2 x xs v c)
  then show ?case by simp
next
  case (3 x xs v kids)
  then show ?case
    by (auto split: option.splits if_splits simp: AList.update_conv')
qed

lemma delete_append: "AList.delete x (a @ b) = AList.delete x a @ AList.delete x b"
  by (simp add: AList.delete_eq)

lemma delete_absent: "map_of al k = None \<Longrightarrow> AList.delete k al = al"
  by (simp add: map_of_eq_None_iff)

lemma remove_at_write_at:
  "write_at (T @ r) v t = Some t' \<Longrightarrow> remove_at T t' = remove_at T t"
proof (induction T arbitrary: t t')
  case Nil
  then show ?case by simp
next
  case (Cons x xs)
  then show ?case
    by (cases t)
      (auto split: option.splits if_splits
        simp: AList.update_conv' AList.delete_update_same delete_append)
qed

lemma remove_at_mkdirp:
  "mkdirp (T @ r) t = Some t' \<Longrightarrow> T \<noteq> [] \<Longrightarrow> lookup t (butlast T) = Some (Dir ks)
    \<Longrightarrow> remove_at T t' = remove_at T t"
proof (induction T arbitrary: t t' ks)
  case Nil
  then show ?case by simp
next
  case (Cons x xs)
  show ?case
  proof (cases xs)
    case Nil
    with Cons.prems show ?thesis
      by (cases t)
        (auto split: option.splits if_splits
          simp: AList.update_conv' AList.delete_update_same delete_append)
  next
    case (Cons y ys)
    from Cons.prems(3) Cons obtain kids k where t: "t = Dir kids"
      and k: "map_of kids x = Some k" and below: "lookup k (butlast xs) = Some (Dir ks)"
      by (cases t) (auto split: option.splits)
    from Cons.prems(1) t k obtain k' where k': "mkdirp (xs @ r) k = Some k'"
      and t': "t' = Dir (AList.update x k' kids)"
      by (auto split: option.splits)
    from Cons have "xs \<noteq> []" by simp
    from k' \<open>xs \<noteq> []\<close> below have "remove_at xs k' = remove_at xs k" by (rule Cons.IH)
    with t t' k \<open>xs \<noteq> []\<close> show ?thesis by (simp add: AList.update_conv')
  qed
qed



lemma map_of_append_other: "y \<noteq> x \<Longrightarrow> map_of (kids @ [(x, v)]) y = map_of kids y"
  by (induction kids) auto

lemma lookup_write_at_other:
  "write_at p v t = Some t' \<Longrightarrow> \<not> prefix p q \<Longrightarrow> \<not> prefix q p \<Longrightarrow> lookup t' q = lookup t q"
proof (induction p arbitrary: t t' q)
  case Nil
  then show ?case by simp
next
  case (Cons x xs)
  from Cons.prems(3) obtain y ys where q: "q = y # ys" by (cases q) auto
  from Cons.prems(1) obtain kids where t: "t = Dir kids" by (cases t) auto
  show ?case
  proof (cases "y = x")
    case False
    from Cons.prems(1) t obtain kids' where t': "t' = Dir kids'"
      and same: "map_of kids' y = map_of kids y"
      using False by (auto split: option.splits if_splits simp: AList.update_conv' map_add_def)
    with t q show ?thesis by simp
  next
    case True
    with Cons.prems(2,3) q have nx: "\<not> prefix xs ys" and ny: "\<not> prefix ys xs" by simp_all
    from nx have "xs \<noteq> []" by auto
    with Cons.prems(1) t obtain k k' where k: "map_of kids x = Some k"
      and k': "write_at xs v k = Some k'" and t': "t' = Dir (AList.update x k' kids)"
      by (auto split: option.splits)
    from k' nx ny have "lookup k' ys = lookup k ys" by (rule Cons.IH)
    with t t' k q True show ?thesis by (simp add: AList.update_conv')
  qed
qed

lemma lookup_mkdirp_other:
  "mkdirp p t = Some t' \<Longrightarrow> \<not> prefix q p \<Longrightarrow> lookup t' q = lookup t q"
proof (induction p arbitrary: t t' q)
  case Nil
  then show ?case by (cases t) auto
next
  case (Cons x xs)
  from Cons.prems(2) obtain y ys where q: "q = y # ys" by (cases q) auto
  from Cons.prems(1) obtain kids where t: "t = Dir kids" by (cases t) auto
  show ?case
  proof (cases "y = x")
    case False
    from Cons.prems(1) t obtain kids' where t': "t' = Dir kids'"
      and same: "map_of kids' y = map_of kids y"
      using False by (auto split: option.splits if_splits simp: AList.update_conv' map_add_def)
    with t q show ?thesis by simp
  next
    case True
    with Cons.prems(2) q have nx: "\<not> prefix ys xs" by simp
    show ?thesis
    proof (cases "map_of kids x")
      case None
      with Cons.prems(1) t obtain k' where k': "mkdirp xs (Dir []) = Some k'"
        and t': "t' = Dir (kids @ [(x, k')])"
        by (auto split: option.splits)
      from k' nx have "lookup k' ys = lookup (Dir []) ys" by (rule Cons.IH)
      moreover from nx have "ys \<noteq> []" by auto
      then have "lookup (Dir []) ys = None" by (cases ys) auto
      moreover have "map_of (kids @ [(x, k')]) x = Some k'" using None by (simp add: map_add_def)
      ultimately show ?thesis using t t' q True None by simp
    next
      case (Some k)
      with Cons.prems(1) t obtain k' where k': "mkdirp xs k = Some k'"
        and t': "t' = Dir (AList.update x k' kids)"
        by (auto split: option.splits)
      from k' nx have "lookup k' ys = lookup k ys" by (rule Cons.IH)
      with t t' Some q True show ?thesis by (simp add: AList.update_conv')
    qed
  qed
qed



lemma remove_at_missing:
  "lookup t p = None \<Longrightarrow> remove_at p t = t"
proof (induction p arbitrary: t)
  case Nil
  then show ?case by simp
next
  case (Cons x xs)
  show ?case
  proof (cases t)
    case (File c)
    then show ?thesis by simp
  next
    case (Dir kids)
    show ?thesis
    proof (cases "map_of kids x")
      case None
      with Dir show ?thesis by (simp add: delete_absent)
    next
      case (Some k)
      with Dir Cons.prems have "lookup k xs = None" by simp
      then have "remove_at xs k = k" and "xs \<noteq> []" by (auto intro: Cons.IH)
      with Dir Some show ?thesis by (simp add: AList.update_triv)
    qed
  qed
qed



lemma lookup_remove_at_below:
  "p \<noteq> [] \<Longrightarrow> lookup (remove_at p t) (p @ r) = None"
proof (induction p arbitrary: t)
  case Nil
  then show ?case by simp
next
  case (Cons x xs)
  then show ?case
    by (cases t) (auto split: option.splits if_splits simp: AList.update_conv' AList.delete_conv')
qed


lemma lookup_remove_at_other:
  "\<not> prefix p q \<Longrightarrow> \<not> prefix q p \<Longrightarrow> lookup (remove_at p t) q = lookup t q"
proof (induction p arbitrary: t q)
  case Nil
  then show ?case by simp
next
  case (Cons x xs)
  from Cons.prems(2) obtain y ys where q: "q = y # ys" by (cases q) auto
  show ?case
  proof (cases t)
    case (File c)
    then show ?thesis by simp
  next
    case (Dir kids)
    show ?thesis
    proof (cases "y = x")
      case False
      with Dir q show ?thesis
        by (auto split: option.splits simp: AList.update_conv' AList.delete_conv')
    next
      case True
      with Cons.prems q have nx: "\<not> prefix xs ys" and ny: "\<not> prefix ys xs" by simp_all
      from nx have ne: "xs \<noteq> []" by auto
      show ?thesis
      proof (cases "map_of kids x")
        case None
        with Dir ne show ?thesis by simp
      next
        case (Some k)
        from nx ny have "lookup (remove_at xs k) ys = lookup k ys" by (rule Cons.IH)
        with Dir Some ne q True show ?thesis by (simp add: AList.update_conv')
      qed
    qed
  qed
qed

lemma mkdirp_existing: "lookup t p = Some (Dir ks) \<Longrightarrow> mkdirp p t = Some t"
proof (induction p arbitrary: t)
  case Nil
  then show ?case by simp
next
  case (Cons x xs)
  then obtain kids k where t: "t = Dir kids" and k: "map_of kids x = Some k"
    and below: "lookup k xs = Some (Dir ks)"
    by (cases t) (auto split: option.splits)
  from below have "mkdirp xs k = Some k" by (rule Cons.IH)
  with t k show ?case by (simp add: AList.update_triv)
qed

lemma write_at_ok:
  "p \<noteq> [] \<Longrightarrow> lookup t (butlast p) = Some (Dir ks) \<Longrightarrow> \<exists>t'. write_at p v t = Some t'"
proof (induction p arbitrary: t)
  case Nil
  then show ?case by simp
next
  case (Cons x xs)
  show ?case
  proof (cases xs)
    case Nil
    with Cons.prems show ?thesis by (auto split: option.splits)
  next
    case (Cons y ys)
    with Cons.prems obtain kids k where t: "t = Dir kids" and k: "map_of kids x = Some k"
      and below: "lookup k (butlast xs) = Some (Dir ks)"
      by (cases t) (auto split: option.splits)
    from Cons have "xs \<noteq> []" by simp
    from Cons.IH[OF this below] obtain k' where "write_at xs v k = Some k'" by blast
    with t k show ?thesis by simp
  qed
qed

lemma lookup_remove_at_dir:
  "lookup t q = Some (Dir ks) \<Longrightarrow> \<not> prefix p q \<Longrightarrow> \<exists>ks'. lookup (remove_at p t) q = Some (Dir ks')"
proof (induction p arbitrary: t q ks)
  case Nil
  then show ?case by simp
next
  case (Cons x xs)
  show ?case
  proof (cases q)
    case Nil
    with Cons.prems show ?thesis by (cases t) (auto split: option.splits)
  next
    case q: (Cons y ys)
    with Cons.prems obtain kids k where t: "t = Dir kids" and k: "map_of kids y = Some k"
      and below: "lookup k ys = Some (Dir ks)"
      by (cases t) (auto split: option.splits)
    show ?thesis
    proof (cases "y = x")
      case False
      with t k below q show ?thesis
        by (auto split: option.splits simp: AList.update_conv' AList.delete_conv')
    next
      case True
      with Cons.prems(2) q have np: "\<not> prefix xs ys" by simp
      then have ne: "xs \<noteq> []" by auto
      from Cons.IH[OF below np] obtain ks' where "lookup (remove_at xs k) ys = Some (Dir ks')" by blast
      with t k q True ne show ?thesis by (simp add: AList.update_conv')
    qed
  qed
qed

lemma copySync_fresh:
  assumes src: "lookup (fs w) src = Some s"
    and np: "\<not> prefix src dest"
    and fresh: "lookup (fs w) dest = None"
    and parent: "lookup (fs w) (butlast dest) = Some (Dir ks)"
  shows "\<exists>w'. copySync src dest w = Inr w'
          \<and> (\<forall>r. lookup (fs w') (dest @ r) = lookup s r)
          \<and> (\<forall>q. \<not> prefix dest q \<longrightarrow> \<not> prefix q dest \<longrightarrow> lookup (fs w') q = lookup (fs w) q)
          \<and> console w' = console w \<and> cwd w' = cwd w"
proof -
  from fresh have ne: "dest \<noteq> []" by auto
  from np have neq: "src \<noteq> dest" by auto
  from parent have mk: "mkdirp (butlast dest) (fs w) = Some (fs w)" by (rule mkdirp_existing)
  from write_at_ok[OF ne parent] obtain t' where t': "write_at dest s (fs w) = Some t'" by blast
  have "copySync src dest w = Inr (w\<lparr>fs := t'\<rparr>)"
    unfolding copySync_def using src np neq mk fresh t' by (auto split: node.splits)
  moreover have "\<forall>r. lookup t' (dest @ r) = lookup s r"
    using lookup_write_at_below[OF t'] by simp
  moreover have "\<forall>q. \<not> prefix dest q \<longrightarrow> \<not> prefix q dest \<longrightarrow> lookup t' q = lookup (fs w) q"
    using lookup_write_at_other[OF t'] by simp
  ultimately show ?thesis by simp
qed


subsection \<open>The calls on the world\<close>

lemma lookup_append:
  "lookup t (p @ r) = (case lookup t p of None \<Rightarrow> None | Some s \<Rightarrow> lookup s r)"
proof (induction p arbitrary: t)
  case Nil
  then show ?case by simp
next
  case (Cons x xs)
  then show ?case by (cases t) (auto split: option.splits)
qed

lemma lookup_below_file:
  "lookup t p = Some (File c) \<Longrightarrow> r \<noteq> [] \<Longrightarrow> lookup t (p @ r) = None"
  by (cases r) (simp_all add: lookup_append)

lemma lookup_below_missing:
  "lookup t p = None \<Longrightarrow> lookup t (p @ r) = None"
  by (simp add: lookup_append)

lemma fs_emit [simp]: "fs (emit e w) = fs w"
  and cwd_emit [simp]: "cwd (emit e w) = cwd w"
  and console_emit [simp]: "console (emit e w) = console w @ [e]"
  by (simp_all add: emit_def)

lemma fs_console_log [simp]: "fs (console_log s w) = fs w"
  and cwd_console_log [simp]: "cwd (console_log s w) = cwd w"
  and console_console_log [simp]: "console (console_log s w) = console w @ [Log s]"
  by (simp_all add: console_log_def)

lemma existsSync_emit [simp]: "existsSync (emit e w) p = existsSync w p"
  and existsSync_console_log [simp]: "existsSync (console_log s w) p = existsSync w p"
  by (simp_all add: existsSync_def)

lemma writeFileSync_Inr:
  assumes "writeFileSync p c w = Inr w'"
  shows "lookup (fs w') p = Some (File c)"
    and "\<not> prefix q p \<Longrightarrow> lookup (fs w') q = lookup (fs w) q"
    and "console w' = console w" and "cwd w' = cwd w"
proof -
  from assms obtain t where t: "write_at p (File c) (fs w) = Some t" and w': "w' = w\<lparr>fs := t\<rparr>"
    and nd: "\<And>kids. lookup (fs w) p \<noteq> Some (Dir kids)"
    unfolding writeFileSync_def by (auto split: option.splits node.splits)
  from lookup_write_at_below[OF t, of "[]"] w' show "lookup (fs w') p = Some (File c)" by simp
  from w' show "console w' = console w" and "cwd w' = cwd w" by simp_all
  show "lookup (fs w') q = lookup (fs w) q" if nq: "\<not> prefix q p"
  proof (cases "prefix p q")
    case False
    with t nq w' show ?thesis by (simp add: lookup_write_at_other)
  next
    case True
    then obtain r where q: "q = p @ r" by (auto simp: prefix_def)
    with nq have r: "r \<noteq> []" by auto
    then have "lookup (File c) r = None" by (cases r) auto
    with lookup_write_at_below[OF t, of r] have new: "lookup t q = None" using q by simp
    have "lookup (fs w) q = None"
    proof (cases "lookup (fs w) p")
      case None
      then show ?thesis using q by (simp add: lookup_below_missing)
    next
      case (Some s)
      with nd obtain d where "s = File d" by (cases s) auto
      with Some r q show ?thesis by (simp add: lookup_below_file)
    qed
    with new w' show ?thesis by simp
  qed
qed


section \<open>The manifest of the template\<close>

lemma and_then_Inr_iff: "and_then r f = Inr y \<longleftrightarrow> (\<exists>x. r = Inr x \<and> f x = Inr y)"
  by (cases r) (simp_all add: and_then_def)

lemma delete_prop_has_key:
  "delete_prop k j = Inr j' \<Longrightarrow> \<not> has_key k j' \<and> (\<forall>k'. has_key k' j' \<longrightarrow> has_key k' j)"
  by (cases j) (auto simp: AList.delete_eq)

lemma delete_props_has_key:
  "delete_props ks j = Inr j' \<Longrightarrow> has_key k' j' \<Longrightarrow> has_key k' j"
proof (induction ks arbitrary: j)
  case Nil
  then show ?case by simp
next
  case (Cons k ks)
  then show ?case
    by (auto split: sum.splits dest: delete_prop_has_key)
qed

lemma set_prop_has_key:
  "set_prop k x j = Inr j' \<Longrightarrow> has_key k' j' \<Longrightarrow> k' = k \<or> has_key k' j"
  by (cases j) (auto simp: AList.dom_update)

lemma map_of_Some_key: "map_of kvs k = Some d \<Longrightarrow> k \<in> fst ` set kvs"
  by (metis domI dom_map_of_conv_image_fst)

lemma delete_nested_has_key:
  "delete_nested k ks j = Inr j' \<Longrightarrow> has_key k' j' \<Longrightarrow> has_key k' j"
  unfolding delete_nested_def and_then_Inr_iff
  by (cases j)
    (auto split: option.splits if_splits simp: and_then_Inr_iff AList.dom_update
      dest: map_of_Some_key)

lemma rewritePackageJson_keys:
  assumes "rewritePackageJson j = Inr j'"
  shows "\<not> has_key ''bin'' j'" and "\<not> has_key ''files'' j'"
proof -
  from assms obtain j1 j2 j3 j4 j5 j6 where
    1: "delete_prop ''bin'' j = Inr j1" and 2: "delete_prop ''files'' j1 = Inr j2"
    and 3: "set_prop ''name'' (JStr ''my-react-app'') j2 = Inr j3"
    and 4: "set_prop ''version'' (JStr ''0.1.0'') j3 = Inr j4"
    and 5: "set_prop ''private'' (JBool True) j4 = Inr j5"
    and 6: "delete_nested ''devDependencies''
              [''chalk'', ''commander'', ''fs-extra'', ''inquirer'', ''ora''] j5 = Inr j6"
    and 7: "delete_nested ''scripts'' [''prepublishOnly'', ''build-template'', ''test-cli''] j6 = Inr j'"
    unfolding rewritePackageJson_def and_then_Inr_iff by blast
  have k1: "\<not> has_key ''bin'' j1" using 1 by (simp add: delete_prop_has_key)
  have k2: "\<not> has_key ''bin'' j2" "\<not> has_key ''files'' j2"
    using 2 k1 delete_prop_has_key by blast+
  have k3: "\<not> has_key ''bin'' j3" "\<not> has_key ''files'' j3"
    using set_prop_has_key[OF 3] k2 by auto
  have k4: "\<not> has_key ''bin'' j4" "\<not> has_key ''files'' j4"
    using set_prop_has_key[OF 4] k3 by auto
  have k5: "\<not> has_key ''bin'' j5" "\<not> has_key ''files'' j5"
    using set_prop_has_key[OF 5] k4 by auto
  have k6: "\<not> has_key ''bin'' j6" "\<not> has_key ''files'' j6"
    using delete_nested_has_key[OF 6] k5 by auto
  show "\<not> has_key ''bin'' j'" and "\<not> has_key ''files'' j'"
    using delete_nested_has_key[OF 7] k6 by auto
qed

lemma processPackageJson_Inr:
  assumes "processPackageJson parse stringify rootDir w = Inr w'"
  shows "\<not> existsSync w (templateDir rootDir @ [''package.json'']) \<and> w' = w
       \<or> (\<exists>text j j' w1. lookup (fs w) (templateDir rootDir @ [''package.json'']) = Some (File text)
            \<and> parse text = Some j \<and> rewritePackageJson j = Inr j'
            \<and> writeFileSync (templateDir rootDir @ [''package.json'']) (stringify j') w = Inr w1
            \<and> w' = console_log ''Processed: package.json'' w1)"
  using assms unfolding processPackageJson_def Let_def readFileSync_def
  by (auto simp: and_then_Inr_iff split: if_splits option.splits node.splits)

text \<open>
  C2. Whatever the manifest in the template directory holds, \<open>processTemplateFiles\<close>
  either leaves that file as it was (and when the call returns normally, that is because
  there was no manifest), or has replaced it by the printed form of the rewritten
  document, which has neither a \<^verbatim>\<open>bin\<close> nor a \<^verbatim>\<open>files\<close> key.
\<close>

theorem manifest_without_bin_files:
  assumes "processTemplateFiles parse stringify rootDir w = (r, w')"
  shows "lookup (fs w') (templateDir rootDir @ [''package.json''])
           = lookup (fs w) (templateDir rootDir @ [''package.json''])
         \<and> (r = Inr () \<longrightarrow> \<not> existsSync w (templateDir rootDir @ [''package.json'']))
       \<or> (\<exists>text j j'.
            lookup (fs w) (templateDir rootDir @ [''package.json'']) = Some (File text)
          \<and> parse text = Some j
          \<and> rewritePackageJson j = Inr j'
          \<and> lookup (fs w') (templateDir rootDir @ [''package.json'']) = Some (File (stringify j'))
          \<and> \<not> has_key ''bin'' j' \<and> \<not> has_key ''files'' j')"
proof (cases "processPackageJson parse stringify rootDir w")
  case (Inl e)
  with assms show ?thesis by (auto simp: processTemplateFiles_def)
next
  case (Inr w1)
  let ?pj = "templateDir rootDir @ [''package.json'']"
  have later: "lookup (fs w') ?pj = lookup (fs w1) ?pj"
  proof -
    have a: "\<not> prefix ?pj (templateDir rootDir @ [''.gitignore''])"
      and b: "\<not> prefix ?pj (templateDir rootDir @ [''README.md''])" by simp_all
    from assms Inr show ?thesis
      unfolding processTemplateFiles_def Let_def
      by (auto split: sum.splits simp: writeFileSync_Inr(2)[OF _ a] writeFileSync_Inr(2)[OF _ b])
  qed
  from processPackageJson_Inr[OF Inr] show ?thesis
  proof
    assume "\<not> existsSync w ?pj \<and> w1 = w"
    with later show ?thesis by simp
  next
    assume "\<exists>text j j' w0. lookup (fs w) ?pj = Some (File text) \<and> parse text = Some j
        \<and> rewritePackageJson j = Inr j' \<and> writeFileSync ?pj (stringify j') w = Inr w0
        \<and> w1 = console_log ''Processed: package.json'' w0"
    then obtain body j j' w0 where "lookup (fs w) ?pj = Some (File body)" "parse body = Some j"
      "rewritePackageJson j = Inr j'" "writeFileSync ?pj (stringify j') w = Inr w0"
      "w1 = console_log ''Processed: package.json'' w0" by blast
    with later rewritePackageJson_keys[of j j'] writeFileSync_Inr(1)[of ?pj "stringify j'" w w0]
    show ?thesis by auto
  qed
qed

theorem manifest_without_bin_files_witness:
  "fst (processTemplateFiles example_parse example_stringify [''proj'']
         \<lparr> fs = Dir [(''proj'', Dir [(''template'', Dir [(''package.json'', File ''TOOL'')])])],
           cwd = [''proj''], console = [] \<rparr>) = Inr ()
   \<and> (\<exists>j'. lookup (fs (snd (processTemplateFiles example_parse example_stringify [''proj'']
         \<lparr> fs = Dir [(''proj'', Dir [(''template'', Dir [(''package.json'', File ''TOOL'')])])],
           cwd = [''proj''], console = [] \<rparr>))) [''proj'', ''template'', ''package.json'']
         = Some (File (example_stringify j'))
       \<and> \<not> has_key ''bin'' j' \<and> \<not> has_key ''files'' j')"
proof -
  let ?w = "\<lparr> fs = Dir [(''proj'', Dir [(''template'', Dir [(''package.json'', File ''TOOL'')])])],
           cwd = [''proj''], console = [] \<rparr>"
  have ok: "fst (processTemplateFiles example_parse example_stringify [''proj''] ?w) = Inr ()"
    by code_simp
  have ex: "existsSync ?w (templateDir [''proj''] @ [''package.json''])"
    by code_simp
  from manifest_without_bin_files[OF prod.collapse[symmetric],
      of example_parse example_stringify "[''proj'']" ?w] ok ex
  show ?thesis unfolding templateDir_def by auto
qed

lemmas build_defs = build_template_script_def buildTemplate_def start_build_def finish_build_def
  processTemplateFiles_def
  processPackageJson_def rewritePackageJson_def delete_nested_def templateDir_def
  shouldExclude_def pattern_matches_def excludePatterns_def path_basename_def
  mkdirSync_def readdirSync_def statSync_isDirectory_def copyFileSync_def


section \<open>The project generator\<close>

lemma split_on_none: "c \<notin> set s \<Longrightarrow> split_on c s = [s]"
  by (induction s) auto

lemma name_char_simps:
  "\<not> name_char CHR ''/''" "\<not> name_char CHR ''.''"
  by (simp_all add: name_char_def)

lemma validate_Valid:
  assumes "validate name = Valid"
  shows "name \<noteq> []" and "CHR ''/'' \<notin> set name" and "name \<noteq> ''.''" and "name \<noteq> ''..''"
proof -
  from assms have np: "name_pattern name"
    by (auto simp: validate_def split: if_splits)
  then show "name \<noteq> []" by (simp add: name_pattern_def)
  from np have all: "\<forall>c\<in>set name. name_char c" by (simp add: name_pattern_def list_all_iff)
  then show "CHR ''/'' \<notin> set name" using name_char_simps by blast
  from all show "name \<noteq> ''.''" and "name \<noteq> ''..''" using name_char_simps by auto
qed

lemma path_resolve_simple: "simple_segment name \<Longrightarrow> path_resolve dir name = dir @ [name]"
  unfolding simple_segment_def path_resolve_def
  by (cases name) (auto simp: split_on_none resolve_segment_def)

lemma path_resolve_valid: "validate name = Valid \<Longrightarrow> path_resolve dir name = dir @ [name]"
  by (rule path_resolve_simple) (simp add: simple_segment_def validate_Valid)

lemma fs_print_success [simp]: "fs (print_success cfg w) = fs w"
proof -
  have "fs (fold console_log ls w) = fs w" for ls
    by (induction ls arbitrary: w) simp_all
  then show ?thesis by (simp add: print_success_def)
qed

lemma console_print_success [simp]:
  "console (print_success cfg w) = console w @ map Log (success_message cfg)"
proof -
  have "console (fold console_log ls w) = console w @ map Log ls" for ls
    by (induction ls arbitrary: w) simp_all
  then show ?thesis by (simp add: print_success_def)
qed

lemma cwd_print_success [simp]: "cwd (print_success cfg w) = cwd w"
proof -
  have "cwd (fold console_log ls w) = cwd w" for ls
    by (induction ls arbitrary: w) simp_all
  then show ?thesis by (simp add: print_success_def)
qed

lemma createProject_cancelled:
  assumes "resolve_name arg u = Some name"
    and "existsSync w (path_resolve (cwd w) name)"
    and "\<not> confirm_overwrite u"
  shows "createProject exec parse stringify rootDir u arg opts w
          = Some (Inr (), console_log ''Project creation cancelled.'' (console_log creating_message w))"
  using assms by (simp add: createProject_def Let_def)

lemma createProject_generate:
  assumes "resolve_name arg u = Some name"
    and "existsSync w (path_resolve (cwd w) name) \<longrightarrow> confirm_overwrite u"
  shows "createProject exec parse stringify rootDir u arg opts w
          = Some (generate exec parse stringify rootDir
                    (resolve_config name opts (prompt_answers opts u))
                    (path_resolve (cwd w) name)
                    (if existsSync w (path_resolve (cwd w) name)
                     then removeSync (path_resolve (cwd w) name) (console_log creating_message w)
                     else console_log creating_message w))"
  using assms by (simp add: createProject_def Let_def)

text \<open>
  C4. When the manifest of the tool has a version, so that the script loads and gets as
  far as its questions, the target exists and the user declines to overwrite it, the
  script ends with exit code 0 in a world that differs from the one it started in only
  by two lines on the terminal: the opening line and \<^verbatim>\<open>Project creation cancelled.\<close>;
  the filesystem and the working directory are the same, and nothing is reported as an
  error.
\<close>

theorem declined_overwrite_changes_nothing:
  assumes "load_package_json parse rootDir w = Inr (Some version)"
    and "resolve_name arg u = Some name"
    and "existsSync w (path_resolve (cwd w) name)"
    and "\<not> confirm_overwrite u"
  shows "cli_script exec parse stringify rootDir u arg opts w
          = Some (0, w\<lparr>console := console w @ [Log creating_message, Log ''Project creation cancelled.'']\<rparr>)"
  using assms(1) createProject_cancelled[OF assms(2,3,4)]
  by (simp add: cli_script_def console_log_def emit_def)

theorem declined_overwrite_changes_nothing_witness:
  "cli_script example_exec example_parse example_stringify [''pkg''] example_user
     (Some ''old-app'') example_options example_home
   = Some (0, example_home\<lparr>console := [Log creating_message, Log ''Project creation cancelled.'']\<rparr>)"
proof -
  have 1: "load_package_json example_parse [''pkg''] example_home = Inr (Some (JStr ''1.0.0''))"
    by code_simp
  have 2: "resolve_name (Some ''old-app'') example_user = Some ''old-app''"
    by code_simp
  have 3: "existsSync example_home (path_resolve (cwd example_home) ''old-app'')"
    by code_simp
  have 4: "\<not> confirm_overwrite example_user"
    by code_simp
  have 5: "console example_home = []"
    by code_simp
  from declined_overwrite_changes_nothing[OF 1 2 3 4, of example_exec example_stringify example_options] 5
  show ?thesis by simp
qed

lemmas cli_defs = createProject_def generate_def copy_template_def update_package_json_def
  setup_environment_def initialize_git_def install_dependencies_def install_failed_def
  resolve_name_def resolve_config_def prompt_answers_def path_resolve_def resolve_segment_def
  copySync_def existsSync_def readFileSync_def writeFileSync_def removeSync_def chdir_def
  emit_def console_log_def and_then_def Let_def installCommand_def
  cli_script_def load_package_json_def validate_def name_pattern_def name_char_def trim_def
  is_space_def split_on_none

lemmas example_defs = example_exec_def failing_exec_def example_parse_def example_stringify_def
  example_user_def example_options_def example_home_def example_template_manifest_def
  example_manifest_def example_bare_def example_world_def example_no_manifest_def
  example_broken_def

lemma setup_environment_absent:
  "\<not> existsSync w (projectPath @ [''.env.example'']) \<Longrightarrow>
   setup_environment projectPath w
     = emit (SpinSucceed ''Environment variables set up'')
         (emit (SpinStart ''Setting up environment variables...'') w)"
  by (simp add: setup_environment_def Let_def)

text \<open>
  C7, as the code has it. When the environment step runs and the target has no
  \<^verbatim>\<open>.env.example\<close>, the step copies nothing and reports success, not a warning
  (\<^verbatim>\<open>Environment variables set up\<close>), and the run goes on with the git step, the
  installation and the closing messages.
\<close>

theorem missing_env_example_reports_success:
  assumes "setupEnvironment cfg"
    and "copy_template rootDir projectPath w = (Inr (), w1)"
    and "update_package_json parse stringify projectPath (projectName cfg) w1 = (Inr (), w2)"
    and "\<not> existsSync w2 (projectPath @ [''.env.example''])"
  shows "generate exec parse stringify rootDir cfg projectPath w =
     (let w3 = emit (SpinSucceed ''Environment variables set up'')
                 (emit (SpinStart ''Setting up environment variables...'') w2);
          w4 = (if initializeGit cfg then initialize_git exec projectPath w3 else w3);
          w5 = (if installDependencies cfg
                then install_dependencies exec projectPath cfg w4 else w4)
      in (Inr (), print_success cfg w5))"
  using assms by (simp add: generate_def Let_def setup_environment_absent)

text \<open>
  The claim C7 fails on the example installation, whose template has no
  \<^verbatim>\<open>.env.example\<close>: the run ends normally, the terminal shows the environment step as
  succeeded, and no warning was printed.
\<close>

theorem missing_env_example_counterexample:
  "map_option (\<lambda>(r, w'). (r, take 5 (console w'),
        SpinWarn ''Could not set up environment variables'' \<in> set (console w'),
        existsSync w' [''home'', ''app'', ''.env.example'']))
     (createProject example_exec example_parse example_stringify [''pkg''] example_user
        (Some ''app'') example_options example_home)
   = Some (Inr (),
       [Log creating_message,
        SpinStart ''Copying template files...'',
        SpinSucceed ''Template files copied'',
        SpinStart ''Setting up environment variables...'',
        SpinSucceed ''Environment variables set up''],
       False, False)"
  by (simp add: cli_defs example_defs success_message_def)


theorem missing_env_example_reports_success_witness:
  "generate example_exec example_parse example_stringify [''pkg'']
     (resolve_config ''app'' example_options (prompt_answers example_options example_user))
     [''home'', ''app''] example_home
   = (Inr (),
      print_success
        (resolve_config ''app'' example_options (prompt_answers example_options example_user))
        (emit (SpinSucceed ''Environment variables set up'')
          (emit (SpinStart ''Setting up environment variables...'')
            (snd (update_package_json example_parse example_stringify [''home'', ''app''] ''app''
                   (snd (copy_template [''pkg''] [''home'', ''app''] example_home)))))))"
proof -
  let ?cfg = "resolve_config ''app'' example_options (prompt_answers example_options example_user)"
  let ?w1 = "snd (copy_template [''pkg''] [''home'', ''app''] example_home)"
  let ?w2 = "snd (update_package_json example_parse example_stringify [''home'', ''app''] ''app'' ?w1)"
  have 1: "setupEnvironment ?cfg"
    by (simp add: cli_defs example_defs)
  have 2: "copy_template [''pkg''] [''home'', ''app''] example_home = (Inr (), ?w1)"
    by (simp add: cli_defs example_defs)
  have 3: "update_package_json example_parse example_stringify [''home'', ''app''] (projectName ?cfg) ?w1
            = (Inr (), ?w2)"
    by (simp add: cli_defs example_defs)
  have 4: "\<not> existsSync ?w2 ([''home'', ''app''] @ [''.env.example''])"
    by (simp add: cli_defs example_defs)
  have 5: "\<not> initializeGit ?cfg" "\<not> installDependencies ?cfg"
    by (simp_all add: cli_defs example_defs)
  from missing_env_example_reports_success[OF 1 2 3 4, of example_exec] 5
  show ?thesis by (simp add: Let_def)
qed

text \<open>
  C8. When the installation step runs and the install command throws, the exception
  stays inside the step: the spinner is marked as failed, the terminal shows how to
  install by hand (\<^verbatim>\<open>cd\<close> into the project, then the very command that failed), and
  the run returns normally after the closing messages, which begin with the line of
  success.
\<close>

theorem failed_install_is_reported_and_run_completes:
  assumes "installDependencies cfg"
    and "copy_template rootDir projectPath w = (Inr (), w1)"
    and "update_package_json parse stringify projectPath (projectName cfg) w1 = (Inr (), w2)"
    and "w4 = (let w3 = (if setupEnvironment cfg then setup_environment projectPath w2 else w2)
               in if initializeGit cfg then initialize_git exec projectPath w3 else w3)"
    and "chdir projectPath
           (emit (SpinStart (''Installing dependencies with '' @ packageManager cfg @ ''...'')) w4)
          = Inr w5"
    and "installCommand (packageManager cfg) = Some command"
    and "exec command (cwd w5) w5 = (Inl e, w6)"
  shows "\<exists>w'. generate exec parse stringify rootDir cfg projectPath w = (Inr (), w')
          \<and> fs w' = fs w6
          \<and> console w' = console w6
               @ [SpinFail ''Failed to install dependencies'',
                  Log (CHR 0x0A # ''You can install dependencies manually by running:''),
                  Log (''cd '' @ projectName cfg @ '' && '' @ command)]
               @ map Log (success_message cfg)
          \<and> hd (success_message cfg)
               = [CHR 0x0A, CHR 0xE2, CHR 0x9C, CHR 0x85] @ '' Project created successfully!''
                   @ [CHR 0x0A]"
proof -
  from assms(6) have cmd: "packageManager cfg @ '' install'' = command"
    by (auto simp: installCommand_def split: if_splits)
  have inst: "install_dependencies exec projectPath cfg w4 = install_failed cfg w6"
    using assms(5,6,7) by (simp add: install_dependencies_def Let_def)
  have gen: "generate exec parse stringify rootDir cfg projectPath w
              = (Inr (), print_success cfg (install_failed cfg w6))"
    using assms(1,2,3,4) inst by (simp add: generate_def Let_def)
  show ?thesis
    unfolding gen using cmd
    by (simp add: install_failed_def success_message_def)
qed

lemma writeFileSync_ok:
  assumes "p \<noteq> []" and "lookup (fs w) (butlast p) = Some (Dir ks)"
    and "\<And>kids. lookup (fs w) p \<noteq> Some (Dir kids)"
  shows "\<exists>w'. writeFileSync p c w = Inr w'"
proof -
  from write_at_ok[OF assms(1,2)] obtain t' where "write_at p (File c) (fs w) = Some t'" by blast
  with assms(3) show ?thesis
    unfolding writeFileSync_def by (auto split: option.splits node.splits)
qed

lemma copy_template_fresh:
  assumes "lookup (fs w) (rootDir @ [''template'']) = Some s"
    and "\<not> prefix (rootDir @ [''template'']) projectPath"
    and "lookup (fs w) projectPath = None"
    and "lookup (fs w) (butlast projectPath) = Some (Dir ks)"
  shows "\<exists>w1. copy_template rootDir projectPath w = (Inr (), w1)
          \<and> (\<forall>r. lookup (fs w1) (projectPath @ r) = lookup s r)"
proof -
  let ?w = "emit (SpinStart ''Copying template files...'') w"
  from assms have "\<exists>w'. copySync (rootDir @ [''template'']) projectPath ?w = Inr w'
          \<and> (\<forall>r. lookup (fs w') (projectPath @ r) = lookup s r)
          \<and> (\<forall>q. \<not> prefix projectPath q \<longrightarrow> \<not> prefix q projectPath \<longrightarrow> lookup (fs w') q = lookup (fs ?w) q)
          \<and> console w' = console ?w \<and> cwd w' = cwd ?w"
    by (intro copySync_fresh) simp_all
  then obtain w' where "copySync (rootDir @ [''template'']) projectPath ?w = Inr w'"
    and "\<forall>r. lookup (fs w') (projectPath @ r) = lookup s r" by blast
  then show ?thesis by (simp add: copy_template_def Let_def)
qed

lemma update_package_json_object:
  assumes dir: "lookup (fs w) projectPath = Some (Dir tkids)"
    and isfile: "lookup (fs w) (projectPath @ [''package.json'']) = Some (File body)"
    and parsed: "parse body = Some (JObj kvs)"
  shows "\<exists>w2. update_package_json parse stringify projectPath name w = (Inr (), w2)
          \<and> lookup (fs w2) (projectPath @ [''package.json''])
              = Some (File (stringify (JObj (AList.update ''name'' (JStr name) kvs))))"
proof -
  let ?pj = "projectPath @ [''package.json'']"
  let ?j = "JObj (AList.update ''name'' (JStr name) kvs)"
  have "\<exists>w'. writeFileSync ?pj (stringify ?j) w = Inr w'"
    using dir isfile by (intro writeFileSync_ok) simp_all
  then obtain w' where w': "writeFileSync ?pj (stringify ?j) w = Inr w'" by blast
  have "update_package_json parse stringify projectPath name w = (Inr (), w')"
    using isfile parsed w'
    by (simp add: update_package_json_def Let_def existsSync_def readFileSync_def and_then_def)
  with writeFileSync_Inr(1)[OF w'] show ?thesis by simp
qed

text \<open>
  C1, as the code has it. For a valid project name, given as the argument or typed at
  the prompt, with the three optional steps off: when the template directory holds a
  manifest that parses to a JSON object, the target is not there or the user agrees to
  overwrite it, the working directory is a directory, and neither of target and
  template lies inside the other, the run returns normally and the manifest in the
  target is the printed form of the template's manifest with \<^verbatim>\<open>name\<close> set to the
  project name.
\<close>

theorem valid_name_becomes_manifest_name:
  assumes valid: "validate name = Valid"
    and supplied: "resolve_name arg u = Some name"
    and disabled: "opt_skipInstall opts" "opt_skipGit opts" "\<not> confirm_env u"
    and go: "existsSync w (cwd w @ [name]) \<longrightarrow> confirm_overwrite u"
    and cwd_dir: "lookup (fs w) (cwd w) = Some (Dir ckids)"
    and template: "lookup (fs w) (rootDir @ [''template'']) = Some (Dir tkids)"
    and manifest: "map_of tkids ''package.json'' = Some (File body)" "parse body = Some (JObj kvs)"
    and apart: "\<not> prefix (rootDir @ [''template'']) (cwd w @ [name])"
               "\<not> prefix (cwd w @ [name]) (rootDir @ [''template''])"
  shows "\<exists>w' j. createProject exec parse stringify rootDir u arg opts w = Some (Inr (), w')
           \<and> lookup (fs w') (cwd w @ [name, ''package.json'']) = Some (File (stringify j))
           \<and> j = JObj (AList.update ''name'' (JStr name) kvs)
           \<and> get_prop ''name'' j = Inr (Some (JStr name))"
proof -
  let ?P = "cwd w @ [name]"
  let ?T = "rootDir @ [''template'']"
  let ?w0 = "console_log creating_message w"
  let ?w0' = "if existsSync w ?P then removeSync ?P ?w0 else ?w0"
  let ?cfg = "resolve_config name opts (prompt_answers opts u)"
  have P: "path_resolve (cwd w) name = ?P" using valid by (rule path_resolve_valid)
  have run: "createProject exec parse stringify rootDir u arg opts w
      = Some (generate exec parse stringify rootDir ?cfg ?P ?w0')"
    using createProject_generate[OF supplied, of w exec parse stringify rootDir opts] go
    by (simp add: P)
  have a: "lookup (fs ?w0') ?P = None"
    using lookup_remove_at_below[of ?P "fs w" "[]"]
    by (auto simp: removeSync_def existsSync_def)
  have b: "lookup (fs ?w0') ?T = Some (Dir tkids)"
    using template apart by (simp add: removeSync_def lookup_remove_at_other)
  have c: "\<exists>ks. lookup (fs ?w0') (butlast ?P) = Some (Dir ks)"
    using cwd_dir lookup_remove_at_dir[OF cwd_dir, of ?P]
    by (auto simp: removeSync_def)
  then obtain ks where c': "lookup (fs ?w0') (butlast ?P) = Some (Dir ks)" by blast
  from copy_template_fresh[OF b apart(1) a c'] obtain w1
    where w1: "copy_template rootDir ?P ?w0' = (Inr (), w1)"
      and copied: "\<forall>r. lookup (fs w1) (?P @ r) = lookup (Dir tkids) r" by blast
  from copied have d1: "lookup (fs w1) ?P = Some (Dir tkids)"
    by (metis append_Nil2 lookup.simps(1))
  from copied manifest(1) have d2: "lookup (fs w1) (?P @ [''package.json'']) = Some (File body)"
    by simp
  from update_package_json_object[where parse = parse and stringify = stringify and name = name,
      OF d1 d2 manifest(2)] obtain w2
    where w2: "update_package_json parse stringify ?P name w1 = (Inr (), w2)"
      and written: "lookup (fs w2) (?P @ [''package.json''])
              = Some (File (stringify (JObj (AList.update ''name'' (JStr name) kvs))))" by blast
  have cfg: "projectName ?cfg = name" "\<not> setupEnvironment ?cfg" "\<not> initializeGit ?cfg"
    "\<not> installDependencies ?cfg"
    using disabled by (simp_all add: resolve_config_def prompt_answers_def)
  have "generate exec parse stringify rootDir ?cfg ?P ?w0' = (Inr (), print_success ?cfg w2)"
    using w1 w2 cfg by (simp add: generate_def Let_def)
  with run written show ?thesis by (simp add: AList.update_conv')
qed

theorem valid_name_becomes_manifest_name_witness:
  "validate ''app'' = Valid
   \<and> map_option (\<lambda>(r, w'). (r, lookup (fs w') [''home'', ''app'', ''package.json'']))
       (createProject example_exec example_parse example_stringify [''pkg'']
          (example_user\<lparr>confirm_env := False\<rparr>) (Some ''app'') example_options example_home)
     = Some (Inr (), Some (File (example_stringify
         (JObj [(''name'', JStr ''app''), (''version'', JStr ''0.1.0''),
                (''type'', JStr ''module''), (''scripts'', JObj [(''dev'', JStr ''vite'')]),
                (''devDependencies'', JObj [(''vite'', JStr ''4'')]),
                (''private'', JBool True)]))))"
proof -
  let ?u = "example_user\<lparr>confirm_env := False\<rparr>"
  have 1: "validate ''app'' = Valid" by (simp add: cli_defs)
  have 2: "resolve_name (Some ''app'') ?u = Some ''app''" by (simp add: cli_defs)
  have 3: "opt_skipInstall example_options" "opt_skipGit example_options" "\<not> confirm_env ?u"
    by (simp_all add: example_defs)
  have 4: "existsSync example_home (cwd example_home @ [''app'']) \<longrightarrow> confirm_overwrite ?u"
    by (simp add: cli_defs example_defs)
  have 5: "lookup (fs example_home) (cwd example_home)
            = Some (Dir [(''old-app'', Dir [(''notes.txt'', File ''keep me'')])])"
    by (simp add: example_defs)
  have 6: "lookup (fs example_home) ([''pkg''] @ [''template''])
            = Some (Dir [(''package.json'', File ''TEMPLATE''), (''index.html'', File ''<html>'')])"
    by (simp add: example_defs)
  have 7: "map_of [(''package.json'', File ''TEMPLATE''), (''index.html'', File ''<html>'')]
             ''package.json'' = Some (File ''TEMPLATE'')"
    by simp
  have 8: "example_parse ''TEMPLATE''
            = Some (JObj [(''name'', JStr ''my-react-app''), (''version'', JStr ''0.1.0''),
                          (''type'', JStr ''module''), (''scripts'', JObj [(''dev'', JStr ''vite'')]),
                          (''devDependencies'', JObj [(''vite'', JStr ''4'')]),
                          (''private'', JBool True)])"
    by (simp add: example_defs)
  have 9: "\<not> prefix ([''pkg''] @ [''template'']) (cwd example_home @ [''app''])"
    "\<not> prefix (cwd example_home @ [''app'']) ([''pkg''] @ [''template''])"
    by (simp_all add: example_defs)
  have 10: "cwd example_home = [''home'']" by (simp add: example_defs)
  from valid_name_becomes_manifest_name[where exec = example_exec and stringify = example_stringify
      and parse = example_parse,
      OF 1 2 3 4 5 6 7 8 9]
  show ?thesis using 1 10 by auto
qed

text \<open>
  The claim C1 fails where the template has no manifest: for the valid name
  \<^verbatim>\<open>app\<close> and the optional steps off, the run ends normally and has made the target
  directory, which holds no manifest at all.
\<close>

theorem valid_name_counterexample:
  "validate ''app'' = Valid
   \<and> map_option (\<lambda>(r, w'). (r, existsSync w' [''home'', ''app''],
                          existsSync w' [''home'', ''app'', ''package.json'']))
       (createProject example_exec example_parse example_stringify [''pkg'']
          (example_user\<lparr>confirm_env := False\<rparr>) (Some ''app'') example_options example_bare)
     = Some (Inr (), True, False)"
  by (simp add: cli_defs example_defs)

theorem failed_install_is_reported_and_run_completes_witness:
  "fst (generate failing_exec example_parse example_stringify [''pkg'']
          (resolve_config ''app'' (example_options\<lparr>opt_skipInstall := False\<rparr>)
             (prompt_answers (example_options\<lparr>opt_skipInstall := False\<rparr>) example_user))
          [''home'', ''app''] example_home) = Inr ()
   \<and> Log ''cd app && npm install''
       \<in> set (console (snd (generate failing_exec example_parse example_stringify [''pkg'']
          (resolve_config ''app'' (example_options\<lparr>opt_skipInstall := False\<rparr>)
             (prompt_answers (example_options\<lparr>opt_skipInstall := False\<rparr>) example_user))
          [''home'', ''app''] example_home)))"
proof -
  let ?opts = "example_options\<lparr>opt_skipInstall := False\<rparr>"
  let ?cfg = "resolve_config ''app'' ?opts (prompt_answers ?opts example_user)"
  let ?P = "[''home'', ''app'']"
  let ?w1 = "snd (copy_template [''pkg''] ?P example_home)"
  let ?w2 = "snd (update_package_json example_parse example_stringify ?P ''app'' ?w1)"
  let ?w4 = "setup_environment ?P ?w2"
  let ?w5 = "(emit (SpinStart ''Installing dependencies with npm...'') ?w4)\<lparr>cwd := ?P\<rparr>"
  have 1: "installDependencies ?cfg" by (simp add: cli_defs example_defs)
  have 2: "copy_template [''pkg''] ?P example_home = (Inr (), ?w1)"
    by (simp add: cli_defs example_defs)
  have 3: "update_package_json example_parse example_stringify ?P (projectName ?cfg) ?w1
            = (Inr (), ?w2)"
    by (simp add: cli_defs example_defs)
  have 4: "?w4 = (let w3 = (if setupEnvironment ?cfg then setup_environment ?P ?w2 else ?w2)
               in if initializeGit ?cfg then initialize_git failing_exec ?P w3 else w3)"
    by (simp add: resolve_config_def prompt_answers_def example_defs)
  have 5: "chdir ?P
           (emit (SpinStart (''Installing dependencies with '' @ packageManager ?cfg @ ''...'')) ?w4)
          = Inr ?w5"
    by (simp add: cli_defs example_defs)
  have 6: "installCommand (packageManager ?cfg) = Some ''npm install''"
    by (simp add: cli_defs example_defs)
  have 7: "failing_exec ''npm install'' (cwd ?w5) ?w5 = (Inl (Error ''Command failed''), ?w5)"
    by (simp add: failing_exec_def)
  have 8: "projectName ?cfg = ''app''" by (simp add: resolve_config_def)
  from failed_install_is_reported_and_run_completes[where exec = failing_exec
      and parse = example_parse and stringify = example_stringify, OF 1 2 3 4 5 6 7]
  show ?thesis using 8 by auto
qed

text \<open>
  C10, as the code has it. A non-empty project-name argument is taken as it is: the
  prompt and its validation are not consulted. The target is what \<^verbatim>\<open>path.resolve\<close>
  makes of the working directory and the name, which for a name of one path segment is
  the directory of that name in the working directory; unless the user declines to
  overwrite an existing target, the generation runs on that path with that name.
\<close>

theorem nonempty_argument_is_used_unvalidated:
  assumes "name \<noteq> []"
  shows "resolve_name (Some name) u = Some name
       \<and> (simple_segment name \<longrightarrow> path_resolve (cwd w) name = cwd w @ [name])
       \<and> ((existsSync w (path_resolve (cwd w) name) \<longrightarrow> confirm_overwrite u) \<longrightarrow>
            createProject exec parse stringify rootDir u (Some name) opts w
             = Some (generate exec parse stringify rootDir
                       (resolve_config name opts (prompt_answers opts u))
                       (path_resolve (cwd w) name)
                       (if existsSync w (path_resolve (cwd w) name)
                        then removeSync (path_resolve (cwd w) name) (console_log creating_message w)
                        else console_log creating_message w)))"
proof -
  have r: "resolve_name (Some name) u = Some name"
    using assms by (simp add: resolve_name_def)
  with createProject_generate[OF r] path_resolve_simple show ?thesis by blast
qed

theorem nonempty_argument_is_used_unvalidated_witness:
  "validate ''my app''
     = Invalid ''Project name can only contain letters, numbers, hyphens, and underscores''
   \<and> map_option (\<lambda>(r, w'). (r, existsSync w' [''home'', ''my app'', ''index.html'']))
       (createProject example_exec example_parse example_stringify [''pkg''] example_user
          (Some ''my app'') example_options example_home)
     = Some (Inr (), True)"
proof -
  have 1: "''my app'' \<noteq> []" by simp
  have 2: "simple_segment ''my app''" by (simp add: simple_segment_def)
  have 3: "\<not> existsSync example_home [''home'', ''my app'']"
    by (simp add: cli_defs example_defs)
  have 4: "cwd example_home = [''home'']" by (simp add: example_defs)
  have 5: "validate ''my app''
     = Invalid ''Project name can only contain letters, numbers, hyphens, and underscores''"
    by (simp add: cli_defs)
  have 6: "map_option (\<lambda>(r, w'). (r, existsSync w' [''home'', ''my app'', ''index.html'']))
       (Some (generate example_exec example_parse example_stringify [''pkg'']
                (resolve_config ''my app'' example_options (prompt_answers example_options example_user))
                [''home'', ''my app''] (console_log creating_message example_home)))
     = Some (Inr (), True)"
    by (simp add: cli_defs example_defs success_message_def)
  from nonempty_argument_is_used_unvalidated[OF 1, of example_user example_home example_exec
      example_parse example_stringify "[''pkg'']" example_options] 2 3 4
  have "createProject example_exec example_parse example_stringify [''pkg''] example_user
          (Some ''my app'') example_options example_home
        = Some (generate example_exec example_parse example_stringify [''pkg'']
                (resolve_config ''my app'' example_options (prompt_answers example_options example_user))
                [''home'', ''my app''] (console_log creating_message example_home))"
    by simp
  with 5 6 show ?thesis by simp
qed

text \<open>
  The claim C10 fails for the empty string: given as the argument, it is not used; the
  prompt asks, rejects \<^verbatim>\<open>my app\<close>, accepts \<^verbatim>\<open>my-app\<close>, and that is the directory
  the run makes.
\<close>

theorem empty_argument_counterexample:
  "map_option (\<lambda>(r, w'). (r, readdirSync w' [''home'']))
     (createProject example_exec example_parse example_stringify [''pkg'']
        (example_user\<lparr>typed_names := [''my app'', ''my-app'']\<rparr>) (Some '''')
        example_options example_home)
   = Some (Inr (), Inr [''old-app'', ''my-app''])"
  by (simp add: cli_defs example_defs success_message_def readdirSync_def)

section \<open>The template builder\<close>

lemma path_relative_append [simp]: "path_relative rootDir (rootDir @ r) = r"
  by (induction rootDir) simp_all

lemma no_star_patterns: "\<forall>p\<in>set excludePatterns. CHR ''*'' \<notin> set p"
  by (simp add: excludePatterns_def)

lemma shouldExclude_iff:
  "shouldExclude re (rootDir @ r) rootDir \<longleftrightarrow>
     (\<exists>R\<in>set excludePatterns.
        join_with ''/'' r = R \<or> prefix (R @ ''/'') (join_with ''/'' r)
        \<or> path_basename (rootDir @ r) = R)"
  using no_star_patterns
  by (auto simp: shouldExclude_def pattern_matches_def list_ex_iff Let_def)

lemma allowed_iff:
  "allowed re rootDir src r \<longleftrightarrow> (\<forall>s. s \<noteq> [] \<and> prefix s r \<longrightarrow> \<not> shouldExclude re (src @ s) rootDir)"
  by (auto simp: allowed_def list_all_iff)

lemma allowed_Nil [simp]: "allowed re rootDir src []"
  by (simp add: allowed_iff)

lemma allowed_snoc:
  "allowed re rootDir src r \<Longrightarrow> \<not> shouldExclude re (src @ r @ [item]) rootDir
    \<Longrightarrow> allowed re rootDir src (r @ [item])"
  by (auto simp: allowed_iff)

lemma allowed_prefix: "allowed re rootDir src r \<Longrightarrow> prefix s r \<Longrightarrow> allowed re rootDir src s"
  by (auto simp: allowed_iff intro: prefix_order.trans)

lemma for_each_rel:
  assumes refl: "\<And>w. R w w"
    and trans: "\<And>a b c. R a b \<Longrightarrow> R b c \<Longrightarrow> R a c"
    and step: "\<And>x w r w'. x \<in> set xs \<Longrightarrow> body x w = Some (r, w') \<Longrightarrow> R w w'"
    and run: "for_each body xs w = Some (r, w')"
  shows "R w w'"
  using step run
proof (induction xs arbitrary: w)
  case Nil
  then show ?case using refl by simp
next
  case (Cons x xs)
  from Cons.prems(2) obtain r1 w1 where b: "body x w = Some (r1, w1)"
    by (auto split: option.splits)
  have first: "R w w1" using Cons.prems(1)[OF _ b] by simp
  show ?case
  proof (cases r1)
    case (Inl e)
    with Cons.prems(2) b first show ?thesis by simp
  next
    case (Inr u)
    with Cons.prems(2) b have "for_each body xs w1 = Some (r, w')" by simp
    moreover have "\<And>y v r' v'. y \<in> set xs \<Longrightarrow> body y v = Some (r', v') \<Longrightarrow> R v v'"
      using Cons.prems(1) by (meson list.set_intros(2))
    ultimately have "R w1 w'" using Cons.IH by blast
    with first show ?thesis by (rule trans)
  qed
qed

lemma copyDirectory_rel:
  assumes refl: "\<And>w. R w w"
    and trans: "\<And>a b c. R a b \<Longrightarrow> R b c \<Longrightarrow> R a c"
    and log: "\<And>s w. R w (console_log s w)"
    and mk: "\<And>r w w'. allowed re rootDir S r \<Longrightarrow> \<not> existsSync w (D @ r)
               \<Longrightarrow> mkdirSync (D @ r) w = Inr w' \<Longrightarrow> R w w'"
    and wr: "\<And>r c w w'. allowed re rootDir S r \<Longrightarrow> r \<noteq> []
               \<Longrightarrow> writeFileSync (D @ r) c w = Inr w' \<Longrightarrow> R w w'"
  shows "allowed re rootDir S r \<Longrightarrow> copyDirectory n re rootDir (S @ r) (D @ r) w = Some (res, w')
          \<Longrightarrow> R w w'"
proof (induction n arbitrary: r w res w')
  case 0
  then show ?case by simp
next
  case (Suc n)
  let ?src = "S @ r" and ?dest = "D @ r"
  show ?case
  proof (cases "if \<not> existsSync w ?dest then mkdirSync ?dest w else Inr w")
    case (Inl e)
    with Suc.prems(2) show ?thesis using refl by simp
  next
    case (Inr w1)
    have first: "R w w1"
      using Inr mk[OF Suc.prems(1)] refl by (auto split: if_splits)
    show ?thesis
    proof (cases "readdirSync w1 ?src")
      case (Inl e)
      with Suc.prems(2) Inr first show ?thesis by simp
    next
      case items: (Inr items)
      let ?body = "\<lambda>item w2.
            let srcPath = ?src @ [item]; destPath = ?dest @ [item] in
            if shouldExclude re srcPath rootDir then
              Some (Inr (),
                console_log (''Excluding: '' @ join_with ''/'' (path_relative rootDir srcPath)) w2)
            else
              (case statSync_isDirectory w2 srcPath of
                 Inl e \<Rightarrow> Some (Inl e, w2)
               | Inr isDir \<Rightarrow>
                   if isDir then copyDirectory n re rootDir srcPath destPath w2
                   else
                     (case copyFileSync srcPath destPath w2 of
                        Inl e \<Rightarrow> Some (Inl e, w2)
                      | Inr w3 \<Rightarrow>
                          Some (Inr (),
                            console_log
                              (''Copied: '' @ join_with ''/'' (path_relative rootDir srcPath)) w3)))"
      from Suc.prems(2) Inr items have loop: "for_each ?body items w1 = Some (res, w')"
        by simp
      have "R w1 w'"
      proof (rule for_each_rel[where R = R, OF refl trans _ loop])
        fix item w2 r2 w3
        assume b: "?body item w2 = Some (r2, w3)"
        show "R w2 w3"
        proof (cases "shouldExclude re (?src @ [item]) rootDir")
          case True
          with b show ?thesis using log by (auto simp: Let_def)
        next
          case False
          with Suc.prems(1) have al: "allowed re rootDir S (r @ [item])"
            by (simp add: allowed_snoc)
          from b False show ?thesis
          proof (cases "statSync_isDirectory w2 (?src @ [item])")
            case (Inl e)
            with b False show ?thesis using refl by (simp add: Let_def)
          next
            case (Inr isDir)
            show ?thesis
            proof (cases isDir)
              case True
              with b False Inr
              have "copyDirectory n re rootDir (S @ r @ [item]) (D @ r @ [item]) w2 = Some (r2, w3)"
                by (simp add: Let_def)
              with Suc.IH[OF al] show ?thesis by simp
            next
              case nd: False
              show ?thesis
              proof (cases "copyFileSync (?src @ [item]) (?dest @ [item]) w2")
                case (Inl e)
                with b False Inr nd show ?thesis using refl by (simp add: Let_def)
              next
                case cp: (Inr w4)
                then obtain c where "writeFileSync (D @ r @ [item]) c w2 = Inr w4"
                  by (auto simp: copyFileSync_def split: sum.splits)
                with wr[OF al] have "R w2 w4" by simp
                moreover from b False Inr nd cp
                have "w3 = console_log (''Copied: '' @ join_with ''/''
                        (path_relative rootDir (?src @ [item]))) w4"
                  by (simp add: Let_def)
                ultimately show ?thesis using log trans by blast
              qed
            qed
          qed
        qed
      qed
      with first show ?thesis by (rule trans)
    qed
  qed
qed

lemma copyDirectory_frame:
  assumes "allowed re rootDir S r"
    and "copyDirectory n re rootDir (S @ r) (D @ r) w = Some (res, w')"
    and "\<And>r'. allowed re rootDir S r' \<Longrightarrow> \<not> prefix q (D @ r')"
  shows "lookup (fs w') q = lookup (fs w) q"
proof (rule copyDirectory_rel[where R = "\<lambda>w w'. lookup (fs w') q = lookup (fs w) q"
      and re = re and rootDir = rootDir and S = S and D = D, OF _ _ _ _ _ assms(1,2)])
  fix r w w'
  assume "allowed re rootDir S r" and "mkdirSync (D @ r) w = Inr w'"
  then show "lookup (fs w') q = lookup (fs w) q"
    using assms(3) by (auto simp: mkdirSync_def lookup_mkdirp_other split: option.splits)
next
  fix r c w w'
  assume "allowed re rootDir S r" and "writeFileSync (D @ r) c w = Inr w'"
  then show "lookup (fs w') q = lookup (fs w) q"
    using assms(3) by (simp add: writeFileSync_Inr(2))
qed simp_all

lemma processTemplateFiles_frame:
  assumes "processTemplateFiles parse stringify rootDir w = (res, w')"
    and "\<not> prefix q (templateDir rootDir @ [''package.json''])"
    and "\<not> prefix q (templateDir rootDir @ [''.gitignore''])"
    and "\<not> prefix q (templateDir rootDir @ [''README.md''])"
  shows "lookup (fs w') q = lookup (fs w) q"
proof (cases "processPackageJson parse stringify rootDir w")
  case (Inl e)
  with assms(1) show ?thesis by (simp add: processTemplateFiles_def)
next
  case (Inr w1)
  from processPackageJson_Inr[OF Inr] assms(2)
  have 1: "lookup (fs w1) q = lookup (fs w) q"
    by (auto simp: writeFileSync_Inr(2))
  from assms(1) Inr have "lookup (fs w') q = lookup (fs w1) q"
    unfolding processTemplateFiles_def Let_def
    by (auto split: sum.splits simp: writeFileSync_Inr(2)[OF _ assms(3)]
        writeFileSync_Inr(2)[OF _ assms(4)])
  with 1 show ?thesis by simp
qed

lemma not_excluded_top:
  "\<not> shouldExclude re (rootDir @ [''package.json'']) rootDir"
  "\<not> shouldExclude re (rootDir @ [''.gitignore'']) rootDir"
  "\<not> shouldExclude re (rootDir @ [''README.md'']) rootDir"
  by (simp_all add: shouldExclude_iff path_basename_def excludePatterns_def)

lemma template_excluded: "shouldExclude re (rootDir @ [''template'']) rootDir"
  by (simp add: shouldExclude_iff path_basename_def excludePatterns_def)

lemma allowed_single:
  "\<not> shouldExclude re (src @ [name]) rootDir \<Longrightarrow> allowed re rootDir src [name]"
  by (simp add: allowed_def)

lemma fs_start_build: "fs (start_build rootDir w) = remove_at (templateDir rootDir) (fs w)"
  by (auto simp: start_build_def Let_def removeSync_def existsSync_def remove_at_missing)

lemma fs_finish_build [simp]: "fs (finish_build rootDir w) = fs w"
  by (simp add: finish_build_def)

lemma buildTemplate_Some:
  assumes "buildTemplate n re parse stringify rootDir w = Some (res, w')"
  obtains r3 w3 r4 w4 where
    "copyDirectory n re rootDir rootDir (templateDir rootDir) (start_build rootDir w) = Some (r3, w3)"
    and "processTemplateFiles parse stringify rootDir (console_log processing_message w3) = (r4, w4)"
    and "(\<exists>e. r3 = Inl e) \<and> res = r3 \<and> w' = w3 \<or> r3 = Inr () \<and> res = r4 \<and> fs w' = fs w4"
proof -
  from assms obtain r3 w3 where
    c: "copyDirectory n re rootDir rootDir (templateDir rootDir) (start_build rootDir w) = Some (r3, w3)"
    unfolding buildTemplate_def by (auto split: option.splits)
  obtain r4 w4 where
    p: "processTemplateFiles parse stringify rootDir (console_log processing_message w3) = (r4, w4)"
    by (cases "processTemplateFiles parse stringify rootDir (console_log processing_message w3)")
  from assms c p
  have "(\<exists>e. r3 = Inl e) \<and> res = r3 \<and> w' = w3 \<or> r3 = Inr () \<and> res = r4 \<and> fs w' = fs w4"
    unfolding buildTemplate_def by (cases r3; cases r4) auto
  with c p show ?thesis by (rule that)
qed

lemma buildTemplate_frame:
  assumes run: "buildTemplate n re parse stringify rootDir w = Some (res, w')"
    and away: "\<And>r. allowed re rootDir rootDir r \<Longrightarrow> \<not> prefix q (templateDir rootDir @ r)"
  shows "lookup (fs w') q = lookup (remove_at (templateDir rootDir) (fs w)) q"
proof -
  let ?T = "templateDir rootDir"
  from run obtain r3 w3 r4 w4 where
    c: "copyDirectory n re rootDir rootDir ?T (start_build rootDir w) = Some (r3, w3)"
    and p: "processTemplateFiles parse stringify rootDir (console_log processing_message w3) = (r4, w4)"
    and d: "(\<exists>e. r3 = Inl e) \<and> res = r3 \<and> w' = w3 \<or> r3 = Inr () \<and> res = r4 \<and> fs w' = fs w4"
    by (rule buildTemplate_Some)
  have "lookup (fs w3) q = lookup (fs (start_build rootDir w)) q"
    using copyDirectory_frame[where r = "[]" and S = rootDir and D = ?T and q = q] c away
    by simp
  then have 3: "lookup (fs w3) q = lookup (remove_at ?T (fs w)) q"
    by (simp add: fs_start_build)
  have "lookup (fs w4) q = lookup (fs (console_log processing_message w3)) q"
    using p
  proof (rule processTemplateFiles_frame)
    show "\<not> prefix q (?T @ [''package.json''])" "\<not> prefix q (?T @ [''.gitignore''])"
      "\<not> prefix q (?T @ [''README.md''])"
      by (intro away allowed_single not_excluded_top)+
  qed
  with 3 d show ?thesis by auto
qed

text \<open>
  C3. For every exclusion rule \<open>R\<close> and every entry whose path \<open>f\<close> relative to the source
  root matches \<open>R\<close> (the path is \<open>R\<close>, or starts with \<open>R\<close> and a slash, or its last name
  is \<open>R\<close>): however \<open>buildTemplate\<close> ends, the template directory holds no entry at \<open>f\<close>
  and none below it.
\<close>

theorem excluded_entries_are_not_copied:
  assumes "buildTemplate n re parse stringify rootDir w = Some (res, w')"
    and "R \<in> set excludePatterns"
    and "f \<noteq> []"
    and "join_with ''/'' f = R \<or> prefix (R @ ''/'') (join_with ''/'' f) \<or> last f = R"
  shows "lookup (fs w') (templateDir rootDir @ f @ below) = None"
proof -
  let ?T = "templateDir rootDir"
  from assms(2,3,4) have ex: "shouldExclude re (rootDir @ f) rootDir"
    unfolding shouldExclude_iff path_basename_def by auto
  have "\<not> prefix (?T @ f @ below) (?T @ r)" if "allowed re rootDir rootDir r" for r
  proof
    assume "prefix (?T @ f @ below) (?T @ r)"
    then have "prefix f r" by (auto simp: prefix_def)
    with that assms(3) ex show False by (auto simp: allowed_iff)
  qed
  with assms(1) have "lookup (fs w') (?T @ f @ below) = lookup (remove_at ?T (fs w)) (?T @ f @ below)"
    by (rule buildTemplate_frame)
  also have "\<dots> = None"
    by (rule lookup_remove_at_below) (simp add: templateDir_def)
  finally show ?thesis .
qed

theorem excluded_entries_are_not_copied_witness:
  "lookup (fs example_world) [''proj'', ''node_modules'', ''x''] = Some (File ''y'')
   \<and> map_option (\<lambda>(res, w'). lookup (fs w') [''proj'', ''template'', ''node_modules'', ''x''])
        (buildTemplate (Suc (Suc (Suc 0))) (\<lambda>s t. False) example_parse example_stringify
           [''proj''] example_world)
      = Some None"
proof -
  have 1: "''node_modules'' \<in> set excludePatterns" by (simp add: excludePatterns_def)
  have 2: "[''node_modules''] \<noteq> []" by simp
  have 3: "join_with ''/'' [''node_modules''] = ''node_modules''
      \<or> prefix (''node_modules'' @ ''/'') (join_with ''/'' [''node_modules''])
      \<or> last [''node_modules''] = ''node_modules''" by simp
  have "buildTemplate (Suc (Suc (Suc 0))) (\<lambda>s t. False) example_parse example_stringify [''proj'']
     example_world \<noteq> None"
    by (simp add: build_defs cli_defs example_defs example_world_def)
  then obtain res w' where 4: "buildTemplate (Suc (Suc (Suc 0))) (\<lambda>s t. False) example_parse
      example_stringify [''proj''] example_world = Some (res, w')" by auto
  have 5: "lookup (fs example_world) [''proj'', ''node_modules'', ''x''] = Some (File ''y'')"
    by (simp add: example_world_def)
  from excluded_entries_are_not_copied[OF 4 1 2 3, of "[''x'']"]
  have "lookup (fs w') [''proj'', ''template'', ''node_modules'', ''x''] = None"
    by (simp add: templateDir_def)
  with 4 5 show ?thesis by simp
qed

lemma fold_max_ge: "(y::nat) \<in> set ys \<Longrightarrow> y \<le> fold max ys a"
proof (induction ys arbitrary: a)
  case Nil
  then show ?case by simp
next
  case (Cons x xs)
  have mono: "b \<le> fold max xs b" for b :: nat
    by (induction xs arbitrary: b) (auto intro: order_trans[OF max.cobounded2])
  from Cons show ?case
    by (auto intro: order_trans[OF _ mono])
qed

lemma height_child: "map_of kids x = Some k \<Longrightarrow> height k < height (Dir kids)"
proof -
  assume "map_of kids x = Some k"
  then have "(x, k) \<in> set kids" by (rule map_of_SomeD)
  then have "height k \<in> set (map (\<lambda>(n, k). height k) kids)" by force
  then have "height k \<le> fold max (map (\<lambda>(n, k). height k) kids) 0" by (rule fold_max_ge)
  then show ?thesis by simp
qed

lemma height_lookup: "lookup t q = Some k \<Longrightarrow> height k + length q \<le> height t"
proof (induction q arbitrary: t)
  case Nil
  then show ?case by simp
next
  case (Cons x xs)
  then obtain kids c where t: "t = Dir kids" and c: "map_of kids x = Some c"
    and k: "lookup c xs = Some k"
    by (cases t) (auto split: option.splits)
  from Cons.IH[OF k] height_child[OF c] t show ?case by simp
qed

lemma for_each_total:
  assumes inv: "I w"
    and step: "\<And>x w. x \<in> set xs \<Longrightarrow> I w \<Longrightarrow> \<exists>r w'. body x w = Some (r, w') \<and> I w'"
  shows "\<exists>r w'. for_each body xs w = Some (r, w') \<and> I w'"
  using inv step
proof (induction xs arbitrary: w)
  case Nil
  then show ?case by simp
next
  case (Cons x xs)
  from Cons.prems obtain r1 w1 where b: "body x w = Some (r1, w1)" and i: "I w1"
    by (meson list.set_intros(1))
  show ?case
  proof (cases r1)
    case (Inl e)
    with b i show ?thesis by simp
  next
    case (Inr u)
    have "\<exists>r w'. for_each body xs w1 = Some (r, w') \<and> I w'"
      using i Cons.prems(2) by (intro Cons.IH) (auto intro: list.set_intros(2))
    with b Inr show ?thesis by simp
  qed
qed

lemma copyDirectory_total:
  assumes closed: "\<And>q x. G q \<Longrightarrow> G (q @ x)"
    and bound: "\<And>q k. G q \<Longrightarrow> lookup t0 q = Some k \<Longrightarrow> height k + length q \<le> B"
  shows "(\<And>q x. G q \<Longrightarrow> \<not> prefix q (dest @ x))
    \<Longrightarrow> (\<And>item. \<not> shouldExclude re (src @ [item]) rootDir \<Longrightarrow> G (src @ [item]))
    \<Longrightarrow> (\<And>q. G q \<Longrightarrow> lookup (fs w) q = lookup t0 q)
    \<Longrightarrow> B < n + length src \<Longrightarrow> 0 < n
    \<Longrightarrow> \<exists>res w'. copyDirectory n re rootDir src dest w = Some (res, w')
          \<and> (\<forall>q. G q \<longrightarrow> lookup (fs w') q = lookup t0 q)"
proof (induction n arbitrary: src dest w)
  case 0
  then show ?case by simp
next
  case (Suc n)
  let ?I = "\<lambda>w::world. \<forall>q. G q \<longrightarrow> lookup (fs w) q = lookup t0 q"
  show ?case
  proof (cases "if \<not> existsSync w dest then mkdirSync dest w else Inr w")
    case (Inl e)
    with Suc.prems(3) show ?thesis by simp
  next
    case (Inr w1)
    have I1: "?I w1"
    proof (intro allI impI)
      fix q assume g: "G q"
      with Suc.prems(1)[of q "[]"] have "\<not> prefix q dest" by simp
      with Inr have "lookup (fs w1) q = lookup (fs w) q"
        by (auto simp: mkdirSync_def lookup_mkdirp_other split: if_splits option.splits)
      with Suc.prems(3)[OF g] show "lookup (fs w1) q = lookup t0 q" by simp
    qed
    show ?thesis
    proof (cases "readdirSync w1 src")
      case (Inl e)
      with Inr I1 show ?thesis by simp
    next
      case items: (Inr items)
      let ?body = "\<lambda>item w2.
            let srcPath = src @ [item]; destPath = dest @ [item] in
            if shouldExclude re srcPath rootDir then
              Some (Inr (),
                console_log (''Excluding: '' @ join_with ''/'' (path_relative rootDir srcPath)) w2)
            else
              (case statSync_isDirectory w2 srcPath of
                 Inl e \<Rightarrow> Some (Inl e, w2)
               | Inr isDir \<Rightarrow>
                   if isDir then copyDirectory n re rootDir srcPath destPath w2
                   else
                     (case copyFileSync srcPath destPath w2 of
                        Inl e \<Rightarrow> Some (Inl e, w2)
                      | Inr w3 \<Rightarrow>
                          Some (Inr (),
                            console_log
                              (''Copied: '' @ join_with ''/'' (path_relative rootDir srcPath)) w3)))"
      have "\<exists>r w'. for_each ?body items w1 = Some (r, w') \<and> ?I w'"
      proof (rule for_each_total[where I = ?I, OF I1])
        fix item w2
        assume I2: "?I w2"
        show "\<exists>r w'. ?body item w2 = Some (r, w') \<and> ?I w'"
        proof (cases "shouldExclude re (src @ [item]) rootDir")
          case True
          with I2 show ?thesis by (simp add: Let_def)
        next
          case False
          then have g: "G (src @ [item])" by (rule Suc.prems(2))
          show ?thesis
          proof (cases "lookup t0 (src @ [item])")
            case None
            with g I2 have "statSync_isDirectory w2 (src @ [item]) = Inl (SystemError ''ENOENT'')"
              by (simp add: statSync_isDirectory_def)
            with False I2 show ?thesis by (simp add: Let_def)
          next
            case (Some k)
            with g I2 have look: "lookup (fs w2) (src @ [item]) = Some k" by simp
            show ?thesis
            proof (cases k)
              case (File c)
              with look have st: "statSync_isDirectory w2 (src @ [item]) = Inr False"
                by (simp add: statSync_isDirectory_def)
              show ?thesis
              proof (cases "copyFileSync (src @ [item]) (dest @ [item]) w2")
                case (Inl e)
                with False st I2 show ?thesis by (simp add: Let_def)
              next
                case cp: (Inr w3)
                then obtain c' where wr: "writeFileSync (dest @ [item]) c' w2 = Inr w3"
                  by (auto simp: copyFileSync_def split: sum.splits)
                have "?I w3"
                proof (intro allI impI)
                  fix q assume gq: "G q"
                  with Suc.prems(1)[of q "[item]"] have "\<not> prefix q (dest @ [item])" by simp
                  with wr have "lookup (fs w3) q = lookup (fs w2) q"
                    by (simp add: writeFileSync_Inr(2))
                  with I2 gq show "lookup (fs w3) q = lookup t0 q" by simp
                qed
                with False st cp show ?thesis by (simp add: Let_def)
              qed
            next
              case (Dir kids)
              with look have st: "statSync_isDirectory w2 (src @ [item]) = Inr True"
                by (simp add: statSync_isDirectory_def)
              from bound[OF g Some] Dir have hb: "Suc (length src) < B \<or> Suc (length src) \<le> B"
                by simp
              from bound[OF g Some] Dir Suc.prems(4) have fuel: "B < n + length (src @ [item])"
                and pos: "0 < n" by auto
              have "\<exists>res w'. copyDirectory n re rootDir (src @ [item]) (dest @ [item]) w2
                      = Some (res, w') \<and> ?I w'"
              proof (rule Suc.IH[OF _ _ _ fuel pos])
                fix q x assume "G q"
                with Suc.prems(1)[of q "item # x"] show "\<not> prefix q ((dest @ [item]) @ x)" by simp
              next
                fix item' assume "\<not> shouldExclude re ((src @ [item]) @ [item']) rootDir"
                from closed[OF g] show "G ((src @ [item]) @ [item'])" .
              next
                fix q assume "G q"
                with I2 show "lookup (fs w2) q = lookup t0 q" by simp
              qed
              with False st show ?thesis by (simp add: Let_def)
            qed
          qed
        qed
      qed
      with Inr items show ?thesis by simp
    qed
  qed
qed

text \<open>
  With more fuel than the filesystem is high, the copy ends, and so do \<open>buildTemplate\<close>
  and the script.
\<close>

lemma copy_phase_returns:
  assumes "height (fs w) < n"
  shows "\<exists>res w'. copyDirectory n re rootDir rootDir (templateDir rootDir) (start_build rootDir w)
            = Some (res, w')
          \<and> (\<forall>item x. item \<noteq> ''template'' \<longrightarrow>
                lookup (fs w') (rootDir @ item # x) = lookup (fs w) (rootDir @ item # x))"
proof -
  let ?T = "templateDir rootDir"
  let ?G = "\<lambda>q. \<exists>item x. q = rootDir @ item # x \<and> item \<noteq> ''template''"
  have "\<exists>res w'. copyDirectory n re rootDir rootDir ?T (start_build rootDir w) = Some (res, w')
          \<and> (\<forall>q. ?G q \<longrightarrow> lookup (fs w') q = lookup (fs w) q)"
  proof (rule copyDirectory_total[where G = ?G and B = "height (fs w)" and ?t0.0 = "fs w"])
    fix q x assume "?G q"
    then show "?G (q @ x)" by auto
  next
    fix q k assume "?G q" and "lookup (fs w) q = Some k"
    then show "height k + length q \<le> height (fs w)" by (simp add: height_lookup)
  next
    fix q x assume "?G q"
    then show "\<not> prefix q (?T @ x)" by (auto simp: templateDir_def)
  next
    fix item assume "\<not> shouldExclude re (rootDir @ [item]) rootDir"
    with template_excluded[of re rootDir] have "item \<noteq> ''template''" by auto
    then show "?G (rootDir @ [item])" by auto
  next
    fix q assume "?G q"
    then have "\<not> prefix ?T q" and "\<not> prefix q ?T" by (auto simp: templateDir_def)
    then show "lookup (fs (start_build rootDir w)) q = lookup (fs w) q"
      by (simp add: fs_start_build lookup_remove_at_other)
  next
    from assms show "height (fs w) < n + length rootDir" and "0 < n" by simp_all
  qed
  then show ?thesis by blast
qed

lemma buildTemplate_returns:
  assumes "height (fs w) < n"
  shows "\<exists>res w'. buildTemplate n re parse stringify rootDir w = Some (res, w')"
proof -
  from copy_phase_returns[OF assms] obtain r3 w3 where
    "copyDirectory n re rootDir rootDir (templateDir rootDir) (start_build rootDir w) = Some (r3, w3)"
    by blast
  then show ?thesis
    unfolding buildTemplate_def by (auto split: sum.splits prod.splits)
qed

lemma build_template_script_returns:
  assumes "height (fs w) < n"
  shows "\<exists>code w'. build_template_script n re parse stringify rootDir w = Some (code, w')"
  using buildTemplate_returns[OF assms, of re parse stringify rootDir]
  unfolding build_template_script_def by (auto split: sum.splits)

subsection \<open>Runs from the same filesystem end alike\<close>

lemma end_alike_Some:
  "end_alike (Some (r, v)) (Some (r', w)) \<longleftrightarrow> r = r' \<and> fs v = fs w"
  by (simp add: end_alike_def)

lemma end_alike_cases:
  assumes "end_alike a b"
  obtains "a = None" "b = None"
  | r v w where "a = Some (r, v)" "b = Some (r, w)" "fs v = fs w"
  using assms by (auto simp: end_alike_def split: option.splits)

lemma for_each_alike:
  assumes "\<And>x v w. x \<in> set xs \<Longrightarrow> fs v = fs w \<Longrightarrow> end_alike (body x v) (body x w)"
    and "fs v = fs w"
  shows "end_alike (for_each body xs v) (for_each body xs w)"
  using assms
proof (induction xs arbitrary: v w)
  case Nil
  then show ?case by (simp add: end_alike_def)
next
  case (Cons x xs)
  have "end_alike (body x v) (body x w)" using Cons.prems by simp
  then show ?case
  proof (cases rule: end_alike_cases)
    case 1
    then show ?thesis by (simp add: end_alike_def)
  next
    case (2 r v1 w1)
    show ?thesis
    proof (cases r)
      case (Inl e)
      with 2 show ?thesis by (simp add: end_alike_def)
    next
      case (Inr u)
      have "end_alike (for_each body xs v1) (for_each body xs w1)"
        using Cons.prems(1) 2(3) by (intro Cons.IH) auto
      with 2 Inr show ?thesis by simp
    qed
  qed
qed

lemma mkdirSync_alike:
  assumes "fs v = fs w"
  shows "(\<exists>e. mkdirSync p v = Inl e \<and> mkdirSync p w = Inl e)
       \<or> (\<exists>v' w'. mkdirSync p v = Inr v' \<and> mkdirSync p w = Inr w' \<and> fs v' = fs w')"
  using assms by (auto simp: mkdirSync_def split: option.splits)

lemma writeFileSync_alike:
  assumes "fs v = fs w"
  shows "(\<exists>e. writeFileSync p c v = Inl e \<and> writeFileSync p c w = Inl e)
       \<or> (\<exists>v' w'. writeFileSync p c v = Inr v' \<and> writeFileSync p c w = Inr w' \<and> fs v' = fs w')"
  using assms by (auto simp: writeFileSync_def split: option.splits node.splits)

lemma copyFileSync_alike:
  assumes "fs v = fs w"
  shows "(\<exists>e. copyFileSync s p v = Inl e \<and> copyFileSync s p w = Inl e)
       \<or> (\<exists>v' w'. copyFileSync s p v = Inr v' \<and> copyFileSync s p w = Inr w' \<and> fs v' = fs w')"
proof -
  from assms have r: "readFileSync v s = readFileSync w s" by (simp add: readFileSync_def)
  show ?thesis
  proof (cases "readFileSync w s")
    case (Inl e)
    with r show ?thesis by (simp add: copyFileSync_def)
  next
    case (Inr c)
    with r writeFileSync_alike[OF assms, of p c] show ?thesis by (simp add: copyFileSync_def)
  qed
qed

lemma copyDirectory_alike:
  "fs v = fs w \<Longrightarrow>
   end_alike (copyDirectory n re rootDir src dest v) (copyDirectory n re rootDir src dest w)"
proof (induction n arbitrary: src dest v w)
  case 0
  then show ?case by (simp add: end_alike_def)
next
  case (Suc n)
  let ?body = "\<lambda>item w2.
        let srcPath = src @ [item]; destPath = dest @ [item] in
        if shouldExclude re srcPath rootDir then
          Some (Inr (),
            console_log (''Excluding: '' @ join_with ''/'' (path_relative rootDir srcPath)) w2)
        else
          (case statSync_isDirectory w2 srcPath of
             Inl e \<Rightarrow> Some (Inl e, w2)
           | Inr isDir \<Rightarrow>
               if isDir then copyDirectory n re rootDir srcPath destPath w2
               else
                 (case copyFileSync srcPath destPath w2 of
                    Inl e \<Rightarrow> Some (Inl e, w2)
                  | Inr w3 \<Rightarrow>
                      Some (Inr (),
                        console_log
                          (''Copied: '' @ join_with ''/'' (path_relative rootDir srcPath)) w3)))"
  have body: "end_alike (?body item v2) (?body item w2)" if eq: "fs v2 = fs w2" for item v2 w2
  proof (cases "shouldExclude re (src @ [item]) rootDir")
    case True
    with eq show ?thesis by (simp add: Let_def end_alike_def)
  next
    case False
    from eq have st: "statSync_isDirectory v2 (src @ [item]) = statSync_isDirectory w2 (src @ [item])"
      by (simp add: statSync_isDirectory_def)
    show ?thesis
    proof (cases "statSync_isDirectory w2 (src @ [item])")
      case (Inl e)
      with False st eq show ?thesis by (simp add: Let_def end_alike_def)
    next
      case (Inr isDir)
      show ?thesis
      proof (cases isDir)
        case True
        with False st Inr Suc.IH[OF eq] show ?thesis by (simp add: Let_def)
      next
        case nd: False
        from copyFileSync_alike[OF eq, of "src @ [item]" "dest @ [item]"]
        show ?thesis using False st Inr nd eq
          by (auto simp: Let_def end_alike_def)
      qed
    qed
  qed
  from Suc.prems have ex: "existsSync v dest = existsSync w dest" by (simp add: existsSync_def)
  have "(\<exists>e. (if \<not> existsSync v dest then mkdirSync dest v else Inr v) = Inl e
            \<and> (if \<not> existsSync w dest then mkdirSync dest w else Inr w) = Inl e)
      \<or> (\<exists>v1 w1. (if \<not> existsSync v dest then mkdirSync dest v else Inr v) = Inr v1
            \<and> (if \<not> existsSync w dest then mkdirSync dest w else Inr w) = Inr w1 \<and> fs v1 = fs w1)"
    using ex mkdirSync_alike[OF Suc.prems, of dest] Suc.prems by auto
  then show ?case
  proof (elim disjE exE conjE)
    fix e
    assume "(if \<not> existsSync v dest then mkdirSync dest v else Inr v) = Inl e"
      "(if \<not> existsSync w dest then mkdirSync dest w else Inr w) = Inl e"
    then show ?thesis using Suc.prems by (simp add: end_alike_def)
  next
    fix v1 w1
    assume a: "(if \<not> existsSync v dest then mkdirSync dest v else Inr v) = Inr v1"
      "(if \<not> existsSync w dest then mkdirSync dest w else Inr w) = Inr w1" and eq1: "fs v1 = fs w1"
    then have rd: "readdirSync v1 src = readdirSync w1 src" by (simp add: readdirSync_def)
    show ?thesis
    proof (cases "readdirSync w1 src")
      case (Inl e)
      with a rd eq1 show ?thesis by (simp add: end_alike_def)
    next
      case (Inr items)
      have "end_alike (for_each ?body items v1) (for_each ?body items w1)"
        using body eq1 by (intro for_each_alike) auto
      with a rd Inr show ?thesis by simp
    qed
  qed
qed

subsection \<open>What is written below the template directory goes when it is removed\<close>

lemma mkdirp_is_dir: "mkdirp p t = Some t' \<Longrightarrow> \<exists>ks. t' = Dir ks"
  by (cases t; cases p) (auto split: option.splits)

lemma mkdirp_dir_stays:
  "mkdirp p t = Some t' \<Longrightarrow> lookup t q = Some (Dir ks) \<Longrightarrow> \<exists>ks'. lookup t' q = Some (Dir ks')"
proof (induction q arbitrary: p t t' ks)
  case Nil
  then show ?case using mkdirp_is_dir by auto
next
  case (Cons y ys)
  from Cons.prems(2) obtain kids c where t: "t = Dir kids" and c: "map_of kids y = Some c"
    and below: "lookup c ys = Some (Dir ks)"
    by (cases t) (auto split: option.splits)
  show ?case
  proof (cases p)
    case Nil
    with Cons.prems t show ?thesis by simp
  next
    case p: (Cons x xs)
    show ?thesis
    proof (cases "x = y")
      case False
      with Cons.prems(1) t p obtain kids' where "t' = Dir kids'" and "map_of kids' y = map_of kids y"
        by (auto split: option.splits simp: AList.update_conv' map_add_def)
      with c below show ?thesis by simp
    next
      case True
      with Cons.prems(1) t p c obtain c' where c': "mkdirp xs c = Some c'"
        and t': "t' = Dir (AList.update y c' kids)"
        by (auto split: option.splits)
      from Cons.IH[OF c' below] t' show ?thesis by (simp add: AList.update_conv')
    qed
  qed
qed

lemma write_at_dir_stays:
  "write_at p v t = Some t' \<Longrightarrow> lookup t q = Some (Dir ks) \<Longrightarrow> \<not> prefix p q
    \<Longrightarrow> \<exists>ks'. lookup t' q = Some (Dir ks')"
proof (induction q arbitrary: p t t' ks)
  case Nil
  then obtain x xs where "p = x # xs" by (cases p) auto
  with Nil show ?case by (cases t) (auto split: option.splits if_splits)
next
  case (Cons y ys)
  from Cons.prems(2) obtain kids c where t: "t = Dir kids" and c: "map_of kids y = Some c"
    and below: "lookup c ys = Some (Dir ks)"
    by (cases t) (auto split: option.splits)
  from Cons.prems(3) obtain x xs where p: "p = x # xs" by (cases p) auto
  show ?case
  proof (cases "x = y")
    case False
    with Cons.prems(1) t p obtain kids' where "t' = Dir kids'" and "map_of kids' y = map_of kids y"
      by (auto split: option.splits if_splits simp: AList.update_conv' map_add_def)
    with c below show ?thesis by simp
  next
    case True
    with Cons.prems(3) p have np: "\<not> prefix xs ys" by simp
    from True Cons.prems(1) t p c obtain c' where c': "write_at xs v c = Some c'"
      and t': "t' = Dir (AList.update y c' kids)"
      by (auto split: option.splits)
    from Cons.IH[OF c' below np] t' show ?thesis by (simp add: AList.update_conv')
  qed
qed

lemma remove_at_idem: "remove_at p (remove_at p t) = remove_at p t"
proof (cases p)
  case Nil
  then show ?thesis by simp
next
  case (Cons x xs)
  then have "lookup (remove_at p t) p = None"
    using lookup_remove_at_below[of p t "[]"] by simp
  then show ?thesis by (rule remove_at_missing)
qed

text \<open>
  The relation between two worlds that the writes of the builder keep: while the source
  root is a directory, it stays one, and removing the template directory gives the same
  filesystem.
\<close>

lemma copyDirectory_absorbed:
  assumes "copyDirectory n re rootDir rootDir (templateDir rootDir) w = Some (res, w')"
    and "lookup (fs w) rootDir = Some (Dir ks)"
  shows "remove_at (templateDir rootDir) (fs w') = remove_at (templateDir rootDir) (fs w)"
proof -
  let ?T = "templateDir rootDir"
  let ?R = "\<lambda>v v'::world. (\<exists>ks. lookup (fs v) rootDir = Some (Dir ks)) \<longrightarrow>
      (\<exists>ks. lookup (fs v') rootDir = Some (Dir ks)) \<and> remove_at ?T (fs v') = remove_at ?T (fs v)"
  have T: "?T \<noteq> []" "butlast ?T = rootDir" by (simp_all add: templateDir_def)
  have "?R w w'"
  proof (rule copyDirectory_rel[where R = ?R and re = re and rootDir = rootDir and S = rootDir
        and D = ?T and r = "[]" and n = n and res = res])
    fix r v v'
    assume "mkdirSync (?T @ r) v = Inr v'"
    then have mk: "mkdirp (?T @ r) (fs v) = Some (fs v')"
      by (auto simp: mkdirSync_def split: option.splits)
    show "?R v v'"
    proof
      assume "\<exists>ks. lookup (fs v) rootDir = Some (Dir ks)"
      then obtain ks where d: "lookup (fs v) rootDir = Some (Dir ks)" by blast
      from mkdirp_dir_stays[OF mk d] remove_at_mkdirp[OF mk T(1)] d T(2)
      show "(\<exists>ks. lookup (fs v') rootDir = Some (Dir ks))
          \<and> remove_at ?T (fs v') = remove_at ?T (fs v)" by simp
    qed
  next
    fix r c v v'
    assume "writeFileSync (?T @ r) c v = Inr v'"
    then have wr: "write_at (?T @ r) (File c) (fs v) = Some (fs v')"
      by (auto simp: writeFileSync_def split: option.splits node.splits)
    have np: "\<not> prefix (?T @ r) rootDir" by (simp add: templateDir_def)
    show "?R v v'"
      using write_at_dir_stays[OF wr _ np] remove_at_write_at[OF wr] by auto
  next
    show "copyDirectory n re rootDir (rootDir @ []) (?T @ []) w = Some (res, w')"
      using assms(1) by simp
  qed auto
  with assms(2) show ?thesis by simp
qed

lemma processTemplateFiles_absorbed:
  assumes "processTemplateFiles parse stringify rootDir w = (res, w')"
  shows "remove_at (templateDir rootDir) (fs w') = remove_at (templateDir rootDir) (fs w)"
proof -
  let ?T = "templateDir rootDir"
  have wr: "remove_at ?T (fs v') = remove_at ?T (fs v)"
    if "writeFileSync (?T @ r) c v = Inr v'" for r c v v'
  proof -
    from that have "write_at (?T @ r) (File c) (fs v) = Some (fs v')"
      by (auto simp: writeFileSync_def split: option.splits node.splits)
    then show ?thesis by (rule remove_at_write_at)
  qed
  show ?thesis
  proof (cases "processPackageJson parse stringify rootDir w")
    case (Inl e)
    with assms show ?thesis by (simp add: processTemplateFiles_def)
  next
    case (Inr w1)
    from processPackageJson_Inr[OF Inr] have 1: "remove_at ?T (fs w1) = remove_at ?T (fs w)"
      by (auto simp: wr)
    from assms Inr have "remove_at ?T (fs w') = remove_at ?T (fs w1)"
      unfolding processTemplateFiles_def Let_def
      by (auto split: sum.splits simp: wr)
    with 1 show ?thesis by simp
  qed
qed

lemma processTemplateFiles_alike:
  assumes "fs v = fs w"
  shows "fst (processTemplateFiles parse stringify rootDir v)
           = fst (processTemplateFiles parse stringify rootDir w)
       \<and> fs (snd (processTemplateFiles parse stringify rootDir v))
           = fs (snd (processTemplateFiles parse stringify rootDir w))"
proof -
  have pj: "(\<exists>e. processPackageJson parse stringify rootDir v = Inl e
              \<and> processPackageJson parse stringify rootDir w = Inl e)
      \<or> (\<exists>v1 w1. processPackageJson parse stringify rootDir v = Inr v1
              \<and> processPackageJson parse stringify rootDir w = Inr w1 \<and> fs v1 = fs w1)"
  proof (cases "existsSync w (templateDir rootDir @ [''package.json''])")
    case False
    with assms show ?thesis by (simp add: processPackageJson_def existsSync_def)
  next
    case True
    from assms have rd: "readFileSync v (templateDir rootDir @ [''package.json''])
        = readFileSync w (templateDir rootDir @ [''package.json''])"
      by (simp add: readFileSync_def)
    from assms True have ex: "existsSync v (templateDir rootDir @ [''package.json''])"
      by (simp add: existsSync_def)
    show ?thesis
    proof (cases "readFileSync w (templateDir rootDir @ [''package.json''])")
      case (Inl e)
      with rd True ex show ?thesis by (simp add: processPackageJson_def and_then_def)
    next
      case (Inr body)
      show ?thesis
      proof (cases "parse body")
        case None
        with Inr rd True ex show ?thesis by (simp add: processPackageJson_def and_then_def)
      next
        case (Some j)
        show ?thesis
        proof (cases "rewritePackageJson j")
          case (Inl e)
          with Some Inr rd True ex show ?thesis by (simp add: processPackageJson_def and_then_def)
        next
          case j': (Inr j')
          from writeFileSync_alike[OF assms, of "templateDir rootDir @ [''package.json'']" "stringify j'"]
          show ?thesis using j' Some Inr rd True ex
            by (auto simp: processPackageJson_def and_then_def)
        qed
      qed
    qed
  qed
  then show ?thesis
  proof (elim disjE exE conjE)
    fix e assume "processPackageJson parse stringify rootDir v = Inl e"
      "processPackageJson parse stringify rootDir w = Inl e"
    with assms show ?thesis by (simp add: processTemplateFiles_def)
  next
    fix v1 w1 assume p: "processPackageJson parse stringify rootDir v = Inr v1"
      "processPackageJson parse stringify rootDir w = Inr w1" and eq1: "fs v1 = fs w1"
    from writeFileSync_alike[OF eq1, of "templateDir rootDir @ [''.gitignore'']" gitignoreContent]
    show ?thesis
    proof (elim disjE exE conjE)
      fix e assume "writeFileSync (templateDir rootDir @ [''.gitignore'']) gitignoreContent v1 = Inl e"
        "writeFileSync (templateDir rootDir @ [''.gitignore'']) gitignoreContent w1 = Inl e"
      with p eq1 show ?thesis by (simp add: processTemplateFiles_def)
    next
      fix v2 w2
      assume g: "writeFileSync (templateDir rootDir @ [''.gitignore'']) gitignoreContent v1 = Inr v2"
        "writeFileSync (templateDir rootDir @ [''.gitignore'']) gitignoreContent w1 = Inr w2"
        and eq2: "fs v2 = fs w2"
      then have eq3: "fs (console_log ''Created: .gitignore'' v2) = fs (console_log ''Created: .gitignore'' w2)"
        by simp
      from writeFileSync_alike[OF eq3, of "templateDir rootDir @ [''README.md'']" readmeContent]
      show ?thesis using p g eq2
        by (auto simp: processTemplateFiles_def Let_def)
    qed
  qed
qed

lemma buildTemplate_alike:
  assumes "remove_at (templateDir rootDir) (fs v) = remove_at (templateDir rootDir) (fs w)"
  shows "end_alike (buildTemplate n re parse stringify rootDir v)
           (buildTemplate n re parse stringify rootDir w)"
proof -
  let ?T = "templateDir rootDir"
  from assms have start: "fs (start_build rootDir v) = fs (start_build rootDir w)"
    by (simp add: fs_start_build)
  from copyDirectory_alike[OF start, of n re rootDir rootDir ?T] show ?thesis
  proof (cases rule: end_alike_cases)
    case 1
    then show ?thesis by (simp add: buildTemplate_def end_alike_def)
  next
    case (2 r3 v3 w3)
    show ?thesis
    proof (cases r3)
      case (Inl e)
      with 2 show ?thesis by (simp add: buildTemplate_def end_alike_def)
    next
      case (Inr u)
      have "fs (console_log processing_message v3) = fs (console_log processing_message w3)"
        using 2(3) by simp
      from processTemplateFiles_alike[OF this, of parse stringify rootDir] 2 Inr
      show ?thesis
        by (cases "processTemplateFiles parse stringify rootDir (console_log processing_message v3)";
            cases "processTemplateFiles parse stringify rootDir (console_log processing_message w3)")
          (auto simp: buildTemplate_def end_alike_def split: sum.splits)
    qed
  qed
qed

lemma buildTemplate_absorbed:
  assumes "lookup (fs w) rootDir = Some (Dir ks)"
    and "buildTemplate n re parse stringify rootDir w = Some (res, w')"
  shows "remove_at (templateDir rootDir) (fs w') = remove_at (templateDir rootDir) (fs w)"
proof -
  let ?T = "templateDir rootDir"
  from assms(2) obtain r3 w3 r4 w4 where
    c: "copyDirectory n re rootDir rootDir ?T (start_build rootDir w) = Some (r3, w3)"
    and p: "processTemplateFiles parse stringify rootDir (console_log processing_message w3) = (r4, w4)"
    and d: "(\<exists>e. r3 = Inl e) \<and> res = r3 \<and> w' = w3 \<or> r3 = Inr () \<and> res = r4 \<and> fs w' = fs w4"
    by (rule buildTemplate_Some)
  have np: "\<not> prefix ?T rootDir" by (simp add: templateDir_def)
  from lookup_remove_at_dir[OF assms(1) np] obtain ks' where
    dir: "lookup (fs (start_build rootDir w)) rootDir = Some (Dir ks')"
    by (auto simp: fs_start_build)
  have a3: "remove_at ?T (fs w3) = remove_at ?T (fs w)"
    using copyDirectory_absorbed[OF c dir] by (simp add: fs_start_build remove_at_idem)
  have a4: "remove_at ?T (fs w4) = remove_at ?T (fs w)"
    using processTemplateFiles_absorbed[OF p] a3 by simp
  from d a3 a4 show ?thesis by auto
qed

text \<open>
  C6. What \<open>buildTemplate\<close> does depends only on the tree outside the template directory:
  from two worlds that differ only in and below that directory, the two runs both never
  end, or both end the same way and leave the same filesystem, template directory
  included. So nothing that was in the template directory before a run has any effect
  on what is there after it. And when the source root is a directory and a run ends, it
  has changed nothing outside the template directory, so that a second run from the
  world the first one left ends the same way and leaves the same filesystem.
\<close>

theorem buildTemplate_idempotent:
  assumes "remove_at (templateDir rootDir) (fs v) = remove_at (templateDir rootDir) (fs w)"
  shows "end_alike (buildTemplate n re parse stringify rootDir v)
           (buildTemplate n re parse stringify rootDir w)
       \<and> (lookup (fs w) rootDir = Some (Dir ks)
            \<and> buildTemplate n re parse stringify rootDir w = Some (res, w')
          \<longrightarrow> remove_at (templateDir rootDir) (fs w') = remove_at (templateDir rootDir) (fs w)
              \<and> (\<exists>w''. buildTemplate n re parse stringify rootDir w' = Some (res, w'')
                       \<and> fs w'' = fs w'))"
proof (intro conjI impI)
  show "end_alike (buildTemplate n re parse stringify rootDir v)
          (buildTemplate n re parse stringify rootDir w)"
    using assms by (rule buildTemplate_alike)
next
  assume a: "lookup (fs w) rootDir = Some (Dir ks)
      \<and> buildTemplate n re parse stringify rootDir w = Some (res, w')"
  then show same: "remove_at (templateDir rootDir) (fs w') = remove_at (templateDir rootDir) (fs w)"
    by (auto intro: buildTemplate_absorbed)
  from buildTemplate_alike[OF same, of n re parse stringify] a
  show "\<exists>w''. buildTemplate n re parse stringify rootDir w' = Some (res, w'') \<and> fs w'' = fs w'"
    by (auto elim!: end_alike_cases)
qed

text \<open>
  On the example: a stale file in the template directory is gone after the run, which
  ends as the run from the tree without it; and the second run repeats the first.
\<close>

theorem buildTemplate_idempotent_witness:
  "remove_at (templateDir [''proj'']) (fs example_stale)
     = remove_at (templateDir [''proj'']) (fs example_world)
   \<and> existsSync example_stale [''proj'', ''template'', ''stale.txt'']
   \<and> map_option (\<lambda>(res, v'). (res, existsSync v' [''proj'', ''template'', ''stale.txt''],
                                existsSync v' [''proj'', ''template'', ''src'', ''main.tsx'']))
       (buildTemplate (Suc (Suc (Suc 0))) (\<lambda>s t. False) example_parse example_stringify
          [''proj''] example_stale)
     = Some (Inr (), False, True)
   \<and> end_alike
       (buildTemplate (Suc (Suc (Suc 0))) (\<lambda>s t. False) example_parse example_stringify
          [''proj''] example_stale)
       (buildTemplate (Suc (Suc (Suc 0))) (\<lambda>s t. False) example_parse example_stringify
          [''proj''] example_world)
   \<and> map_option (\<lambda>(res, w').
         (res, map_option (\<lambda>(res', w''). (res', fs w'' = fs w'))
                 (buildTemplate (Suc (Suc (Suc 0))) (\<lambda>s t. False) example_parse example_stringify
                    [''proj''] w')))
       (buildTemplate (Suc (Suc (Suc 0))) (\<lambda>s t. False) example_parse example_stringify
          [''proj''] example_world)
     = Some (Inr (), Some (Inr (), True))"
proof -
  have 0: "remove_at (templateDir [''proj'']) (fs example_stale)
      = remove_at (templateDir [''proj'']) (fs example_world)"
    by (simp add: example_stale_def example_world_def templateDir_def)
  have 1: "lookup (fs example_world) [''proj'']
      = Some (Dir [(''package.json'', File ''TOOL''), (''node_modules'', Dir [(''x'', File ''y'')]),
        (''src'', Dir [(''main.tsx'', File ''m''), (''dist'', File ''d'')]),
        (''bin'', Dir [(''cli.js'', File ''c'')])])"
    by (simp add: example_world_def)
  have "map_option fst (buildTemplate (Suc (Suc (Suc 0))) (\<lambda>s t. False) example_parse
      example_stringify [''proj''] example_world) = Some (Inr ())"
    by (simp add: build_defs cli_defs example_defs example_world_def)
  then obtain w' where 2: "buildTemplate (Suc (Suc (Suc 0))) (\<lambda>s t. False) example_parse
      example_stringify [''proj''] example_world = Some (Inr (), w')" by auto
  have 3: "existsSync example_stale [''proj'', ''template'', ''stale.txt'']"
    by (simp add: example_stale_def existsSync_def)
  have 4: "map_option (\<lambda>(res, v'). (res, existsSync v' [''proj'', ''template'', ''stale.txt''],
                                existsSync v' [''proj'', ''template'', ''src'', ''main.tsx'']))
       (buildTemplate (Suc (Suc (Suc 0))) (\<lambda>s t. False) example_parse example_stringify
          [''proj''] example_stale)
     = Some (Inr (), False, True)"
    by (simp add: build_defs cli_defs example_defs example_stale_def)
  from buildTemplate_idempotent[OF 0, where n = "Suc (Suc (Suc 0))" and re = "\<lambda>s t. False"
      and parse = example_parse and stringify = example_stringify and res = "Inr ()"
      and w' = w'] 0 1 2 3 4
  show ?thesis by auto
qed

lemma for_each_establishes:
  assumes keep_I: "\<And>y v u v'. y \<in> set xs \<Longrightarrow> I v \<Longrightarrow> body y v = Some (Inr u, v') \<Longrightarrow> I v'"
    and keep_Q: "\<And>y v u v'. y \<in> set xs \<Longrightarrow> I v \<Longrightarrow> Q v \<Longrightarrow> body y v = Some (Inr u, v') \<Longrightarrow> Q v'"
    and est: "\<And>v u v'. I v \<Longrightarrow> body x v = Some (Inr u, v') \<Longrightarrow> Q v'"
  shows "x \<in> set xs \<or> Q w \<Longrightarrow> I w \<Longrightarrow> for_each body xs w = Some (Inr u, w') \<Longrightarrow> Q w'"
  using keep_I keep_Q
proof (induction xs arbitrary: w)
  case Nil
  then show ?case by simp
next
  case (Cons y ys)
  from Cons.prems(3) obtain u1 w1 where b: "body y w = Some (Inr u1, w1)"
    and rest: "for_each body ys w1 = Some (Inr u, w')"
    by (auto split: option.splits sum.splits)
  have I1: "I w1" using Cons.prems(4)[OF _ Cons.prems(2) b] by simp
  have "x \<in> set ys \<or> Q w1"
  proof (cases "Q w")
    case True
    then show ?thesis using Cons.prems(5)[OF _ Cons.prems(2) _ b] by simp
  next
    case False
    with Cons.prems(1) have "x = y \<or> x \<in> set ys" by auto
    then show ?thesis using est[OF Cons.prems(2)] b by auto
  qed
  moreover have "\<And>z v u v'. z \<in> set ys \<Longrightarrow> I v \<Longrightarrow> body z v = Some (Inr u, v') \<Longrightarrow> I v'"
    using Cons.prems(4) by (meson list.set_intros(2))
  moreover have "\<And>z v u v'. z \<in> set ys \<Longrightarrow> I v \<Longrightarrow> Q v \<Longrightarrow> body z v = Some (Inr u, v') \<Longrightarrow> Q v'"
    using Cons.prems(5) by (meson list.set_intros(2))
  ultimately show ?case using Cons.IH[OF _ I1 rest] by blast
qed

lemma copyDirectory_copies_file:
  assumes run: "copyDirectory n re rootDir src dest w = Some (Inr (), w')"
    and isfile: "lookup (fs w) (src @ [name]) = Some (File c)"
    and ok: "\<not> shouldExclude re (src @ [name]) rootDir"
    and apart: "\<And>x. \<not> prefix (src @ [name]) (dest @ x)"
  shows "lookup (fs w') (dest @ [name]) = Some (File c)"
proof (cases n)
  case 0
  with run show ?thesis by simp
next
  case (Suc m)
  let ?I = "\<lambda>v::world. lookup (fs v) (src @ [name]) = Some (File c)"
  let ?Q = "\<lambda>v::world. lookup (fs v) (dest @ [name]) = Some (File c)"
  let ?body = "\<lambda>item w2.
        let srcPath = src @ [item]; destPath = dest @ [item] in
        if shouldExclude re srcPath rootDir then
          Some (Inr (),
            console_log (''Excluding: '' @ join_with ''/'' (path_relative rootDir srcPath)) w2)
        else
          (case statSync_isDirectory w2 srcPath of
             Inl e \<Rightarrow> Some (Inl e, w2)
           | Inr isDir \<Rightarrow>
               if isDir then copyDirectory m re rootDir srcPath destPath w2
               else
                 (case copyFileSync srcPath destPath w2 of
                    Inl e \<Rightarrow> Some (Inl e, w2)
                  | Inr w3 \<Rightarrow>
                      Some (Inr (),
                        console_log
                          (''Copied: '' @ join_with ''/'' (path_relative rootDir srcPath)) w3)))"
  from run Suc obtain w1 items where
    mk: "(if \<not> existsSync w dest then mkdirSync dest w else Inr w) = Inr w1"
    and rd: "readdirSync w1 src = Inr items"
    and loop: "for_each ?body items w1 = Some (Inr (), w')"
    by (auto split: sum.splits)
  from apart[of "[]"] have nd: "\<not> prefix (src @ [name]) dest" by simp
  from mk have "lookup (fs w1) (src @ [name]) = lookup (fs w) (src @ [name])"
    using nd by (auto simp: mkdirSync_def lookup_mkdirp_other split: if_splits option.splits)
  with isfile have I1: "?I w1" by simp
  from rd obtain kids where kids: "lookup (fs w1) src = Some (Dir kids)" and items: "items = map fst kids"
    by (auto simp: readdirSync_def split: option.splits node.splits)
  from I1 kids have "map_of kids name = Some (File c)"
    by (auto simp: lookup_append split: option.splits)
  then have mem: "name \<in> set items" using items by (auto dest: map_of_SomeD intro: rev_image_eqI)
  have step: "?I v' \<and> ((?Q v \<or> y = name) \<longrightarrow> ?Q v')"
    if Iv: "?I v" and b: "?body y v = Some (Inr u, v')" for y v u v'
  proof (cases "shouldExclude re (src @ [y]) rootDir")
    case True
    with b Iv ok show ?thesis by (auto simp: Let_def)
  next
    case False
    from b False obtain isDir where st: "statSync_isDirectory v (src @ [y]) = Inr isDir"
      by (auto simp: Let_def split: sum.splits)
    show ?thesis
    proof (cases isDir)
      case True
      with st Iv have ne: "y \<noteq> name" by (auto simp: statSync_isDirectory_def)
      from b False st True
      have rec: "copyDirectory m re rootDir ((src @ [y]) @ []) ((dest @ [y]) @ []) v = Some (Inr u, v')"
        by (simp add: Let_def)
      have fr: "lookup (fs v') q = lookup (fs v) q" if "\<And>x. \<not> prefix q (dest @ y # x)" for q
        using copyDirectory_frame[OF allowed_Nil rec, of q] that by simp
      have "lookup (fs v') (src @ [name]) = lookup (fs v) (src @ [name])"
        using apart by (intro fr) simp
      moreover have "lookup (fs v') (dest @ [name]) = lookup (fs v) (dest @ [name])"
        using ne by (intro fr) simp
      ultimately show ?thesis using Iv ne by simp
    next
      case nd: False
      from b False st nd obtain v4 where cp: "copyFileSync (src @ [y]) (dest @ [y]) v = Inr v4"
        and v': "v' = console_log (''Copied: '' @ join_with ''/'' (path_relative rootDir (src @ [y]))) v4"
        by (auto simp: Let_def split: sum.splits)
      from cp obtain c' where rdf: "readFileSync v (src @ [y]) = Inr c'"
        and wr: "writeFileSync (dest @ [y]) c' v = Inr v4"
        by (auto simp: copyFileSync_def split: sum.splits)
      have "lookup (fs v4) (src @ [name]) = lookup (fs v) (src @ [name])"
        using apart[of "[y]"] by (intro writeFileSync_Inr(2)[OF wr]) simp
      with Iv v' have I': "?I v'" by simp
      show ?thesis
      proof (cases "y = name")
        case True
        with rdf Iv have "c' = c" by (simp add: readFileSync_def)
        with writeFileSync_Inr(1)[OF wr] True v' I' show ?thesis by simp
      next
        case ne: False
        have "lookup (fs v4) (dest @ [name]) = lookup (fs v) (dest @ [name])"
          using ne by (intro writeFileSync_Inr(2)[OF wr]) simp
        with v' I' ne show ?thesis by simp
      qed
    qed
  qed
  show ?thesis
  proof (rule for_each_establishes[where I = ?I and Q = ?Q and x = name and body = ?body,
        OF _ _ _ _ I1 loop])
    show "name \<in> set items \<or> ?Q w1" using mem by simp
  next
    fix y v u v' assume "?I v" and "?body y v = Some (Inr u, v')"
    then show "?I v'" by (rule step[THEN conjunct1])
  next
    fix y v u v' assume "?I v" and "?Q v" and "?body y v = Some (Inr u, v')"
    with step[of v y u v'] show "?Q v'" by simp
  next
    fix v u v' assume "?I v" and "?body name v = Some (Inr u, v')"
    with step[of v name u v'] show "?Q v'" by simp
  qed
qed

lemma processTemplateFiles_without_manifest:
  assumes dir: "statSync_isDirectory v (templateDir rootDir) = Inr True"
    and none: "\<not> existsSync v (templateDir rootDir @ [''package.json''])"
    and gi: "statSync_isDirectory v (templateDir rootDir @ [''.gitignore'']) \<noteq> Inr True"
    and rm: "statSync_isDirectory v (templateDir rootDir @ [''README.md'']) \<noteq> Inr True"
  shows "\<exists>v'. processTemplateFiles parse stringify rootDir v = (Inr (), v')
          \<and> \<not> existsSync v' (templateDir rootDir @ [''package.json''])
          \<and> readFileSync v' (templateDir rootDir @ [''.gitignore'']) = Inr gitignoreContent
          \<and> readFileSync v' (templateDir rootDir @ [''README.md'']) = Inr readmeContent"
proof -
  let ?T = "templateDir rootDir"
  from dir obtain kids where T: "lookup (fs v) ?T = Some (Dir kids)"
    by (auto simp: statSync_isDirectory_def split: option.splits node.splits)
  have pj: "processPackageJson parse stringify rootDir v = Inr v"
    using none by (simp add: processPackageJson_def)
  have "\<exists>w2. writeFileSync (?T @ [''.gitignore'']) gitignoreContent v = Inr w2"
  proof (rule writeFileSync_ok)
    show "?T @ [''.gitignore''] \<noteq> []" by simp
    show "lookup (fs v) (butlast (?T @ [''.gitignore''])) = Some (Dir kids)" using T by simp
    show "lookup (fs v) (?T @ [''.gitignore'']) \<noteq> Some (Dir ks)" for ks
      using gi by (auto simp: statSync_isDirectory_def)
  qed
  then obtain w2 where w2: "writeFileSync (?T @ [''.gitignore'']) gitignoreContent v = Inr w2"
    by blast
  from w2 obtain t2 where t2: "write_at (?T @ [''.gitignore'']) (File gitignoreContent) (fs v) = Some t2"
    and fs2: "fs w2 = t2"
    by (auto simp: writeFileSync_def split: option.splits node.splits)
  have "\<not> prefix (?T @ [''.gitignore'']) ?T" by simp
  from write_at_dir_stays[OF t2 T this] fs2 obtain kids2 where
    T2: "lookup (fs w2) ?T = Some (Dir kids2)" by auto
  let ?w3 = "console_log ''Created: .gitignore'' w2"
  have rm2: "lookup (fs ?w3) (?T @ [''README.md'']) = lookup (fs v) (?T @ [''README.md''])"
    using writeFileSync_Inr(2)[OF w2, of "?T @ [''README.md'']"] by simp
  have "\<exists>w4. writeFileSync (?T @ [''README.md'']) readmeContent ?w3 = Inr w4"
  proof (rule writeFileSync_ok)
    show "?T @ [''README.md''] \<noteq> []" by simp
    show "lookup (fs ?w3) (butlast (?T @ [''README.md''])) = Some (Dir kids2)" using T2 by simp
    show "lookup (fs ?w3) (?T @ [''README.md'']) \<noteq> Some (Dir ks)" for ks
      using rm rm2 by (auto simp: statSync_isDirectory_def)
  qed
  then obtain w4 where w4: "writeFileSync (?T @ [''README.md'']) readmeContent ?w3 = Inr w4"
    by blast
  have run: "processTemplateFiles parse stringify rootDir v
      = (Inr (), console_log ''Created: README.md'' w4)"
    using pj w2 w4 by (simp add: processTemplateFiles_def Let_def)
  have "lookup (fs w4) (?T @ [''package.json'']) = lookup (fs ?w3) (?T @ [''package.json''])"
    using writeFileSync_Inr(2)[OF w4, of "?T @ [''package.json'']"] by simp
  also have "\<dots> = lookup (fs v) (?T @ [''package.json''])"
    using writeFileSync_Inr(2)[OF w2, of "?T @ [''package.json'']"] by simp
  finally have a: "\<not> existsSync (console_log ''Created: README.md'' w4) (?T @ [''package.json''])"
    using none by (simp add: existsSync_def)
  have "lookup (fs w4) (?T @ [''.gitignore'']) = lookup (fs ?w3) (?T @ [''.gitignore''])"
    using writeFileSync_Inr(2)[OF w4, of "?T @ [''.gitignore'']"] by simp
  with writeFileSync_Inr(1)[OF w2]
  have b: "readFileSync (console_log ''Created: README.md'' w4) (?T @ [''.gitignore''])
      = Inr gitignoreContent"
    by (simp add: readFileSync_def)
  from writeFileSync_Inr(1)[OF w4]
  have c: "readFileSync (console_log ''Created: README.md'' w4) (?T @ [''README.md''])
      = Inr readmeContent"
    by (simp add: readFileSync_def)
  from run a b c show ?thesis by blast
qed

lemma unparseable_manifest_exit:
  assumes "lookup (fs w) (rootDir @ [''package.json'']) = Some (File body)"
    and "parse body = None"
    and "height (fs w) < n"
  shows "\<exists>w'. build_template_script n re parse stringify rootDir w = Some (1, w')"
proof -
  let ?T = "templateDir rootDir"
  from copy_phase_returns[OF assms(3), of re rootDir] obtain r3 w3 where
    c: "copyDirectory n re rootDir rootDir ?T (start_build rootDir w) = Some (r3, w3)"
    by blast
  show ?thesis
  proof (cases r3)
    case (Inl e)
    with c have "buildTemplate n re parse stringify rootDir w = Some (Inl e, w3)"
      by (simp add: buildTemplate_def)
    then show ?thesis by (simp add: build_template_script_def)
  next
    case (Inr u)
    have "\<not> prefix ?T (rootDir @ [''package.json''])" "\<not> prefix (rootDir @ [''package.json'']) ?T"
      by (simp_all add: templateDir_def)
    then have src: "lookup (fs (start_build rootDir w)) (rootDir @ [''package.json'']) = Some (File body)"
      using assms(1) by (simp add: fs_start_build lookup_remove_at_other)
    have ok: "\<not> shouldExclude re (rootDir @ [''package.json'']) rootDir"
      by (rule not_excluded_top)
    have ap: "\<not> prefix (rootDir @ [''package.json'']) (?T @ x)" for x
      by (simp add: templateDir_def)
    from c Inr have c': "copyDirectory n re rootDir rootDir ?T (start_build rootDir w) = Some (Inr (), w3)"
      by simp
    have copied: "lookup (fs w3) (?T @ [''package.json'']) = Some (File body)"
      using c' src ok ap by (rule copyDirectory_copies_file)
    have "processPackageJson parse stringify rootDir (console_log processing_message w3)
        = Inl SyntaxError"
      using assms(2) copied
      by (simp add: processPackageJson_def existsSync_def readFileSync_def and_then_def)
    then have "processTemplateFiles parse stringify rootDir (console_log processing_message w3)
        = (Inl SyntaxError, console_log processing_message w3)"
      by (simp add: processTemplateFiles_def)
    with c' have "buildTemplate n re parse stringify rootDir w
        = Some (Inl SyntaxError, console_log processing_message w3)"
      by (simp add: buildTemplate_def)
    then show ?thesis by (simp add: build_template_script_def)
  qed
qed

text \<open>
  C5, as the code has it. A manifest that does not parse is fatal: when the manifest
  in the source root is a regular file that \<^verbatim>\<open>JSON.parse\<close> rejects, every run of the
  script with more fuel than the filesystem is high ends with exit code 1. A missing
  manifest is not: when \<open>processTemplateFiles\<close> runs in a world where the template
  directory is a directory that holds no manifest, and neither \<^verbatim>\<open>.gitignore\<close> nor
  \<^verbatim>\<open>README.md\<close> is a directory there, it returns normally, having written the ignore
  file and the readme, and the template directory still has no manifest.
\<close>

theorem unparseable_manifest_fails_build:
  "(lookup (fs w) (rootDir @ [''package.json'']) = Some (File body) \<and> parse body = None
      \<and> height (fs w) < n
    \<longrightarrow> (\<exists>w'. build_template_script n re parse stringify rootDir w = Some (1, w')))
   \<and> (statSync_isDirectory v (templateDir rootDir) = Inr True
      \<and> \<not> existsSync v (templateDir rootDir @ [''package.json''])
      \<and> statSync_isDirectory v (templateDir rootDir @ [''.gitignore'']) \<noteq> Inr True
      \<and> statSync_isDirectory v (templateDir rootDir @ [''README.md'']) \<noteq> Inr True
    \<longrightarrow> (\<exists>v'. processTemplateFiles parse stringify rootDir v = (Inr (), v')
          \<and> \<not> existsSync v' (templateDir rootDir @ [''package.json''])
          \<and> readFileSync v' (templateDir rootDir @ [''.gitignore'']) = Inr gitignoreContent
          \<and> readFileSync v' (templateDir rootDir @ [''README.md'']) = Inr readmeContent))"
  using unparseable_manifest_exit[of w rootDir body parse n re stringify]
    processTemplateFiles_without_manifest[of v rootDir parse stringify]
  by blast

theorem unparseable_manifest_fails_build_witness:
  "example_parse ''{ not json'' = None
   \<and> map_option fst
       (build_template_script (Suc (Suc (Suc 0))) (\<lambda>s t. False) example_parse example_stringify
          [''proj''] example_broken)
     = Some 1
   \<and> \<not> existsSync example_unprocessed [''proj'', ''template'', ''package.json'']
   \<and> (case processTemplateFiles example_parse example_stringify [''proj''] example_unprocessed of
        (r, v') \<Rightarrow> (r, existsSync v' [''proj'', ''template'', ''package.json''],
                    readFileSync v' [''proj'', ''template'', ''.gitignore''] = Inr gitignoreContent,
                    readFileSync v' [''proj'', ''template'', ''README.md''] = Inr readmeContent))
     = (Inr (), False, True, True)"
proof -
  have 1: "lookup (fs example_broken) ([''proj''] @ [''package.json'']) = Some (File ''{ not json'')"
    by (simp add: example_defs)
  have 2: "example_parse ''{ not json'' = None"
    by (simp add: example_defs)
  have 3: "height (fs example_broken) < Suc (Suc (Suc 0))"
    by (simp add: example_defs)
  have 4: "statSync_isDirectory example_unprocessed (templateDir [''proj'']) = Inr True"
    "\<not> existsSync example_unprocessed (templateDir [''proj''] @ [''package.json''])"
    "statSync_isDirectory example_unprocessed (templateDir [''proj''] @ [''.gitignore'']) \<noteq> Inr True"
    "statSync_isDirectory example_unprocessed (templateDir [''proj''] @ [''README.md'']) \<noteq> Inr True"
    by (simp_all add: example_unprocessed_def statSync_isDirectory_def existsSync_def templateDir_def)
  from unparseable_manifest_fails_build[where parse = example_parse and re = "\<lambda>s t. False"
      and stringify = example_stringify and w = example_broken and rootDir = "[''proj'']"
      and body = "''{ not json''" and n = "Suc (Suc (Suc 0))" and v = example_unprocessed]
    1 2 3 4
  show ?thesis by (auto simp: templateDir_def)
qed

text \<open>
  The claim C5 fails for a missing manifest: the source tree \<open>example_no_manifest\<close> has
  none, so the template directory gets none, and the build ends with exit code 0.
\<close>

theorem missing_manifest_counterexample:
  "map_option (\<lambda>(code, w'). (code, existsSync w' [''proj'', ''template'', ''package.json''],
                             existsSync w' [''proj'', ''template'', ''index.html'']))
     (build_template_script (Suc (Suc 0)) (\<lambda>s t. False) example_parse example_stringify
        [''proj''] example_no_manifest)
   = Some (0, False, True)"
  by (simp add: build_defs cli_defs example_defs)

section \<open>The test of the generator\<close>

lemmas test_defs = test_cli_script_def testCLI_def testCLI_try_def verify_package_json_def
  testProjectPath_def testProjectName_def essentialFiles_def cleanup_def scripted_exec_def
  example_child_def example_checkout_def

lemma testCLI_never_throws: "fst (testCLI exec parse rootDir test_install_env w) \<noteq> Threw e"
  by (simp add: testCLI_def split: prod.splits sum.splits)

text \<open>
  C9. The claim holds of the handler at the end of the script, which calls
  \<open>cleanup\<close>; but \<open>testCLI\<close> catches every exception itself and ends the process there,
  so that handler never runs (\<open>testCLI_never_throws\<close>). On every machine and from every
  world: when the body of the \<^verbatim>\<open>try\<close> block throws \<open>e\<close> in the world \<open>w1\<close>, the script
  ends with exit code 1 in \<open>w1\<close> with one more line on the terminal, the failure. The
  filesystem is that of \<open>w1\<close>: a test project directory that was there when the
  assertion failed is still there when the process has ended.
\<close>

theorem failed_test_leaves_project_directory:
  assumes "testCLI_try exec parse rootDir test_install_env
             (console_log ([CHR 0xF0, CHR 0x9F, CHR 0xA7, CHR 0xAA] @ '' Testing CLI...'' @ [CHR 0x0A]) w) = (Inl e, w1)"
  shows "test_cli_script exec parse rootDir test_install_env w
          = (1, w1\<lparr>console := console w1
                   @ [ErrorLog ([CHR 0x0A, CHR 0xE2, CHR 0x9D, CHR 0x8C] @ '' CLI test failed:'') e]\<rparr>)"
  using assms by (simp add: test_cli_script_def testCLI_def emit_def)

text \<open>
  So it is on the example checkout, which lacks \<^verbatim>\<open>src/main.tsx\<close>: the template is
  built, the generator makes the test project, the test fails with exit code 1, the
  failure is the last line printed, and the test project directory is still there.
\<close>

theorem failed_test_leaves_project_directory_witness:
  "(case test_cli_script scripted_exec example_parse [''pkg''] False example_checkout of
      (code, w') \<Rightarrow> (code, existsSync w' (testProjectPath [''pkg'']), last (console w')))
   = (1, True,
      ErrorLog ([CHR 0x0A, CHR 0xE2, CHR 0x9D, CHR 0x8C] @ '' CLI test failed:'')
        (Error ''Essential file missing: src/main.tsx''))"
proof -
  obtain r w1 where run: "testCLI_try scripted_exec example_parse [''pkg''] False
      (console_log ([CHR 0xF0, CHR 0x9F, CHR 0xA7, CHR 0xAA] @ '' Testing CLI...'' @ [CHR 0x0A])
         example_checkout) = (r, w1)"
    by (cases "testCLI_try scripted_exec example_parse [''pkg''] False
      (console_log ([CHR 0xF0, CHR 0x9F, CHR 0xA7, CHR 0xAA] @ '' Testing CLI...'' @ [CHR 0x0A])
         example_checkout)") simp
  have "fst (testCLI_try scripted_exec example_parse [''pkg''] False
      (console_log ([CHR 0xF0, CHR 0x9F, CHR 0xA7, CHR 0xAA] @ '' Testing CLI...'' @ [CHR 0x0A])
         example_checkout)) = Inl (Error ''Essential file missing: src/main.tsx'')"
    by (simp add: test_defs build_defs cli_defs example_defs success_message_def)
  with run have r: "r = Inl (Error ''Essential file missing: src/main.tsx'')" by simp
  have "existsSync (snd (testCLI_try scripted_exec example_parse [''pkg''] False
      (console_log ([CHR 0xF0, CHR 0x9F, CHR 0xA7, CHR 0xAA] @ '' Testing CLI...'' @ [CHR 0x0A])
         example_checkout))) (testProjectPath [''pkg''])"
    by (simp add: test_defs build_defs cli_defs example_defs success_message_def)
  with run have there: "existsSync w1 (testProjectPath [''pkg''])" by simp
  from failed_test_leaves_project_directory[OF run[unfolded r]] there
  show ?thesis by (simp add: existsSync_def)
qed

end
